theory Spec2Isabelle
  imports Complex_Main
begin

section \<open>Numeric values\<close>

text \<open>
  The window library and the Chebyshev-II designer compute on NumPy \<open>float64\<close> values.
  A value is modelled as a real number or one of the three non-finite results that NumPy
  produces instead of raising: dividing by zero yields \<open>inf\<close> or \<open>nan\<close> (with a warning
  only), and every operation on \<open>nan\<close> yields \<open>nan\<close>.  Finite arithmetic is exact:
  rounding, overflow of finite results and the sign of zero are not modelled (a zero
  divisor counts as \<open>+0.0\<close>).  Where a property depends on rounding, as the unit gain of
  a normalized window does, the operations concerned are given a second time with the
  rounding as a parameter (\<open>cgain_rounded\<close>, \<open>window_rounded\<close>).
\<close>

datatype npfloat = Fin real | PInf | NInf | NaN

fun fadd :: "npfloat \<Rightarrow> npfloat \<Rightarrow> npfloat" where
  "fadd (Fin a) (Fin b) = Fin (a + b)"
| "fadd NaN y = NaN"
| "fadd x NaN = NaN"
| "fadd PInf NInf = NaN"
| "fadd NInf PInf = NaN"
| "fadd PInf y = PInf"
| "fadd x PInf = PInf"
| "fadd NInf y = NInf"
| "fadd x NInf = NInf"

fun fmul :: "npfloat \<Rightarrow> npfloat \<Rightarrow> npfloat" where
  "fmul (Fin a) (Fin b) = Fin (a * b)"
| "fmul NaN y = NaN"
| "fmul x NaN = NaN"
| "fmul (Fin a) PInf = (if a = 0 then NaN else if 0 < a then PInf else NInf)"
| "fmul (Fin a) NInf = (if a = 0 then NaN else if 0 < a then NInf else PInf)"
| "fmul PInf (Fin b) = (if b = 0 then NaN else if 0 < b then PInf else NInf)"
| "fmul NInf (Fin b) = (if b = 0 then NaN else if 0 < b then NInf else PInf)"
| "fmul PInf PInf = PInf"
| "fmul PInf NInf = NInf"
| "fmul NInf PInf = NInf"
| "fmul NInf NInf = PInf"

fun fdiv :: "npfloat \<Rightarrow> npfloat \<Rightarrow> npfloat" where
  "fdiv (Fin a) (Fin b) =
     (if b = 0 then (if a = 0 then NaN else if 0 < a then PInf else NInf)
      else Fin (a / b))"
| "fdiv NaN y = NaN"
| "fdiv x NaN = NaN"
| "fdiv (Fin a) PInf = Fin 0"
| "fdiv (Fin a) NInf = Fin 0"
| "fdiv PInf (Fin b) = (if 0 \<le> b then PInf else NInf)"
| "fdiv NInf (Fin b) = (if 0 \<le> b then NInf else PInf)"
| "fdiv PInf PInf = NaN"
| "fdiv PInf NInf = NaN"
| "fdiv NInf PInf = NaN"
| "fdiv NInf NInf = NaN"

fun fcos :: "npfloat \<Rightarrow> npfloat" where
  "fcos (Fin a) = Fin (cos a)"
| "fcos x = NaN"

text \<open>The comparison \<open>x < y\<close>; every comparison with \<open>nan\<close> is false.\<close>

fun flt :: "npfloat \<Rightarrow> npfloat \<Rightarrow> bool" where
  "flt (Fin a) (Fin b) = (a < b)"
| "flt NaN y = False"
| "flt x NaN = False"
| "flt x NInf = False"
| "flt PInf y = False"
| "flt NInf y = True"
| "flt x PInf = True"

text \<open>\<open>np.sum\<close> of a one-dimensional array.\<close>

definition fsum :: "npfloat list \<Rightarrow> npfloat" where
  "fsum xs = foldl fadd (Fin 0) xs"

text \<open>
  A value that a window routine handles: the empty Python list \<open>[]\<close> (the reset value of
  the cache), a scalar float, or a one-dimensional array.
\<close>

datatype ndval = EmptyList | Scalar npfloat | Array "npfloat list"

datatype error =
    KeyError string
  | TypeError
  | IndexError
  | ValueError
  | ImportError string
  | LibError string

section \<open>Cosine-sum windows (\<open>pyfda_fft_windows_lib.py\<close>)\<close>

text \<open>\<open>x = np.arange(N) * 2 * np.pi / L\<close>\<close>

definition x_grid :: "int \<Rightarrow> int \<Rightarrow> npfloat list" where
  "x_grid N L =
     map (\<lambda>n. fdiv (fmul (Fin (of_int (n * 2))) (Fin pi)) (Fin (of_int L))) [0..N - 1]"

text \<open>
  \<open>win += arr\<close>: \<open>win\<close> starts as the Python float \<open>a[0]\<close>; adding an array to a scalar
  broadcasts, adding it to an array of the same length is elementwise.
\<close>

fun iadd :: "ndval \<Rightarrow> npfloat list \<Rightarrow> ndval" where
  "iadd (Scalar s) ys = Array (map (fadd s) ys)"
| "iadd (Array xs) ys = Array (map2 fadd xs ys)"
| "iadd EmptyList ys = Array ys"

text \<open>The loop \<open>for k in range(1, len(a)): win += a[k] * np.cos(k*x)\<close>.\<close>

primrec cosine_loop :: "npfloat list \<Rightarrow> npfloat list \<Rightarrow> nat list \<Rightarrow> ndval \<Rightarrow> ndval" where
  "cosine_loop a x [] win = win"
| "cosine_loop a x (k # ks) win =
     cosine_loop a x ks
       (iadd win (map (\<lambda>xn. fmul (a ! k) (fcos (fmul (Fin (of_nat k)) xn))) x))"

definition calc_cosine_window :: "int \<Rightarrow> bool \<Rightarrow> npfloat list \<Rightarrow> error + ndval" where
  "calc_cosine_window N symm a =
     (let L = (if symm then N - 1 else N);
          x = x_grid N L
      in if a = [] then Inl IndexError
         else Inr (cosine_loop a x [1..<length a] (Scalar (a ! 0))))"

definition a5 :: "real list" where
  "a5 = [0.3232153788877343,
         - 0.4714921439576260,
         0.1755341299601972,
         - 0.02849699010614994,
         0.001261357088292677]"

definition a7 :: "real list" where
  "a7 = [0.2712203605850388,
         - 0.4334446123274422,
         0.2180041228929303,
         - 0.06578534329560609,
         0.01076186730534183,
         - 0.0007700127105808265,
         0.00001368088305992921]"

definition a9 :: "real list" where
  "a9 = [0.2384331152777942,
         - 0.4005545348643820,
         0.2358242530472107,
         - 0.09527918858383112,
         0.02537395516617152,
         - 0.004152432907505835,
         0.0003685604163298180,
         - 0.00001384355593917030,
         0.0000001161808358932861]"

definition blackmanharris5 :: "int \<Rightarrow> bool \<Rightarrow> error + ndval" where
  "blackmanharris5 N symm = calc_cosine_window N symm (map Fin a5)"

definition blackmanharris7 :: "int \<Rightarrow> bool \<Rightarrow> error + ndval" where
  "blackmanharris7 N symm = calc_cosine_window N symm (map Fin a7)"

definition blackmanharris9 :: "int \<Rightarrow> bool \<Rightarrow> error + ndval" where
  "blackmanharris9 N symm = calc_cosine_window N symm (map Fin a9)"

text \<open>
  The closed form of the specification, written from its words, over the real numbers:
  \<open>w[n] = a[0] + \<Sum>\<^bsub>j=1..k\<^esub> a[j]\<cdot>cos(j\<cdot>x[n])\<close> with \<open>x[n] = n\<cdot>2\<pi> / L\<close>, \<open>L = N-1\<close> if
  symmetric else \<open>N\<close>, for \<open>n\<close> in \<open>[0, N)\<close>.  The formula has a value only for \<open>L \<noteq> 0\<close>.
\<close>

definition spec_x :: "int \<Rightarrow> bool \<Rightarrow> int \<Rightarrow> real" where
  "spec_x N symm n = of_int n * (2 * pi) / of_int (if symm then N - 1 else N)"

definition spec_cosine_sum :: "real list \<Rightarrow> int \<Rightarrow> bool \<Rightarrow> int \<Rightarrow> real" where
  "spec_cosine_sum a N symm n =
     a ! 0 + (\<Sum>j\<leftarrow>[1..<length a]. a ! j * cos (of_nat j * spec_x N symm n))"

definition spec_cosine_window :: "real list \<Rightarrow> int \<Rightarrow> bool \<Rightarrow> real list" where
  "spec_cosine_window a N symm = map (spec_cosine_sum a N symm) [0..N - 1]"

section \<open>The window dictionary (\<open>pyfda_fft_windows_lib.py\<close>)\<close>

text \<open>
  One parameter record of a window family (\<open>'par'\<close>): its current value and its bounds.
  The display texts (\<open>name\<close>, \<open>name_tex\<close>, \<open>tooltip\<close>) play no part in any computation
  and are left out.
\<close>

record par_spec =
  val :: npfloat
  min_val :: npfloat
  max_val :: npfloat

text \<open>
  A window function object is called as \<open>f(N, p\<^sub>0, \<dots>, sym=sym)\<close>.  It raises an
  exception (a subclass of \<open>Exception\<close>, with its text), returns \<open>None\<close>, or returns a value.
\<close>

datatype gen_result = Raise string | Return "ndval option"

type_synonym win_fnct = "int \<Rightarrow> npfloat list \<Rightarrow> bool \<Rightarrow> gen_result"

text \<open>
  The sub-dictionary of one window family.  \<open>fn_name\<close> and (optionally) \<open>par\<close> come from
  the catalogue; \<open>win_fnct\<close> and \<open>n_par\<close> are added by \<open>set_window_name\<close>, \<open>nenbw\<close> and
  \<open>cgain\<close> by \<open>get_window\<close>.  A key that is not set is \<open>None\<close>; the value stored under
  \<open>win_fnct\<close> may itself be Python's \<open>None\<close>.  The catalogue's \<open>info\<close> texts and the
  \<open>props\<close> of \<open>Boxcar\<close> are read by no function and are left out.
\<close>

record win_entry =
  fn_name :: string
  par :: "par_spec list option"
  win_fnct :: "win_fnct option option"
  n_par :: "nat option"
  nenbw :: "npfloat option"
  cgain :: "npfloat option"

text \<open>
  The window dictionary: the keys \<open>cur_win_name\<close> and \<open>win\<close> and one key per window
  family, all in one Python dictionary.  \<open>entries\<close> holds the families; it never uses the
  two reserved keys.
\<close>

record win_dict =
  cur_win_name :: "string option"
  win :: "ndval option"
  entries :: "string \<rightharpoonup> win_entry"

text \<open>
  What the library takes from outside: the attributes of \<open>scipy.signal.windows\<close>
  (\<open>getattr(sig.windows, name, None)\<close>), the importable modules with their attributes
  (\<open>importlib.import_module\<close>, which raises for an unknown module), and \<open>safe_eval\<close> of
  \<open>pyfda_lib\<close>, which turns the text of a line edit into a float, given a fallback value.
\<close>

record env =
  sig_windows :: "string \<rightharpoonup> win_fnct"
  import_module :: "string \<rightharpoonup> (string \<rightharpoonup> win_fnct)"
  safe_eval :: "string \<Rightarrow> npfloat \<Rightarrow> npfloat"

text \<open>The records written to the logger, by the call that writes them.\<close>

datatype log_msg =
    WarnUnknownWindow string
  | ErrNoScipyWindow string
  | ErrNoValidWindow string
  | InfoDpss
  | ErrUnsupportedParams nat
  | ErrWindowFunction string string
  | WarnFallingBack

definition mk_window :: "string \<Rightarrow> par_spec list option \<Rightarrow> win_entry" where
  "mk_window fn ps =
     \<lparr>fn_name = fn, par = ps, win_fnct = None, n_par = None, nenbw = None, cgain = None\<rparr>"

definition mk_par :: "real \<Rightarrow> real \<Rightarrow> real \<Rightarrow> par_spec" where
  "mk_par v lo hi = \<lparr>val = Fin v, min_val = Fin lo, max_val = Fin hi\<rparr>"

definition all_windows_dict :: win_dict where
  "all_windows_dict =
     \<lparr>cur_win_name = Some ''Rectangular'',
      win = None,
      entries = map_of
        [(''Boxcar'', mk_window ''boxcar'' None),
         (''Rectangular'', mk_window ''boxcar'' None),
         (''Barthann'', mk_window ''barthann'' None),
         (''Bartlett'', mk_window ''bartlett'' None),
         (''Blackman'', mk_window ''blackman'' None),
         (''Blackmanharris'', mk_window ''blackmanharris'' None),
         (''Blackmanharris_5'',
            mk_window ''pyfda.libs.pyfda_fft_windows_lib.blackmanharris5'' None),
         (''Blackmanharris_7'',
            mk_window ''pyfda.libs.pyfda_fft_windows_lib.blackmanharris7'' None),
         (''Blackmanharris_9'',
            mk_window ''pyfda.libs.pyfda_fft_windows_lib.blackmanharris9'' None),
         (''Bohman'', mk_window ''bohman'' None),
         (''Cosine'', mk_window ''cosine'' None),
         (''Dolph-Chebyshev'', mk_window ''chebwin'' (Some [mk_par 80 45 300])),
         (''DPSS'', mk_window ''dpss'' (Some [mk_par 3 0 100])),
         (''Flattop'', mk_window ''flattop'' None),
         (''General Gaussian'',
            mk_window ''general_gaussian'' (Some [mk_par 1.5 0 20, mk_par 5 0 100])),
         (''Gauss'', mk_window ''gaussian'' (Some [mk_par 5 0 100])),
         (''Hamming'', mk_window ''hamming'' None),
         (''Hann'', mk_window ''hann'' None),
         (''Kaiser'', mk_window ''kaiser'' (Some [mk_par 10 0 30])),
         (''Nuttall'', mk_window ''nuttall'' None),
         (''Parzen'', mk_window ''parzen'' None),
         (''Slepian'', mk_window ''slepian'' (Some [mk_par 0.3 0 100])),
         (''Triangular'', mk_window ''triang'' None),
         (''Tukey'', mk_window ''tukey'' (Some [mk_par 0.25 0 1]))]\<rparr>"

text \<open>\<open>key in win_dict\<close>\<close>

definition in_win_dict :: "win_dict \<Rightarrow> string \<Rightarrow> bool" where
  "in_win_dict d k \<longleftrightarrow>
     (k = ''cur_win_name'' \<and> cur_win_name d \<noteq> None)
     \<or> (k = ''win'' \<and> win d \<noteq> None)
     \<or> entries d k \<noteq> None"

text \<open>
  \<open>win_dict[key]\<close> used as a sub-dictionary (the next step subscripts it with a string).
  Under \<open>cur_win_name\<close> there is a string and under \<open>win\<close> a list or an array, which
  cannot be subscripted with a string.
\<close>

definition window_of :: "win_dict \<Rightarrow> string \<Rightarrow> error + win_entry" where
  "window_of d k =
     (if k = ''cur_win_name'' \<and> cur_win_name d \<noteq> None then Inl TypeError
      else if k = ''win'' \<and> win d \<noteq> None then
        (case win d of Some EmptyList \<Rightarrow> Inl TypeError | _ \<Rightarrow> Inl IndexError)
      else case entries d k of None \<Rightarrow> Inl (KeyError k) | Some e \<Rightarrow> Inr e)"

text \<open>
  \<open>fn_name.split('.')[-1]\<close> and \<open>fn_name[:fn_name.rfind(".")]\<close>; the second is used only
  when the name has a dot.
\<close>

definition fnct_of :: "string \<Rightarrow> string" where
  "fnct_of fn = rev (takeWhile (\<lambda>c. c \<noteq> CHR ''.'') (rev fn))"

definition mod_name_of :: "string \<Rightarrow> string" where
  "mod_name_of fn = rev (tl (dropWhile (\<lambda>c. c \<noteq> CHR ''.'') (rev fn)))"

text \<open>
  The lookup of the function object in \<open>set_window_name\<close>: in \<open>scipy.signal.windows\<close>
  for a plain name, in the named module otherwise.  The result is what \<open>getattr\<close> gave
  (\<open>None\<close> when there is no such attribute) and the error record to log in that case.
\<close>

definition find_win_fnct :: "env \<Rightarrow> string \<Rightarrow> error + (win_fnct option \<times> log_msg)" where
  "find_win_fnct ev fn =
     (if CHR ''.'' \<notin> set fn then Inr (sig_windows ev (fnct_of fn), ErrNoScipyWindow fn)
      else case import_module ev (mod_name_of fn) of
             None \<Rightarrow> Inl (ImportError (mod_name_of fn))
           | Some m \<Rightarrow> Inr (m (fnct_of fn), ErrNoValidWindow fn))"

definition set_window_name ::
  "env \<Rightarrow> win_dict \<Rightarrow> string \<Rightarrow> error + (win_fnct option \<times> win_dict \<times> log_msg list)" where
  "set_window_name ev wd win_name0 =
     (let known = in_win_dict wd win_name0;
          lg1 = (if known then [] else [WarnUnknownWindow win_name0]);
          win_name = (if known then win_name0 else ''Rectangular'')
      in case window_of wd win_name of
           Inl e \<Rightarrow> Inl e
         | Inr d \<Rightarrow>
           (let n = (case par d of Some ps \<Rightarrow> length ps | None \<Rightarrow> 0)
            in case find_win_fnct ev (fn_name d) of
                 Inl e \<Rightarrow> Inl e
               | Inr (found, miss) \<Rightarrow>
                 (let lg2 = (if found = None then [miss] else []);
                      f = (if found = None then sig_windows ev ''boxcar'' else found);
                      win_name' = (if found = None then ''Rectangular'' else win_name);
                      n' = (if found = None then 0 else n);
                      wd1 = wd\<lparr>cur_win_name := Some win_name', win := Some EmptyList\<rparr>
                  in case entries wd1 win_name' of
                       None \<Rightarrow> Inl (KeyError win_name')
                     | Some d' \<Rightarrow>
                         Inr (f,
                              wd1\<lparr>entries := (entries wd1)
                                     (win_name' \<mapsto> d'\<lparr>win_fnct := Some f, n_par := Some n'\<rparr>)\<rparr>,
                              lg1 @ lg2))))"

text \<open>\<open>len(win_dict['win'])\<close>; a float has no length.\<close>

definition py_len :: "ndval \<Rightarrow> error + int" where
  "py_len w =
     (case w of EmptyList \<Rightarrow> Inr 0
      | Scalar x \<Rightarrow> Inl TypeError
      | Array xs \<Rightarrow> Inr (int (length xs)))"

text \<open>\<open>win_dict[win_name]['par'][i]['val']\<close>, evaluated inside the \<open>try\<close> block.\<close>

definition par_val :: "win_entry \<Rightarrow> nat \<Rightarrow> string + npfloat" where
  "par_val d i =
     (case par d of
        None \<Rightarrow> Inl ''KeyError''
      | Some ps \<Rightarrow> if i < length ps then Inr (val (ps ! i)) else Inl ''IndexError'')"

text \<open>Calling the stored function object; calling \<open>None\<close> raises a \<open>TypeError\<close>.\<close>

definition call_fnct :: "win_fnct option \<Rightarrow> int \<Rightarrow> npfloat list \<Rightarrow> bool \<Rightarrow> gen_result" where
  "call_fnct f N ps symm =
     (case f of None \<Rightarrow> Raise ''TypeError'' | Some g \<Rightarrow> g N ps symm)"

text \<open>
  The body of the \<open>try\<close> block of \<open>get_window\<close>, with the records it logs.  Every
  exception inside it, also one of a failing subscript, ends in the \<open>except\<close> clause.
\<close>

definition try_window ::
  "env \<Rightarrow> win_entry \<Rightarrow> win_fnct option \<Rightarrow> nat \<Rightarrow> int \<Rightarrow> bool \<Rightarrow> log_msg list \<times> gen_result" where
  "try_window ev d f n N symm =
     (if fn_name d = ''dpss'' then
        ([InfoDpss],
         case sig_windows ev ''dpss'' of
           None \<Rightarrow> Raise ''AttributeError''
         | Some g \<Rightarrow> (case par_val d 0 of Inl m \<Rightarrow> Raise m | Inr p0 \<Rightarrow> g N [p0] symm))
      else if n = 0 then ([], call_fnct f N [] symm)
      else if n = 1 then
        ([], case par_val d 0 of Inl m \<Rightarrow> Raise m | Inr p0 \<Rightarrow> call_fnct f N [p0] symm)
      else if n = 2 then
        ([], case par_val d 0 of
               Inl m \<Rightarrow> Raise m
             | Inr p0 \<Rightarrow>
                 (case par_val d 1 of
                    Inl m \<Rightarrow> Raise m
                  | Inr p1 \<Rightarrow> call_fnct f N [p0, p1] symm))
      else ([ErrUnsupportedParams n], Return None))"

text \<open>\<open>try: \<dots> except Exception as e: logger.error(\<dots>); w = None\<close>\<close>

definition raw_window ::
  "env \<Rightarrow> win_entry \<Rightarrow> win_fnct option \<Rightarrow> nat \<Rightarrow> int \<Rightarrow> bool \<Rightarrow> log_msg list \<times> ndval option" where
  "raw_window ev d f n N symm =
     (case try_window ev d f n N symm of
        (lg, Raise m) \<Rightarrow> (lg @ [ErrWindowFunction (fn_name d) m], None)
      | (lg, Return w) \<Rightarrow> (lg, w))"

text \<open>\<open>np.ones(N)\<close>; a negative dimension raises a \<open>ValueError\<close>.\<close>

definition np_ones :: "int \<Rightarrow> error + ndval" where
  "np_ones N = (if N < 0 then Inl ValueError else Inr (Array (replicate (nat N) (Fin 1))))"

definition np_sum :: "ndval \<Rightarrow> npfloat" where
  "np_sum w = (case w of EmptyList \<Rightarrow> Fin 0 | Scalar x \<Rightarrow> x | Array xs \<Rightarrow> fsum xs)"

definition np_square :: "ndval \<Rightarrow> ndval" where
  "np_square w =
     (case w of EmptyList \<Rightarrow> Array []
      | Scalar x \<Rightarrow> Scalar (fmul x x)
      | Array xs \<Rightarrow> Array (map (\<lambda>x. fmul x x) xs))"

text \<open>\<open>w /= cgain\<close>; a Python list cannot be divided.\<close>

definition idiv :: "ndval \<Rightarrow> npfloat \<Rightarrow> error + ndval" where
  "idiv w c =
     (case w of EmptyList \<Rightarrow> Inl TypeError
      | Scalar x \<Rightarrow> Inr (Scalar (fdiv x c))
      | Array xs \<Rightarrow> Inr (Array (map (\<lambda>x. fdiv x c) xs)))"

text \<open>
  The part of \<open>get_window\<close> after the test of the cache: it fetches the function object of
  \<open>win_name\<close>, runs it, falls back to \<open>np.ones(N)\<close>, computes the two statistics on the
  array as generated, stores them, divides the array by the coherent gain and stores and
  returns it.
\<close>

definition compute_window ::
  "env \<Rightarrow> win_dict \<Rightarrow> int \<Rightarrow> string \<Rightarrow> bool \<Rightarrow> error + (ndval \<times> win_dict \<times> log_msg list)" where
  "compute_window ev wd N win_name symm =
     (case window_of wd win_name of
        Inl e \<Rightarrow> Inl e
      | Inr d \<Rightarrow>
        (case win_fnct d of
           None \<Rightarrow> Inl (KeyError ''win_fnct'')
         | Some f \<Rightarrow>
           (case n_par d of
              None \<Rightarrow> Inl (KeyError ''n_par'')
            | Some n \<Rightarrow>
              (let (lg, r) = raw_window ev d f n N symm;
                   lg' = (if r = None then lg @ [WarnFallingBack] else lg)
               in case (case r of None \<Rightarrow> np_ones N | Some w \<Rightarrow> Inr w) of
                    Inl e \<Rightarrow> Inl e
                  | Inr w \<Rightarrow>
                    (let nenbw' = fdiv (fmul (Fin (of_int N)) (np_sum (np_square w)))
                                       (fmul (np_sum w) (np_sum w));
                         cgain' = fdiv (np_sum w) (Fin (of_int N));
                         wd1 = wd\<lparr>entries := (entries wd)
                                  (win_name \<mapsto> d\<lparr>nenbw := Some nenbw', cgain := Some cgain'\<rparr>)\<rparr>
                     in case idiv w cgain' of
                          Inl e \<Rightarrow> Inl e
                        | Inr w' \<Rightarrow> Inr (w', wd1\<lparr>win := Some w'\<rparr>, lg'))))))"

definition get_window ::
  "env \<Rightarrow> win_dict \<Rightarrow> int \<Rightarrow> string option \<Rightarrow> bool
     \<Rightarrow> error + (ndval \<times> win_dict \<times> log_msg list)" where
  "get_window ev wd N win_name symm =
     (if win_name = None \<or> (cur_win_name wd \<noteq> None \<and> win_name = cur_win_name wd) then
        (case cur_win_name wd of
           None \<Rightarrow> Inl (KeyError ''cur_win_name'')
         | Some cur \<Rightarrow>
           (case win wd of
              None \<Rightarrow> Inl (KeyError ''win'')
            | Some c \<Rightarrow>
              (case py_len c of
                 Inl e \<Rightarrow> Inl e
               | Inr l \<Rightarrow> if l = N then Inr (c, wd, []) else compute_window ev wd N cur symm)))
      else
        (case cur_win_name wd of
           None \<Rightarrow> Inl (KeyError ''cur_win_name'')
         | Some cur \<Rightarrow> compute_window ev wd N (the win_name) symm))"

text \<open>
  The generators of this module that the catalogue names by a qualified name, as function
  objects: they take \<open>N\<close> and \<open>sym\<close> and no shape parameter.
\<close>

definition as_win_fnct :: "(int \<Rightarrow> bool \<Rightarrow> error + ndval) \<Rightarrow> win_fnct" where
  "as_win_fnct g N ps symm =
     (if ps = [] then (case g N symm of Inl e \<Rightarrow> Raise ''IndexError'' | Inr w \<Rightarrow> Return (Some w))
      else Raise ''TypeError'')"

definition pyfda_fft_windows_lib :: "string \<rightharpoonup> win_fnct" where
  "pyfda_fft_windows_lib =
     [''blackmanharris5'' \<mapsto> as_win_fnct blackmanharris5,
      ''blackmanharris7'' \<mapsto> as_win_fnct blackmanharris7,
      ''blackmanharris9'' \<mapsto> as_win_fnct blackmanharris9]"

subsection \<open>Normalization in floating point\<close>

text \<open>
  The functions above compute on real numbers.  The lines of \<open>get_window\<close> that normalize
  the array, \<open>cgain = np.sum(w) / N\<close> and \<open>w /= cgain\<close>, are given a second time for an
  array of finite values with the rounding of \<open>float64\<close> made explicit: \<open>rnd\<close> maps the
  exact quotient of a division to the float that is stored, and \<open>sm\<close> is \<open>np.sum\<close>, which
  adds in an order of its own and rounds every partial sum.  With \<open>rnd\<close> the identity and
  \<open>sm\<close> the exact sum they are what \<open>compute_window\<close> stores and returns.
\<close>

definition cgain_rounded ::
  "(real \<Rightarrow> real) \<Rightarrow> (real list \<Rightarrow> real) \<Rightarrow> int \<Rightarrow> real list \<Rightarrow> real" where
  "cgain_rounded rnd sm N w = rnd (sm w / of_int N)"

definition window_rounded ::
  "(real \<Rightarrow> real) \<Rightarrow> (real list \<Rightarrow> real) \<Rightarrow> int \<Rightarrow> real list \<Rightarrow> real list" where
  "window_rounded rnd sm N w = map (\<lambda>x. rnd (x / cgain_rounded rnd sm N w)) w"

subsection \<open>The selector widget (\<open>QFFTWinSelector\<close>)\<close>

text \<open>
  One parameter read back from its line edit: \<open>safe_eval\<close> of the text with the current
  value as fallback, then clamped to the declared bounds and stored.
\<close>

definition edit_par :: "env \<Rightarrow> par_spec \<Rightarrow> string \<Rightarrow> par_spec" where
  "edit_par ev p txt =
     (let param = safe_eval ev txt (val p);
          param' = (if flt param (min_val p) then min_val p
                    else if flt (max_val p) param then max_val p
                    else param)
      in p\<lparr>val := param'\<rparr>)"

text \<open>\<open>self.win_dict[cur]['par'][i]['val'] = param\<close> for the parameter read from \<open>txt\<close>.\<close>

definition store_par :: "env \<Rightarrow> win_dict \<Rightarrow> string \<Rightarrow> nat \<Rightarrow> string \<Rightarrow> error + win_dict" where
  "store_par ev wd cur i txt =
     (case window_of wd cur of
        Inl e \<Rightarrow> Inl e
      | Inr d \<Rightarrow>
        (case par d of
           None \<Rightarrow> Inl (KeyError ''par'')
         | Some ps \<Rightarrow>
             if i < length ps then
               Inr (wd\<lparr>entries := (entries wd)
                          (cur \<mapsto> d\<lparr>par := Some (ps[i := edit_par ev (ps ! i) txt])\<rparr>)\<rparr>)
             else Inl IndexError))"

text \<open>\<open>self.win_dict[cur]['n_par']\<close>\<close>

definition n_par_of :: "win_dict \<Rightarrow> string \<Rightarrow> error + nat" where
  "n_par_of wd cur =
     (case window_of wd cur of
        Inl e \<Rightarrow> Inl e
      | Inr d \<Rightarrow> (case n_par d of None \<Rightarrow> Inl (KeyError ''n_par'') | Some n \<Rightarrow> Inr n))"

text \<open>
  \<open>update_win_params\<close>, with the texts of the two line edits as arguments.  Writing the
  clamped value back into the line edit and emitting the signal do not touch the
  dictionary and are left out.
\<close>

definition update_win_params ::
  "env \<Rightarrow> win_dict \<Rightarrow> string \<Rightarrow> string \<Rightarrow> error + (win_dict \<times> log_msg list)" where
  "update_win_params ev wd text1 text2 =
     (case cur_win_name wd of
        None \<Rightarrow> Inl (KeyError ''cur_win_name'')
      | Some cur \<Rightarrow>
        (case set_window_name ev wd cur of
           Inl e \<Rightarrow> Inl e
         | Inr (f, wd1, lg) \<Rightarrow>
           (case n_par_of wd1 cur of
              Inl e \<Rightarrow> Inl e
            | Inr n \<Rightarrow>
              (case (if 1 < n then store_par ev wd1 cur 1 text2 else Inr wd1) of
                 Inl e \<Rightarrow> Inl e
               | Inr wd2 \<Rightarrow>
                 (case n_par_of wd2 cur of
                    Inl e \<Rightarrow> Inl e
                  | Inr n' \<Rightarrow>
                    (case (if 0 < n' then store_par ev wd2 cur 0 text1 else Inr wd2) of
                       Inl e \<Rightarrow> Inl e
                     | Inr wd3 \<Rightarrow> Inr (wd3, lg)))))))"

text \<open>\<open>update_win_type\<close>, with the text of the combo box as argument.\<close>

definition update_win_type ::
  "env \<Rightarrow> win_dict \<Rightarrow> string \<Rightarrow> error + (win_dict \<times> log_msg list)" where
  "update_win_type ev wd cur =
     (case set_window_name ev wd cur of
        Inl e \<Rightarrow> Inl e
      | Inr (f, wd1, lg) \<Rightarrow> Inr (wd1, lg))"

section \<open>The Chebyshev-II designer (\<open>cheby2.py\<close>)\<close>

text \<open>
  A value of the filter dictionary or of an instance attribute: a Python integer, a float,
  or a sequence (a list such as \<open>[self.F_PB, self.F_PB2]\<close>, the array of corner
  frequencies that the order estimation returns for a band filter, the coefficient arrays).
\<close>

datatype pyval = IntV int | FloatV npfloat | ListV "pyval list"

type_synonym fil_dict = "string \<rightharpoonup> pyval"

text \<open>The instance attributes that \<open>get_params\<close> sets.\<close>

record cheby2_self =
  self_N :: pyval
  self_F_PB :: pyval
  self_F_SB :: pyval
  self_F_PB2 :: pyval
  self_F_SB2 :: pyval
  self_F_SBC :: "pyval option"
  self_A_PB :: pyval
  self_A_SB :: pyval
  self_A_PB2 :: pyval
  self_A_SB2 :: pyval

text \<open>
  The routines the designer calls and does not define: \<open>scipy.signal.cheb2ord(wp, ws,
  gpass, gstop)\<close>, which returns the order and the corner frequency or frequencies,
  \<open>scipy.signal.cheby2(N, rs, Wn, btype, analog, output)\<close>, which returns the coefficients,
  and \<open>pyfda_lib.save_fil(fil_dict, arg, frmt, __name__)\<close>, which stores them in the
  dictionary.  Each may raise.  \<open>dunder_name\<close> is the value of \<open>__name__\<close>.
\<close>

record sig_env =
  cheb2ord :: "pyval \<Rightarrow> pyval \<Rightarrow> pyval \<Rightarrow> pyval \<Rightarrow> error + (pyval \<times> pyval)"
  cheby2 :: "pyval \<Rightarrow> pyval \<Rightarrow> pyval \<Rightarrow> string \<Rightarrow> bool \<Rightarrow> string \<Rightarrow> error + pyval"
  save_fil :: "fil_dict \<Rightarrow> pyval \<Rightarrow> string \<Rightarrow> string \<Rightarrow> error + fil_dict"
  dunder_name :: string

definition frmt :: string where
  "frmt = ''ba''"

definition bind_err :: "error + 'a \<Rightarrow> ('a \<Rightarrow> error + 'b) \<Rightarrow> error + 'b" where
  "bind_err m f = (case m of Inl e \<Rightarrow> Inl e | Inr x \<Rightarrow> f x)"

text \<open>\<open>fil_dict[key]\<close>\<close>

definition getitem :: "fil_dict \<Rightarrow> string \<Rightarrow> error + pyval" where
  "getitem fd k = (case fd k of None \<Rightarrow> Inl (KeyError k) | Some v \<Rightarrow> Inr v)"

text \<open>\<open>v * 2\<close>: a number is doubled, a list is repeated.\<close>

fun py_mul2 :: "pyval \<Rightarrow> pyval" where
  "py_mul2 (IntV i) = IntV (i * 2)"
| "py_mul2 (FloatV x) = FloatV (fmul x (Fin 2))"
| "py_mul2 (ListV xs) = ListV (xs @ xs)"

text \<open>\<open>v / 2.\<close>: true division of a number; a list cannot be divided.\<close>

fun py_div2 :: "pyval \<Rightarrow> error + pyval" where
  "py_div2 (IntV i) = Inr (FloatV (fdiv (Fin (of_int i)) (Fin 2)))"
| "py_div2 (FloatV x) = Inr (FloatV (fdiv x (Fin 2)))"
| "py_div2 (ListV xs) = Inl TypeError"

fun np_isscalar :: "pyval \<Rightarrow> bool" where
  "np_isscalar (IntV i) = True"
| "np_isscalar (FloatV x) = True"
| "np_isscalar (ListV xs) = False"

text \<open>\<open>v[i]\<close>\<close>

fun py_index :: "pyval \<Rightarrow> nat \<Rightarrow> error + pyval" where
  "py_index (ListV xs) i = (if i < length xs then Inr (xs ! i) else Inl IndexError)"
| "py_index v i = Inl TypeError"

definition get_params :: "fil_dict \<Rightarrow> error + cheby2_self" where
  "get_params fd =
     bind_err (getitem fd ''N'') (\<lambda>n.
     bind_err (getitem fd ''F_PB'') (\<lambda>f_pb.
     bind_err (getitem fd ''F_SB'') (\<lambda>f_sb.
     bind_err (getitem fd ''F_PB2'') (\<lambda>f_pb2.
     bind_err (getitem fd ''F_SB2'') (\<lambda>f_sb2.
     bind_err (getitem fd ''A_PB'') (\<lambda>a_pb.
     bind_err (getitem fd ''A_SB'') (\<lambda>a_sb.
     bind_err (getitem fd ''A_PB2'') (\<lambda>a_pb2.
     bind_err (getitem fd ''A_SB2'') (\<lambda>a_sb2.
       Inr \<lparr>self_N = n,
            self_F_PB = py_mul2 f_pb,
            self_F_SB = py_mul2 f_sb,
            self_F_PB2 = py_mul2 f_pb2,
            self_F_SB2 = py_mul2 f_sb2,
            self_F_SBC = None,
            self_A_PB = a_pb,
            self_A_SB = a_sb,
            self_A_PB2 = a_pb2,
            self_A_SB2 = a_sb2\<rparr>)))))))))"

definition save :: "sig_env \<Rightarrow> cheby2_self \<Rightarrow> fil_dict \<Rightarrow> pyval \<Rightarrow> error + fil_dict" where
  "save sg st fd arg =
     bind_err (save_fil sg fd arg frmt (dunder_name sg)) (\<lambda>fd1.
       case self_F_SBC st of
         None \<Rightarrow> Inr fd1
       | Some c \<Rightarrow>
           (let fd2 = fd1(''N'' \<mapsto> self_N st)
            in if np_isscalar c then
                 bind_err (py_div2 c) (\<lambda>v. Inr (fd2(''F_SB'' \<mapsto> v)))
               else
                 bind_err (py_index c 0) (\<lambda>c0.
                 bind_err (py_div2 c0) (\<lambda>v0.
                 bind_err (py_index c 1) (\<lambda>c1.
                 bind_err (py_div2 c1) (\<lambda>v1.
                   Inr (fd2(''F_SB'' \<mapsto> v0, ''F_SB2'' \<mapsto> v1))))))))"

text \<open>
  The tail shared by all eight design methods: synthesize with \<open>sig.cheby2\<close> and hand the
  result to \<open>save\<close>.  The methods return nothing; the model returns the instance and the
  dictionary as they are afterwards.
\<close>

definition synthesize ::
  "sig_env \<Rightarrow> cheby2_self \<Rightarrow> fil_dict \<Rightarrow> pyval \<Rightarrow> string \<Rightarrow> error + (cheby2_self \<times> fil_dict)" where
  "synthesize sg st fd wn btype =
     bind_err (cheby2 sg (self_N st) (self_A_SB st) wn btype False frmt) (\<lambda>arg.
     bind_err (save sg st fd arg) (\<lambda>fd'. Inr (st, fd')))"

definition LPman :: "sig_env \<Rightarrow> fil_dict \<Rightarrow> error + (cheby2_self \<times> fil_dict)" where
  "LPman sg fd =
     bind_err (get_params fd) (\<lambda>st. synthesize sg st fd (self_F_SB st) ''low'')"

definition LPmin :: "sig_env \<Rightarrow> fil_dict \<Rightarrow> error + (cheby2_self \<times> fil_dict)" where
  "LPmin sg fd =
     bind_err (get_params fd) (\<lambda>st.
     bind_err (cheb2ord sg (self_F_PB st) (self_F_SB st) (self_A_PB st) (self_A_SB st))
       (\<lambda>(n, wc).
          synthesize sg (st\<lparr>self_N := n, self_F_SBC := Some wc\<rparr>) fd wc ''lowpass''))"

definition HPman :: "sig_env \<Rightarrow> fil_dict \<Rightarrow> error + (cheby2_self \<times> fil_dict)" where
  "HPman sg fd =
     bind_err (get_params fd) (\<lambda>st. synthesize sg st fd (self_F_SB st) ''highpass'')"

definition HPmin :: "sig_env \<Rightarrow> fil_dict \<Rightarrow> error + (cheby2_self \<times> fil_dict)" where
  "HPmin sg fd =
     bind_err (get_params fd) (\<lambda>st.
     bind_err (cheb2ord sg (self_F_PB st) (self_F_SB st) (self_A_PB st) (self_A_SB st))
       (\<lambda>(n, wc).
          synthesize sg (st\<lparr>self_N := n, self_F_SBC := Some wc\<rparr>) fd wc ''highpass''))"

definition BPman :: "sig_env \<Rightarrow> fil_dict \<Rightarrow> error + (cheby2_self \<times> fil_dict)" where
  "BPman sg fd =
     bind_err (get_params fd) (\<lambda>st.
       synthesize sg st fd (ListV [self_F_SB st, self_F_SB2 st]) ''bandpass'')"

definition BPmin :: "sig_env \<Rightarrow> fil_dict \<Rightarrow> error + (cheby2_self \<times> fil_dict)" where
  "BPmin sg fd =
     bind_err (get_params fd) (\<lambda>st.
     bind_err (cheb2ord sg (ListV [self_F_PB st, self_F_PB2 st])
                 (ListV [self_F_SB st, self_F_SB2 st]) (self_A_PB st) (self_A_SB st))
       (\<lambda>(n, wc).
          synthesize sg (st\<lparr>self_N := n, self_F_SBC := Some wc\<rparr>) fd wc ''bandpass''))"

definition BSman :: "sig_env \<Rightarrow> fil_dict \<Rightarrow> error + (cheby2_self \<times> fil_dict)" where
  "BSman sg fd =
     bind_err (get_params fd) (\<lambda>st.
       synthesize sg st fd (ListV [self_F_SB st, self_F_SB2 st]) ''bandstop'')"

definition BSmin :: "sig_env \<Rightarrow> fil_dict \<Rightarrow> error + (cheby2_self \<times> fil_dict)" where
  "BSmin sg fd =
     bind_err (get_params fd) (\<lambda>st.
     bind_err (cheb2ord sg (ListV [self_F_PB st, self_F_PB2 st])
                 (ListV [self_F_SB st, self_F_SB2 st]) (self_A_PB st) (self_A_SB st))
       (\<lambda>(n, wc).
          synthesize sg (st\<lparr>self_N := n, self_F_SBC := Some wc\<rparr>) fd wc ''bandstop''))"

text \<open>
  Clamping as the specification words it: a value below \<open>min\<close> becomes \<open>min\<close>, a value
  above \<open>max\<close> becomes \<open>max\<close>.
\<close>

definition clamp_to :: "npfloat \<Rightarrow> npfloat \<Rightarrow> npfloat \<Rightarrow> npfloat" where
  "clamp_to lo hi x = (if flt x lo then lo else if flt hi x then hi else x)"

section \<open>Test doubles and example dictionaries\<close>

text \<open>
  The window generators of \<open>scipy.signal.windows\<close> are not part of the repository.  Where
  a concrete run needs one, a test double stands in: \<open>boxcar_double\<close> returns \<open>N\<close> ones as
  \<open>boxcar\<close> does, \<open>shape_double\<close> takes one shape parameter and returns an array that
  starts with it, \<open>raising_double\<close> always raises.  \<open>demo_env\<close> also makes this module
  importable under its qualified name and reads the texts \<open>1000\<close> and \<open>30\<close> as floats.
\<close>

definition boxcar_double :: win_fnct where
  "boxcar_double N ps symm =
     (if ps \<noteq> [] then Raise ''TypeError''
      else if N < 0 then Raise ''ValueError''
      else Return (Some (Array (replicate (nat N) (Fin 1)))))"

definition shape_double :: win_fnct where
  "shape_double N ps symm =
     (case ps of [p] \<Rightarrow> Return (Some (Array (p # replicate (nat N - 1) (Fin 1))))
      | _ \<Rightarrow> Raise ''TypeError'')"

definition raising_double :: win_fnct where
  "raising_double N ps symm = Raise ''ValueError''"

definition demo_env :: env where
  "demo_env =
     \<lparr>sig_windows = [''boxcar'' \<mapsto> boxcar_double, ''kaiser'' \<mapsto> shape_double],
      import_module = [''pyfda.libs.pyfda_fft_windows_lib'' \<mapsto> pyfda_fft_windows_lib],
      safe_eval = (\<lambda>txt fallback.
         if txt = ''1000'' then Fin 1000 else if txt = ''30'' then Fin 30 else fallback)\<rparr>"

text \<open>
  The dictionary with the one family \<open>Blackmanharris_5\<close>, selected, as
  \<open>get_windows_dict(['Blackmanharris_5'], 'Blackmanharris_5')\<close> builds it, and the same
  dictionary after \<open>get_window(win_dict, 2)\<close>.
\<close>

definition bh5_entry :: win_entry where
  "bh5_entry =
     (mk_window ''pyfda.libs.pyfda_fft_windows_lib.blackmanharris5'' None)
       \<lparr>win_fnct := Some (Some (as_win_fnct blackmanharris5)), n_par := Some 0\<rparr>"

definition bh5_dict :: win_dict where
  "bh5_dict =
     \<lparr>cur_win_name = Some ''Blackmanharris_5'',
      win = Some EmptyList,
      entries = [''Blackmanharris_5'' \<mapsto> bh5_entry]\<rparr>"

definition bh5_cached :: win_dict where
  "bh5_cached =
     \<lparr>cur_win_name = Some ''Blackmanharris_5'',
      win = Some (Array [Fin (21731872448237 / 500010865936224177),
                         Fin (1000000000000000117 / 500010865936224177)]),
      entries = [''Blackmanharris_5'' \<mapsto>
        bh5_entry\<lparr>nenbw := Some (Fin (500000000236137257053221210122210929
                                        / 250010866054292747027881919599327329)),
                  cgain := Some (Fin (500010865936224177 / 1000000000000000000))\<rparr>]\<rparr>"

text \<open>
  The dictionary with the one family \<open>Kaiser\<close> (bounds 0 and 30), selected, with the value
  \<open>v\<close> stored for its shape parameter and the function object \<open>g\<close>.
\<close>

definition kaiser_dict :: "win_fnct \<Rightarrow> npfloat \<Rightarrow> win_dict" where
  "kaiser_dict g v =
     \<lparr>cur_win_name = Some ''Kaiser'',
      win = Some EmptyList,
      entries = [''Kaiser'' \<mapsto>
        (mk_window ''kaiser'' (Some [\<lparr>val = v, min_val = Fin 0, max_val = Fin 30\<rparr>]))
          \<lparr>win_fnct := Some (Some g), n_par := Some 1\<rparr>]\<rparr>"

text \<open>
  The dictionary with the one family \<open>Hann\<close>, selected, as
  \<open>get_windows_dict(['Hann'], 'Hann')\<close> builds it; \<open>g\<close> is the function object found for
  \<open>hann\<close>.
\<close>

definition hann_dict :: "win_fnct \<Rightarrow> win_dict" where
  "hann_dict g =
     \<lparr>cur_win_name = Some ''Hann'',
      win = Some EmptyList,
      entries = [''Hann'' \<mapsto>
        (mk_window ''hann'' None)\<lparr>win_fnct := Some (Some g), n_par := Some 0\<rparr>]\<rparr>"

text \<open>
  The routines of \<open>scipy.signal\<close> and \<open>save_fil\<close> of \<open>pyfda_lib\<close> are not part of the
  repository either.  For concrete runs \<open>cheb2ord_double\<close> returns the order 4 and the
  corner frequency 0.55 (0.25 and 0.75 for a band filter), \<open>cheby2_double\<close> returns the
  order, attenuation and corner frequencies it was called with in place of coefficients,
  and \<open>save_fil_double\<close> stores its argument under the format key.  \<open>lp_spec\<close> is a
  filter dictionary with the given band edges, ripple and attenuation.
\<close>

definition cheb2ord_double :: "pyval \<Rightarrow> pyval \<Rightarrow> pyval \<Rightarrow> pyval \<Rightarrow> error + (pyval \<times> pyval)" where
  "cheb2ord_double wp ws gpass gstop =
     Inr (IntV 4,
          if np_isscalar ws then FloatV (Fin (11/20))
          else ListV [FloatV (Fin (1/4)), FloatV (Fin (3/4))])"

definition cheby2_double ::
  "pyval \<Rightarrow> pyval \<Rightarrow> pyval \<Rightarrow> string \<Rightarrow> bool \<Rightarrow> string \<Rightarrow> error + pyval" where
  "cheby2_double n rs wn btype analog output = Inr (ListV [n, rs, wn])"

definition save_fil_double :: "fil_dict \<Rightarrow> pyval \<Rightarrow> string \<Rightarrow> string \<Rightarrow> error + fil_dict" where
  "save_fil_double fd arg fmt nm = Inr (fd(fmt \<mapsto> arg))"

definition demo_sig :: sig_env where
  "demo_sig =
     \<lparr>cheb2ord = cheb2ord_double, cheby2 = cheby2_double, save_fil = save_fil_double,
      dunder_name = ''cheby2''\<rparr>"

definition lp_spec :: "real \<Rightarrow> real \<Rightarrow> real \<Rightarrow> real \<Rightarrow> fil_dict" where
  "lp_spec f_pb f_sb a_pb a_sb =
     [''N'' \<mapsto> IntV 1,
      ''F_PB'' \<mapsto> FloatV (Fin f_pb), ''F_SB'' \<mapsto> FloatV (Fin f_sb),
      ''F_PB2'' \<mapsto> FloatV (Fin (2/5)), ''F_SB2'' \<mapsto> FloatV (Fin (9/20)),
      ''A_PB'' \<mapsto> FloatV (Fin a_pb), ''A_SB'' \<mapsto> FloatV (Fin a_sb),
      ''A_PB2'' \<mapsto> FloatV (Fin a_pb), ''A_SB2'' \<mapsto> FloatV (Fin a_sb)]"

text \<open>
  For a concrete run with rounding: \<open>round_up\<close> errs in every operation by the relative
  error \<open>2\<^sup>-\<^sup>5\<^sup>3\<close>, the unit roundoff of \<open>float64\<close>, and \<open>rsum\<close> adds from left to right
  and rounds every partial sum.
\<close>

definition round_up :: "real \<Rightarrow> real" where
  "round_up x = x * (1 + 1 / 2 ^ 53)"

definition rsum :: "(real \<Rightarrow> real) \<Rightarrow> real list \<Rightarrow> real" where
  "rsum rnd xs = foldl (\<lambda>s x. rnd (s + x)) 0 xs"

section \<open>Properties of the cosine-sum synthesizer\<close>

lemma fadd_zero_left: "fadd (Fin 0) x = x"
  by (cases x) simp_all

lemma fadd_assoc: "fadd (fadd x y) z = fadd x (fadd y z)"
  by (cases x; cases y; cases z) simp_all

lemma foldl_fadd_shift: "foldl fadd (fadd s t) ts = fadd s (foldl fadd t ts)"
  by (induction ts arbitrary: t) (simp_all add: fadd_assoc)

lemma foldl_fadd_fsum: "foldl fadd s ts = fadd s (fsum ts)"
proof -
  have "foldl fadd s ts = foldl fadd (fadd s (Fin 0)) ts"
    by (cases s) simp_all
  then show ?thesis
    by (simp add: foldl_fadd_shift fsum_def)
qed

lemma foldl_fadd_Fin: "foldl fadd (Fin s) (map Fin rs) = Fin (s + sum_list rs)"
  by (induction rs arbitrary: s) (simp_all add: add.assoc)

lemma fsum_Fin: "fsum (map Fin rs) = Fin (sum_list rs)"
  by (simp add: fsum_def foldl_fadd_Fin)

lemma map2_same: "map2 f (map g xs) (map h xs) = map (\<lambda>x. f (g x) (h x)) xs"
  by (induction xs) simp_all

text \<open>
  Once \<open>win\<close> is an array over the grid, every further pass of the loop adds one harmonic
  to each element.
\<close>

lemma cosine_loop_Array:
  "cosine_loop a x ks (Array (map g x)) =
     Array (map (\<lambda>xn. foldl fadd (g xn)
                  (map (\<lambda>k. fmul (a ! k) (fcos (fmul (Fin (of_nat k)) xn))) ks)) x)"
proof (induction ks arbitrary: g)
  case Nil
  show ?case by simp
next
  case (Cons k ks)
  have "cosine_loop a x (k # ks) (Array (map g x)) =
        cosine_loop a x ks
          (Array (map (\<lambda>xn. fadd (g xn) (fmul (a ! k) (fcos (fmul (Fin (of_nat k)) xn)))) x))"
    by (simp add: map2_same)
  then show ?case
    by (simp add: Cons.IH)
qed

text \<open>The first pass turns the scalar \<open>a[0]\<close> into an array; without a pass it stays a scalar.\<close>

lemma cosine_loop_Scalar:
  "ks \<noteq> [] \<Longrightarrow>
   cosine_loop a x ks (Scalar s) =
     Array (map (\<lambda>xn. fadd s
                  (fsum (map (\<lambda>k. fmul (a ! k) (fcos (fmul (Fin (of_nat k)) xn))) ks))) x)"
proof (cases ks)
  case Nil
  assume "ks \<noteq> []"
  with Nil show ?thesis by simp
next
  case (Cons k ks')
  have "cosine_loop a x (k # ks') (Scalar s) =
        cosine_loop a x ks'
          (Array (map (\<lambda>xn. fadd s (fmul (a ! k) (fcos (fmul (Fin (of_nat k)) xn)))) x))"
    by (simp add: o_def)
  also have "\<dots> =
        Array (map (\<lambda>xn. foldl fadd (fadd s (fmul (a ! k) (fcos (fmul (Fin (of_nat k)) xn))))
                  (map (\<lambda>k. fmul (a ! k) (fcos (fmul (Fin (of_nat k)) xn))) ks')) x)"
    by (rule cosine_loop_Array)
  finally show ?thesis
    using Cons by (simp add: foldl_fadd_fsum [symmetric])
qed

lemma x_grid_spec:
  assumes "(if symm then N - 1 else N) \<noteq> 0"
  shows "x_grid N (if symm then N - 1 else N) = map (\<lambda>n. Fin (spec_x N symm n)) [0..N - 1]"
  using assms by (simp add: x_grid_def spec_x_def mult.assoc)

lemma calc_cosine_window_spec:
  assumes len: "2 \<le> length cs" and L: "(if symm then N - 1 else N) \<noteq> 0"
  shows "calc_cosine_window N symm (map Fin cs) =
           Inr (Array (map Fin (spec_cosine_window cs N symm)))"
proof -
  from len have ne: "map Fin cs \<noteq> []" and ks: "[1..<length (map Fin cs)] \<noteq> []"
    by auto
  from len have z: "map Fin cs ! 0 = Fin (cs ! 0)"
    by (cases cs) simp_all
  have hm: "map (\<lambda>k. fmul (map Fin cs ! k) (Fin (cos (real k * x)))) [Suc 0..<length cs] =
            map Fin (map (\<lambda>k. cs ! k * cos (real k * x)) [Suc 0..<length cs])" for x
    by simp
  have el: "fadd (Fin (cs ! 0))
              (fsum (map (\<lambda>k. fmul (map Fin cs ! k) (Fin (cos (real k * x))))
                         [Suc 0..<length cs])) =
            Fin (cs ! 0 + (\<Sum>j\<leftarrow>[Suc 0..<length cs]. cs ! j * cos (real j * x)))" for x
    unfolding hm fsum_Fin by simp
  have "calc_cosine_window N symm (map Fin cs) =
        Inr (cosine_loop (map Fin cs) (map (\<lambda>n. Fin (spec_x N symm n)) [0..N - 1])
               [1..<length (map Fin cs)] (Scalar (Fin (cs ! 0))))"
    using ne z x_grid_spec [OF L] by (simp add: calc_cosine_window_def Let_def)
  also have "cosine_loop (map Fin cs) (map (\<lambda>n. Fin (spec_x N symm n)) [0..N - 1])
               [1..<length (map Fin cs)] (Scalar (Fin (cs ! 0))) =
        Array (map Fin (spec_cosine_window cs N symm))"
    unfolding cosine_loop_Scalar [OF ks] spec_cosine_window_def
    by (simp add: spec_cosine_sum_def o_def el)
  finally show ?thesis .
qed

text \<open>
  C8, as amended.  Let \<open>L = N-1\<close> when symmetric and \<open>N\<close> otherwise, and let \<open>L \<noteq> 0\<close>
  (for \<open>N \<ge> 1\<close>: not \<open>N = 1\<close> with a symmetric window).  For a list of at least two
  finite coefficients (\<open>k \<ge> 1\<close>), \<open>calc_cosine_window\<close> returns the array of length \<open>N\<close>
  whose element \<open>n\<close> is the real number \<open>a[0] + \<Sum>\<^bsub>j=1..k\<^esub> a[j]\<cdot>cos(j\<cdot>n\<cdot>2\<pi>/L)\<close>; the 5-, 7-
  and 9-term Blackman-Harris presets are this array for their literal coefficient lists.
\<close>

theorem calc_cosine_window_closed_form:
  assumes L: "(if symm then N - 1 else N) \<noteq> 0"
  shows "(2 \<le> length cs \<longrightarrow>
            calc_cosine_window N symm (map Fin cs) =
              Inr (Array (map Fin (spec_cosine_window cs N symm))))
       \<and> length (spec_cosine_window cs N symm) = nat N
       \<and> (\<forall>n. 0 \<le> n \<and> n < N \<longrightarrow>
              spec_cosine_window cs N symm ! nat n =
                cs ! 0 + (\<Sum>j\<leftarrow>[1..<length cs].
                   cs ! j * cos (of_nat j * (of_int n * (2 * pi)
                                              / of_int (if symm then N - 1 else N)))))
       \<and> blackmanharris5 N symm = Inr (Array (map Fin (spec_cosine_window a5 N symm)))
       \<and> blackmanharris7 N symm = Inr (Array (map Fin (spec_cosine_window a7 N symm)))
       \<and> blackmanharris9 N symm = Inr (Array (map Fin (spec_cosine_window a9 N symm)))"
proof -
  have "blackmanharris5 N symm = Inr (Array (map Fin (spec_cosine_window a5 N symm)))"
    unfolding blackmanharris5_def by (rule calc_cosine_window_spec [OF _ L]) (simp add: a5_def)
  moreover have "blackmanharris7 N symm = Inr (Array (map Fin (spec_cosine_window a7 N symm)))"
    unfolding blackmanharris7_def by (rule calc_cosine_window_spec [OF _ L]) (simp add: a7_def)
  moreover have "blackmanharris9 N symm = Inr (Array (map Fin (spec_cosine_window a9 N symm)))"
    unfolding blackmanharris9_def by (rule calc_cosine_window_spec [OF _ L]) (simp add: a9_def)
  moreover have "length (spec_cosine_window cs N symm) = nat N"
    by (simp add: spec_cosine_window_def)
  moreover have "spec_cosine_window cs N symm ! nat n =
                cs ! 0 + (\<Sum>j\<leftarrow>[1..<length cs].
                   cs ! j * cos (of_nat j * (of_int n * (2 * pi)
                                              / of_int (if symm then N - 1 else N))))"
    if "0 \<le> n \<and> n < N" for n
  proof -
    from that have "nat n < length [0..N - 1]" and "[0..N - 1] ! nat n = n"
      by simp_all
    then show ?thesis
      by (simp add: spec_cosine_window_def spec_cosine_sum_def spec_x_def del: upto.simps)
  qed
  ultimately show ?thesis
    using calc_cosine_window_spec [OF _ L, of cs] by blast
qed

theorem calc_cosine_window_closed_form_witness:
  "calc_cosine_window 3 True [Fin (1/2), Fin (1/2)] = Inr (Array [Fin 1, Fin 0, Fin 1])
   \<and> calc_cosine_window 1 False [Fin (1/2), Fin (1/2)] = Inr (Array [Fin 1])"
proof -
  have "calc_cosine_window 3 True (map Fin [1/2, 1/2]) = Inr (Array [Fin 1, Fin 0, Fin 1])"
    using calc_cosine_window_closed_form [of True 3 "[1/2, 1/2]"]
    by (simp add: spec_cosine_window_def spec_cosine_sum_def spec_x_def upto_rec1)
  moreover have "calc_cosine_window 1 False (map Fin [1/2, 1/2]) = Inr (Array [Fin 1])"
    using calc_cosine_window_closed_form [of False 1 "[1/2, 1/2]"]
    by (simp add: spec_cosine_window_def spec_cosine_sum_def spec_x_def)
  ultimately show ?thesis
    by simp
qed

text \<open>
  With a single coefficient the loop body never runs and the function returns the Python
  float \<open>a[0]\<close> itself, not an array of length \<open>N\<close>.  For \<open>N = 1\<close> and a symmetric
  window the grid is \<open>0\<cdot>2\<pi>/0\<close>, which NumPy evaluates to \<open>nan\<close> (with a warning), and the
  function returns the array holding \<open>nan\<close>, which is no value of the formula.
\<close>

theorem calc_cosine_window_single_coefficient:
  "calc_cosine_window 3 False [Fin 1] = Inr (Scalar (Fin 1))
   \<and> calc_cosine_window 3 False (map Fin [1]) \<noteq> Inr (Array (map Fin (spec_cosine_window [1] 3 False)))
   \<and> calc_cosine_window 1 True [Fin (1/2), Fin (1/2)] = Inr (Array [NaN])
   \<and> calc_cosine_window 1 True (map Fin [1/2, 1/2]) \<noteq>
       Inr (Array (map Fin (spec_cosine_window [1/2, 1/2] 1 True)))
   \<and> blackmanharris5 1 True = Inr (Array [NaN])
   \<and> blackmanharris5 1 True \<noteq> Inr (Array (map Fin (spec_cosine_window a5 1 True)))"
proof -
  have "blackmanharris5 1 True = Inr (Array [NaN])"
    by (simp add: blackmanharris5_def calc_cosine_window_def a5_def x_grid_def upt_rec)
  moreover have "calc_cosine_window 1 True [Fin (1/2), Fin (1/2)] = Inr (Array [NaN])"
    by (simp add: calc_cosine_window_def x_grid_def)
  ultimately show ?thesis
    by (simp add: calc_cosine_window_def spec_cosine_window_def)
qed

section \<open>Properties of the window dictionary\<close>

subsection \<open>The two paths of \<open>get_window\<close>\<close>

lemma get_window_miss:
  assumes "cur_win_name wd = Some cur" "win wd = Some c" "py_len c = Inr l"
    and "(wn = None \<or> wn = Some cur) \<longrightarrow> l \<noteq> N"
  shows "get_window ev wd N wn symm =
           compute_window ev wd N (case wn of None \<Rightarrow> cur | Some x \<Rightarrow> x) symm"
  using assms by (cases wn) (auto simp: get_window_def)

lemma get_window_hit:
  assumes "cur_win_name wd = Some cur" "win wd = Some c" "py_len c = Inr N"
    and "wn = None \<or> wn = Some cur"
  shows "get_window ev wd N wn symm = Inr (c, wd, [])"
  using assms by (auto simp: get_window_def)

lemma sum_list_divide: "sum_list (map (\<lambda>x. x / c) rs) = sum_list rs / (c::real)"
  by (induction rs) (simp_all add: add_divide_distrib)

lemma sum_list_replicate_one: "sum_list (replicate k (1::real)) = of_nat k"
  by (induction k) simp_all

lemma compute_window_finite:
  assumes N: "1 \<le> N"
    and d: "window_of wd nm = Inr d" "win_fnct d = Some f" "n_par d = Some n"
    and raw: "raw_window ev d f n N symm = (lg, r)"
    and w: "r = Some (Array (map Fin rs)) \<or> (r = None \<and> rs = replicate (nat N) 1)"
    and s: "sum_list rs \<noteq> 0"
  shows "compute_window ev wd N nm symm =
           Inr (Array (map (\<lambda>x. Fin (x / (sum_list rs / of_int N))) rs),
                wd\<lparr>entries := (entries wd)
                      (nm \<mapsto> d\<lparr>nenbw := Some (Fin (of_int N * (\<Sum>x\<leftarrow>rs. x * x)
                                                    / (sum_list rs * sum_list rs))),
                               cgain := Some (Fin (sum_list rs / of_int N))\<rparr>),
                    win := Some (Array (map (\<lambda>x. Fin (x / (sum_list rs / of_int N))) rs))\<rparr>,
                if r = None then lg @ [WarnFallingBack] else lg)"
proof -
  have ones: "replicate k (Fin 1) = map Fin (replicate k 1)" for k
    by simp
  have sq: "map (\<lambda>x. fmul x x) (map Fin rs) = map Fin (map (\<lambda>x. x * x) rs)"
    by simp
  have dv: "map (\<lambda>x. fdiv x (Fin c)) (map Fin rs) = map (\<lambda>x. Fin (x / c)) rs" if "c \<noteq> 0" for c
    using that by simp
  from N s have c0: "sum_list rs / of_int N \<noteq> 0"
    by simp
  have wsel: "(case r of None \<Rightarrow> np_ones N | Some w \<Rightarrow> Inr w) = Inr (Array (map Fin rs))"
    using w N by (auto simp: np_ones_def)
  show ?thesis
    using d raw N s c0
    by (simp add: compute_window_def wsel np_sum_def np_square_def idiv_def fsum_Fin sq dv
             del: map_map)
qed



subsection \<open>The example dictionaries are what selecting a family leaves\<close>

lemma bh5_dict_selected:
  "set_window_name demo_env
     \<lparr>cur_win_name = None, win = None,
      entries = [''Blackmanharris_5'' \<mapsto>
                   mk_window ''pyfda.libs.pyfda_fft_windows_lib.blackmanharris5'' None]\<rparr>
     ''Blackmanharris_5'' =
   Inr (Some (as_win_fnct blackmanharris5), bh5_dict, [])"
proof -
  have f: "fnct_of ''pyfda.libs.pyfda_fft_windows_lib.blackmanharris5'' = ''blackmanharris5''"
    by (simp add: fnct_of_def)
  have m: "mod_name_of ''pyfda.libs.pyfda_fft_windows_lib.blackmanharris5'' =
             ''pyfda.libs.pyfda_fft_windows_lib''"
    by (simp add: mod_name_of_def)
  show ?thesis
    by (simp add: set_window_name_def in_win_dict_def window_of_def find_win_fnct_def f m
          demo_env_def pyfda_fft_windows_lib_def bh5_dict_def bh5_entry_def mk_window_def
          Let_def)
qed

lemma kaiser_dict_selected:
  assumes "sig_windows ev ''kaiser'' = Some g"
  shows "set_window_name ev
           \<lparr>cur_win_name = None, win = None,
            entries = [''Kaiser'' \<mapsto>
              mk_window ''kaiser'' (Some [\<lparr>val = v, min_val = Fin 0, max_val = Fin 30\<rparr>])]\<rparr>
           ''Kaiser'' =
         Inr (Some g, kaiser_dict g v, [])"
  using assms
  by (simp add: set_window_name_def in_win_dict_def window_of_def find_win_fnct_def
        fnct_of_def kaiser_dict_def mk_window_def Let_def)

lemma hann_dict_selected:
  assumes "sig_windows ev ''hann'' = Some g"
  shows "set_window_name ev
           \<lparr>cur_win_name = None, win = None, entries = [''Hann'' \<mapsto> mk_window ''hann'' None]\<rparr>
           ''Hann'' =
         Inr (Some g, hann_dict g, [])"
  using assms
  by (simp add: set_window_name_def in_win_dict_def window_of_def find_win_fnct_def
        fnct_of_def hann_dict_def mk_window_def Let_def)

subsection \<open>Runs of the 5-term Blackman-Harris window\<close>

lemma cos_3pi: "cos (3 * pi) = -1"
  using cos_npi [of 3] by simp

lemma cos_4pi: "cos (4 * pi) = 1"
  using cos_npi [of 4] by simp

lemma cos_6pi: "cos (6 * pi) = 1"
  using cos_npi [of 6] by simp

lemma cos_8pi: "cos (8 * pi) = 1"
  using cos_npi [of 8] by simp

lemma x_grid_2_2: "x_grid 2 2 = [Fin 0, Fin pi]"
  by (simp add: x_grid_def upto_rec1)

lemma x_grid_2_1: "x_grid 2 1 = [Fin 0, Fin (2 * pi)]"
  by (simp add: x_grid_def upto_rec1)

lemma upt_1_5: "[1..<5] = [1, 2, 3, 4]"
  by (simp add: upt_rec)

lemma bh5_periodic_2:
  "blackmanharris5 2 False =
     Inr (Array [Fin (21731872448237/1000000000000000000),
                 Fin (1000000000000000117/1000000000000000000)])"
  by (simp add: blackmanharris5_def calc_cosine_window_def a5_def x_grid_2_2 upt_1_5 Let_def
        cos_3pi cos_4pi)

lemma bh5_symmetric_2:
  "blackmanharris5 2 True =
     Inr (Array [Fin (21731872448237/1000000000000000000),
                 Fin (21731872448237/1000000000000000000)])"
  by (simp add: blackmanharris5_def calc_cosine_window_def a5_def x_grid_2_1 upt_1_5 Let_def
        cos_4pi cos_6pi cos_8pi)



lemma bh5_raw_2:
  "raw_window demo_env bh5_entry (Some (as_win_fnct blackmanharris5)) 0 2 False =
     ([], Some (Array (map Fin [21731872448237/1000000000000000000,
                                1000000000000000117/1000000000000000000])))"
  by (simp add: raw_window_def try_window_def bh5_entry_def mk_window_def call_fnct_def
        as_win_fnct_def bh5_periodic_2)

lemma bh5_first:
  "get_window demo_env bh5_dict 2 None False =
     Inr (Array [Fin (21731872448237 / 500010865936224177),
                 Fin (1000000000000000117 / 500010865936224177)], bh5_cached, [])"
  by (simp add: get_window_def bh5_dict_def bh5_cached_def bh5_entry_def py_len_def
        compute_window_def window_of_def mk_window_def raw_window_def try_window_def
        call_fnct_def as_win_fnct_def bh5_periodic_2 Let_def np_sum_def np_square_def
        fsum_def idiv_def)

lemma bh5_recomputed_symmetric:
  "get_window demo_env (bh5_cached\<lparr>win := Some EmptyList\<rparr>) 2 None True =
     Inr (Array [Fin 1, Fin 1],
          bh5_cached\<lparr>entries := [''Blackmanharris_5'' \<mapsto>
                         bh5_entry\<lparr>nenbw := Some (Fin 1),
                                   cgain := Some (Fin (21731872448237/1000000000000000000))\<rparr>],
                      win := Some (Array [Fin 1, Fin 1])\<rparr>, [])"
  by (simp add: get_window_def bh5_cached_def bh5_entry_def py_len_def
        compute_window_def window_of_def mk_window_def raw_window_def try_window_def
        call_fnct_def as_win_fnct_def bh5_symmetric_2 Let_def np_sum_def np_square_def
        fsum_def idiv_def)

subsection \<open>Gain normalization\<close>

lemma compute_window_Array:
  assumes N: "1 \<le> N"
    and d: "window_of wd nm = Inr d" "win_fnct d = Some f" "n_par d = Some n"
    and raw: "raw_window ev d f n N symm = (lg, r)"
    and w: "r = Some (Array xs) \<or> (r = None \<and> xs = replicate (nat N) (Fin 1))"
  shows "compute_window ev wd N nm symm =
           Inr (Array (map (\<lambda>x. fdiv x (fdiv (fsum xs) (Fin (of_int N)))) xs),
                wd\<lparr>entries := (entries wd)
                      (nm \<mapsto> d\<lparr>nenbw := Some (fdiv (fmul (Fin (of_int N))
                                                        (fsum (map (\<lambda>x. fmul x x) xs)))
                                                  (fmul (fsum xs) (fsum xs))),
                               cgain := Some (fdiv (fsum xs) (Fin (of_int N)))\<rparr>),
                    win := Some (Array (map (\<lambda>x. fdiv x (fdiv (fsum xs) (Fin (of_int N)))) xs))\<rparr>,
                if r = None then lg @ [WarnFallingBack] else lg)"
proof -
  have wsel: "(case r of None \<Rightarrow> np_ones N | Some w \<Rightarrow> Inr w) = Inr (Array xs)"
    using w N by (auto simp: np_ones_def)
  show ?thesis
    using d raw by (simp add: compute_window_def wsel np_sum_def np_square_def idiv_def Let_def)
qed

lemma exact_normalization:
  assumes N: "1 \<le> N" and s: "sum_list rs \<noteq> 0"
  shows "map (\<lambda>x. fdiv x (fdiv (fsum (map Fin rs)) (Fin (of_int N)))) (map Fin rs) =
           map Fin (window_rounded (\<lambda>x. x) sum_list N rs)"
    and "fdiv (fsum (map Fin rs)) (Fin (of_int N)) = Fin (cgain_rounded (\<lambda>x. x) sum_list N rs)"
    and "sum_list (window_rounded (\<lambda>x. x) sum_list N rs) / of_int N = 1"
proof -
  define k where "k = sum_list rs / of_int N"
  from N s have k: "k \<noteq> 0" and sk: "sum_list rs / k = of_int N"
    by (simp_all add: k_def)
  have cg: "cgain_rounded (\<lambda>x. x) sum_list N rs = k"
    by (simp add: cgain_rounded_def k_def)
  show c: "fdiv (fsum (map Fin rs)) (Fin (of_int N)) = Fin (cgain_rounded (\<lambda>x. x) sum_list N rs)"
    using N by (simp add: fsum_Fin cg k_def)
  show "map (\<lambda>x. fdiv x (fdiv (fsum (map Fin rs)) (Fin (of_int N)))) (map Fin rs) =
           map Fin (window_rounded (\<lambda>x. x) sum_list N rs)"
    unfolding c cg using k by (simp add: window_rounded_def cg)
  have "sum_list (window_rounded (\<lambda>x. x) sum_list N rs) = sum_list rs / k"
    unfolding window_rounded_def cg by (rule sum_list_divide)
  then show "sum_list (window_rounded (\<lambda>x. x) sum_list N rs) / of_int N = 1"
    using N by (simp add: sk)
qed

text \<open>The standard analysis of rounding errors, for the two divisions and the sum.\<close>

lemma sum_list_abs_diff:
  "\<bar>sum_list (map f xs) - sum_list (map g xs)\<bar> \<le> (\<Sum>x\<leftarrow>xs. \<bar>f x - g x\<bar>)" for f g :: "'a \<Rightarrow> real"
proof (induction xs)
  case Nil
  show ?case by simp
next
  case (Cons x xs)
  have "\<bar>sum_list (map f (x # xs)) - sum_list (map g (x # xs))\<bar> =
        \<bar>(f x - g x) + (sum_list (map f xs) - sum_list (map g xs))\<bar>"
    by simp
  also have "\<dots> \<le> \<bar>f x - g x\<bar> + \<bar>sum_list (map f xs) - sum_list (map g xs)\<bar>"
    by (rule abs_triangle_ineq)
  finally show ?case
    using Cons.IH by simp
qed

lemma sum_list_mono_real:
  "(\<And>x. x \<in> set xs \<Longrightarrow> f x \<le> g x) \<Longrightarrow> sum_list (map f xs) \<le> sum_list (map g xs)" for f g :: "'a \<Rightarrow> real"
  by (induction xs) (simp_all add: add_mono)

lemma sum_list_scale: "(\<Sum>x\<leftarrow>xs. k * f x) = k * (\<Sum>x\<leftarrow>xs. f x)" for k :: real
  by (induction xs) (simp_all add: algebra_simps)

lemma sum_list_abs_nonneg: "0 \<le> (\<Sum>x\<leftarrow>xs. \<bar>x\<bar>)" for xs :: "real list"
  by (induction xs) simp_all

lemma window_rounded_bound:
  fixes rnd :: "real \<Rightarrow> real" and u g :: real
  assumes N: "1 \<le> N"
    and rnd: "\<And>y. y = sm rs / of_int N \<or> y \<in> (\<lambda>x. x / cgain_rounded rnd sm N rs) ` set rs
                 \<Longrightarrow> \<bar>rnd y - y\<bar> \<le> u * \<bar>y\<bar>"
    and u: "0 \<le> u" "u < 1"
    and sm: "\<bar>sm rs - sum_list rs\<bar> \<le> g * (\<Sum>x\<leftarrow>rs. \<bar>x\<bar>)"
    and nz: "sm rs \<noteq> 0"
  shows "\<bar>sum_list (window_rounded rnd sm N rs) / of_int N - 1\<bar>
           \<le> ((g + u) * (\<Sum>x\<leftarrow>rs. \<bar>x\<bar>) / \<bar>sm rs\<bar> + u) / (1 - u)"
proof -
  define n :: real where "n = of_int N"
  define St where "St = sm rs"
  define S where "S = sum_list rs"
  define A where "A = (\<Sum>x\<leftarrow>rs. \<bar>x\<bar>)"
  define c where "c = rnd (St / n)"
  define W where "W = sum_list (map (\<lambda>x. rnd (x / c)) rs)"
  have n: "0 < n"
    using N by (simp add: n_def)
  have A0: "0 \<le> A"
    unfolding A_def by (rule sum_list_abs_nonneg)
  have St0: "0 < \<bar>St\<bar>"
    using nz by (simp add: St_def)
  have "n * (c - St / n) = n * c - St"
    using n by (simp add: field_simps)
  then have "\<bar>n * c - St\<bar> = \<bar>n * (c - St / n)\<bar>"
    by simp
  also have "\<dots> = \<bar>n\<bar> * \<bar>c - St / n\<bar>"
    by (rule abs_mult)
  also have "\<dots> = n * \<bar>c - St / n\<bar>"
    using n by simp
  also have "\<dots> \<le> n * (u * \<bar>St / n\<bar>)"
    unfolding c_def by (rule mult_left_mono [OF rnd]) (use n in \<open>simp_all add: St_def n_def\<close>)
  also have "\<dots> = u * \<bar>St\<bar>"
    using n by (simp add: abs_divide)
  finally have a: "\<bar>n * c - St\<bar> \<le> u * \<bar>St\<bar>" .
  have "\<bar>St\<bar> \<le> \<bar>n * c\<bar> + \<bar>n * c - St\<bar>"
    by linarith
  with a have b: "(1 - u) * \<bar>St\<bar> \<le> \<bar>n * c\<bar>"
    by (simp add: algebra_simps)
  from u St0 have pos: "0 < (1 - u) * \<bar>St\<bar>"
    by simp
  with b have nc0: "0 < \<bar>n * c\<bar>"
    by linarith
  then have c0: "c \<noteq> 0"
    by auto
  have "\<bar>W - S / c\<bar> = \<bar>sum_list (map (\<lambda>x. rnd (x / c)) rs) - sum_list (map (\<lambda>x. x / c) rs)\<bar>"
    by (simp add: W_def S_def sum_list_divide)
  also have "\<dots> \<le> (\<Sum>x\<leftarrow>rs. \<bar>rnd (x / c) - x / c\<bar>)"
    by (rule sum_list_abs_diff)
  also have "\<dots> \<le> (\<Sum>x\<leftarrow>rs. (u / \<bar>c\<bar>) * \<bar>x\<bar>)"
  proof (rule sum_list_mono_real)
    fix x
    assume "x \<in> set rs"
    then have "x / c \<in> (\<lambda>x. x / cgain_rounded rnd sm N rs) ` set rs"
      by (auto simp: c_def St_def n_def cgain_rounded_def)
    then have "\<bar>rnd (x / c) - x / c\<bar> \<le> u * \<bar>x / c\<bar>"
      by (intro rnd disjI2)
    then show "\<bar>rnd (x / c) - x / c\<bar> \<le> u / \<bar>c\<bar> * \<bar>x\<bar>"
      by (simp add: abs_divide)
  qed
  also have "\<dots> = u / \<bar>c\<bar> * A"
    unfolding A_def by (rule sum_list_scale)
  finally have cW: "\<bar>W - S / c\<bar> \<le> u * A / \<bar>c\<bar>"
    by simp
  have d: "\<bar>S - St\<bar> \<le> g * A"
    using sm by (simp add: S_def St_def A_def abs_minus_commute)
  have split: "W / n - 1 = (W - S / c) / n + (S - n * c) / (n * c)"
    using n c0 by (simp add: field_simps)
  have t1: "\<bar>(W - S / c) / n\<bar> \<le> u * A / \<bar>n * c\<bar>"
  proof -
    have "\<bar>(W - S / c) / n\<bar> = \<bar>W - S / c\<bar> / n"
      using n by (simp add: abs_divide)
    also have "\<dots> \<le> (u * A / \<bar>c\<bar>) / n"
      by (rule divide_right_mono [OF cW]) (use n in simp)
    also have "\<dots> = u * A / \<bar>n * c\<bar>"
      using n by (simp add: abs_mult field_simps)
    finally show ?thesis .
  qed
  have t2: "\<bar>(S - n * c) / (n * c)\<bar> \<le> (g * A + u * \<bar>St\<bar>) / \<bar>n * c\<bar>"
  proof -
    have "\<bar>S - n * c\<bar> \<le> \<bar>S - St\<bar> + \<bar>n * c - St\<bar>"
      by linarith
    with d a have "\<bar>S - n * c\<bar> \<le> g * A + u * \<bar>St\<bar>"
      by linarith
    then have "\<bar>S - n * c\<bar> / \<bar>n * c\<bar> \<le> (g * A + u * \<bar>St\<bar>) / \<bar>n * c\<bar>"
      by (rule divide_right_mono) simp
    then show ?thesis
      by (simp only: abs_divide)
  qed
  have num0: "0 \<le> (g + u) * A + u * \<bar>St\<bar>"
  proof -
    from d have "0 \<le> g * A"
      by (rule order_trans [OF abs_ge_zero])
    moreover have "0 \<le> u * A" "0 \<le> u * \<bar>St\<bar>"
      using u A0 by simp_all
    ultimately show ?thesis
      by (simp add: algebra_simps)
  qed
  have "\<bar>W / n - 1\<bar> \<le> \<bar>(W - S / c) / n\<bar> + \<bar>(S - n * c) / (n * c)\<bar>"
    unfolding split by (rule abs_triangle_ineq)
  also have "\<dots> \<le> u * A / \<bar>n * c\<bar> + (g * A + u * \<bar>St\<bar>) / \<bar>n * c\<bar>"
    using t1 t2 by linarith
  also have "\<dots> = ((g + u) * A + u * \<bar>St\<bar>) / \<bar>n * c\<bar>"
    by (simp add: add_divide_distrib [symmetric] algebra_simps)
  also have "\<dots> \<le> ((g + u) * A + u * \<bar>St\<bar>) / ((1 - u) * \<bar>St\<bar>)"
    by (rule divide_left_mono [OF b num0]) (rule mult_pos_pos [OF nc0 pos])
  also have "\<dots> = ((g + u) * A / \<bar>St\<bar> + u) / (1 - u)"
    using St0 u by (simp add: field_simps)
  finally show ?thesis
    by (simp add: window_rounded_def cgain_rounded_def W_def c_def St_def n_def A_def)
qed


lemma foldl_rnd_error:
  fixes rnd :: "real \<Rightarrow> real" and u :: real
  assumes rnd: "\<And>x. \<bar>rnd x - x\<bar> \<le> u * \<bar>x\<bar>" and u: "0 \<le> u"
  shows "\<bar>foldl (\<lambda>s x. rnd (s + x)) s xs - (s + sum_list xs)\<bar>
           \<le> ((1 + u) ^ length xs - 1) * (\<bar>s\<bar> + (\<Sum>x\<leftarrow>xs. \<bar>x\<bar>))"
proof (induction xs arbitrary: s)
  case Nil
  show ?case by simp
next
  case (Cons x xs)
  define s' where "s' = rnd (s + x)"
  define q where "q = (1 + u) ^ length xs"
  define A where "A = (\<Sum>x\<leftarrow>xs. \<bar>x\<bar>)"
  define B where "B = \<bar>s\<bar> + \<bar>x\<bar>"
  define F where "F = foldl (\<lambda>s x. rnd (s + x)) s' xs"
  have q: "1 \<le> q"
    unfolding q_def using u by (intro one_le_power) simp
  have A0: "0 \<le> A"
    unfolding A_def by (rule sum_list_abs_nonneg)
  have B0: "0 \<le> B"
    by (simp add: B_def)
  have sx: "\<bar>s + x\<bar> \<le> B"
    unfolding B_def by (rule abs_triangle_ineq)
  have "\<bar>s' - (s + x)\<bar> \<le> u * \<bar>s + x\<bar>"
    unfolding s'_def by (rule rnd)
  also have "\<dots> \<le> u * B"
    by (rule mult_left_mono [OF sx u])
  finally have e1: "\<bar>s' - (s + x)\<bar> \<le> u * B" .
  have "\<bar>s'\<bar> \<le> \<bar>s + x\<bar> + \<bar>s' - (s + x)\<bar>"
    by linarith
  with sx e1 have e2: "\<bar>s'\<bar> \<le> (1 + u) * B"
    by (simp add: algebra_simps)
  have "\<bar>F - (s' + sum_list xs)\<bar> \<le> (q - 1) * (\<bar>s'\<bar> + A)"
    unfolding F_def q_def A_def by (rule Cons.IH)
  also have "\<dots> \<le> (q - 1) * ((1 + u) * B + A)"
    by (rule mult_left_mono) (use e2 q in simp_all)
  finally have e3: "\<bar>F - (s' + sum_list xs)\<bar> \<le> (q - 1) * ((1 + u) * B + A)" .
  have "\<bar>F - (s + sum_list (x # xs))\<bar> \<le> \<bar>F - (s' + sum_list xs)\<bar> + \<bar>s' - (s + x)\<bar>"
    by simp
  also have "\<dots> \<le> (q - 1) * ((1 + u) * B + A) + u * B"
    using e3 e1 by linarith
  also have "\<dots> = (q * (1 + u) - 1) * B + (q - 1) * A"
    by (simp add: algebra_simps)
  also have "\<dots> \<le> (q * (1 + u) - 1) * B + (q * (1 + u) - 1) * A"
  proof -
    have "0 \<le> q * u"
      using q u by simp
    then have "q - 1 \<le> q * (1 + u) - 1"
      by (simp add: algebra_simps)
    then have "(q - 1) * A \<le> (q * (1 + u) - 1) * A"
      by (rule mult_right_mono [OF _ A0])
    then show ?thesis
      by simp
  qed
  also have "\<dots> = ((1 + u) ^ length (x # xs) - 1) * (\<bar>s\<bar> + (\<Sum>x\<leftarrow>x # xs. \<bar>x\<bar>))"
    by (simp add: q_def A_def B_def algebra_simps)
  finally show ?case
    by (simp add: F_def s'_def)
qed

lemma rsum_error:
  fixes rnd :: "real \<Rightarrow> real" and u :: real
  assumes rnd: "\<And>x. \<bar>rnd x - x\<bar> \<le> u * \<bar>x\<bar>" and u: "0 \<le> u"
  shows "\<bar>rsum rnd xs - sum_list xs\<bar> \<le> ((1 + u) ^ length xs - 1) * (\<Sum>x\<leftarrow>xs. \<bar>x\<bar>)"
  using foldl_rnd_error [OF rnd u, of 0 xs] by (simp add: rsum_def)

lemma sum_list_abs_eq:
  "(\<And>x. x \<in> set xs \<Longrightarrow> 0 \<le> x) \<Longrightarrow> (\<Sum>x\<leftarrow>xs. \<bar>x\<bar>) = sum_list xs" for xs :: "real list"
  by (induction xs) simp_all

lemma window_rounded_bound_nonneg:
  fixes rnd :: "real \<Rightarrow> real" and u g :: real
  assumes N: "1 \<le> N"
    and rnd: "\<And>y. y = sm rs / of_int N \<or> y \<in> (\<lambda>x. x / cgain_rounded rnd sm N rs) ` set rs
                 \<Longrightarrow> \<bar>rnd y - y\<bar> \<le> u * \<bar>y\<bar>"
    and u: "0 \<le> u" "u < 1"
    and sm: "\<bar>sm rs - sum_list rs\<bar> \<le> g * sum_list rs"
    and g: "g < 1"
    and pos: "\<And>x. x \<in> set rs \<Longrightarrow> 0 \<le> x" "0 < sum_list rs"
  shows "\<bar>sum_list (window_rounded rnd sm N rs) / of_int N - 1\<bar>
           \<le> ((g + u) / (1 - g) + u) / (1 - u)"
proof -
  define S where "S = sum_list rs"
  have A: "(\<Sum>x\<leftarrow>rs. \<bar>x\<bar>) = S"
    unfolding S_def using pos(1) by (rule sum_list_abs_eq)
  have S: "0 < S"
    using pos(2) by (simp add: S_def)
  have d: "\<bar>sm rs - S\<bar> \<le> g * S"
    using sm by (simp add: S_def)
  have g0: "0 \<le> g"
  proof -
    from d have "0 \<le> g * S"
      by (rule order_trans [OF abs_ge_zero])
    with S show ?thesis
      by (simp add: zero_le_mult_iff)
  qed
  have "S - \<bar>sm rs - S\<bar> \<le> \<bar>sm rs\<bar>"
    by linarith
  with d have lo: "(1 - g) * S \<le> \<bar>sm rs\<bar>"
    by (simp add: algebra_simps)
  from g S have lo0: "0 < (1 - g) * S"
    by simp
  with lo have nz: "sm rs \<noteq> 0"
    by auto
  have "\<bar>sum_list (window_rounded rnd sm N rs) / of_int N - 1\<bar>
           \<le> ((g + u) * (\<Sum>x\<leftarrow>rs. \<bar>x\<bar>) / \<bar>sm rs\<bar> + u) / (1 - u)"
  proof (rule window_rounded_bound [where g = g])
    show "\<bar>rnd y - y\<bar> \<le> u * \<bar>y\<bar>"
      if "y = sm rs / of_int N \<or> y \<in> (\<lambda>x. x / cgain_rounded rnd sm N rs) ` set rs" for y
      using that by (rule rnd)
    show "\<bar>sm rs - sum_list rs\<bar> \<le> g * (\<Sum>x\<leftarrow>rs. \<bar>x\<bar>)"
      using sm by (simp only: A S_def)
  qed (use N u nz in simp_all)
  also have "\<dots> = ((g + u) * (S / \<bar>sm rs\<bar>) + u) / (1 - u)"
    by (simp add: A)
  also have "\<dots> \<le> ((g + u) * (1 / (1 - g)) + u) / (1 - u)"
  proof -
    have "S / \<bar>sm rs\<bar> \<le> S / ((1 - g) * S)"
      by (rule divide_left_mono [OF lo]) (use S lo lo0 in \<open>auto intro: mult_pos_pos\<close>)
    also have "\<dots> = 1 / (1 - g)"
      using S by simp
    finally have "S / \<bar>sm rs\<bar> \<le> 1 / (1 - g)" .
    then have "(g + u) * (S / \<bar>sm rs\<bar>) \<le> (g + u) * (1 / (1 - g))"
      by (rule mult_left_mono) (use g0 u in simp)
    then show ?thesis
      using u by (simp add: divide_right_mono)
  qed
  finally show ?thesis
    by simp
qed

lemma round_up_error: "\<bar>round_up x - x\<bar> \<le> (1 / 2 ^ 53) * \<bar>x\<bar>"
proof -
  have "round_up x - x = (1 / 2 ^ 53) * x"
    by (simp add: round_up_def algebra_simps)
  then have "\<bar>round_up x - x\<bar> = \<bar>(1 / 2 ^ 53) * x\<bar>"
    by (simp only:)
  also have "\<dots> = \<bar>1 / 2 ^ 53\<bar> * \<bar>x\<bar>"
    by (rule abs_mult)
  also have "\<dots> = (1 / 2 ^ 53) * \<bar>x\<bar>"
    by simp
  finally show ?thesis
    by (rule eq_refl)
qed

text \<open>
  C1, as amended.  For \<open>N \<ge> 1\<close>, a call of \<open>get_window\<close> that does not take the array
  from the cache, and whose array \<open>w\<close> before normalization (the generator's output, or
  the ones of the fallback) is one-dimensional, stores \<open>cgain = sum(w)/N\<close> and
  \<open>nenbw = N\<cdot>sum(w\<^sup>2)/sum(w)\<^sup>2\<close>, computed on that array, in the sub-dictionary of the
  window, and returns and caches the array divided by \<open>cgain\<close>.  When \<open>w\<close> is finite with
  a sum other than zero, the sum of the returned array divided by \<open>N\<close> is 1 in exact
  arithmetic.  In floating point it is 1 up to rounding: if the two divisions are rounded
  with a relative error of at most \<open>u < 1\<close>, and \<open>np.sum\<close> returns a value other than zero
  that differs from the exact sum by at most \<open>g\<cdot>sum(|w|)\<close>, then it differs from 1 by at
  most \<open>((g+u)\<cdot>sum(|w|)/|np.sum(w)| + u)/(1-u)\<close>, which for an array without negative
  elements and \<open>g < 1\<close> is at most \<open>((g+u)/(1-g) + u)/(1-u)\<close>.
\<close>

theorem get_window_unit_gain:
  assumes N: "1 \<le> N"
    and cur: "cur_win_name wd = Some cur" "win wd = Some c" "py_len c = Inr l"
    and miss: "(wn = None \<or> wn = Some cur) \<longrightarrow> l \<noteq> N"
    and d: "window_of wd (case wn of None \<Rightarrow> cur | Some x \<Rightarrow> x) = Inr d"
           "win_fnct d = Some f" "n_par d = Some n"
    and raw: "raw_window ev d f n N symm = (lg, r)"
    and w: "r = Some (Array xs) \<or> (r = None \<and> xs = replicate (nat N) (Fin 1))"
  shows "get_window ev wd N wn symm =
           Inr (Array (map (\<lambda>x. fdiv x (fdiv (fsum xs) (Fin (of_int N)))) xs),
                wd\<lparr>entries := (entries wd)
                      ((case wn of None \<Rightarrow> cur | Some x \<Rightarrow> x) \<mapsto>
                         d\<lparr>nenbw := Some (fdiv (fmul (Fin (of_int N))
                                                  (fsum (map (\<lambda>x. fmul x x) xs)))
                                            (fmul (fsum xs) (fsum xs))),
                           cgain := Some (fdiv (fsum xs) (Fin (of_int N)))\<rparr>),
                    win := Some (Array (map (\<lambda>x. fdiv x (fdiv (fsum xs) (Fin (of_int N)))) xs))\<rparr>,
                if r = None then lg @ [WarnFallingBack] else lg)
       \<and> (\<forall>rs. xs = map Fin rs \<and> sum_list rs \<noteq> 0 \<longrightarrow>
             map (\<lambda>x. fdiv x (fdiv (fsum xs) (Fin (of_int N)))) xs =
               map Fin (window_rounded (\<lambda>x. x) sum_list N rs)
             \<and> fdiv (fsum xs) (Fin (of_int N)) = Fin (cgain_rounded (\<lambda>x. x) sum_list N rs)
             \<and> sum_list (window_rounded (\<lambda>x. x) sum_list N rs) / of_int N = 1
             \<and> fdiv (np_sum (Array (map (\<lambda>x. fdiv x (fdiv (fsum xs) (Fin (of_int N)))) xs)))
                    (Fin (of_int N)) = Fin 1)
       \<and> (\<forall>rs rnd sm u g.
             xs = map Fin rs
             \<and> (\<forall>y. y = sm rs / of_int N \<or> y \<in> (\<lambda>x. x / cgain_rounded rnd sm N rs) ` set rs
                     \<longrightarrow> \<bar>rnd y - y\<bar> \<le> u * \<bar>y\<bar>)
             \<and> 0 \<le> u \<and> u < 1
             \<and> \<bar>sm rs - sum_list rs\<bar> \<le> g * (\<Sum>x\<leftarrow>rs. \<bar>x\<bar>)
             \<and> sm rs \<noteq> 0 \<longrightarrow>
             \<bar>sum_list (window_rounded rnd sm N rs) / of_int N - 1\<bar>
               \<le> ((g + u) * (\<Sum>x\<leftarrow>rs. \<bar>x\<bar>) / \<bar>sm rs\<bar> + u) / (1 - u))
       \<and> (\<forall>rs rnd sm u g.
             xs = map Fin rs
             \<and> (\<forall>y. y = sm rs / of_int N \<or> y \<in> (\<lambda>x. x / cgain_rounded rnd sm N rs) ` set rs
                     \<longrightarrow> \<bar>rnd y - y\<bar> \<le> u * \<bar>y\<bar>)
             \<and> 0 \<le> u \<and> u < 1
             \<and> \<bar>sm rs - sum_list rs\<bar> \<le> g * sum_list rs \<and> g < 1
             \<and> (\<forall>x\<in>set rs. 0 \<le> x) \<and> 0 < sum_list rs \<longrightarrow>
             \<bar>sum_list (window_rounded rnd sm N rs) / of_int N - 1\<bar>
               \<le> ((g + u) / (1 - g) + u) / (1 - u))"
proof (intro conjI allI impI)
  show "get_window ev wd N wn symm =
           Inr (Array (map (\<lambda>x. fdiv x (fdiv (fsum xs) (Fin (of_int N)))) xs),
                wd\<lparr>entries := (entries wd)
                      ((case wn of None \<Rightarrow> cur | Some x \<Rightarrow> x) \<mapsto>
                         d\<lparr>nenbw := Some (fdiv (fmul (Fin (of_int N))
                                                  (fsum (map (\<lambda>x. fmul x x) xs)))
                                            (fmul (fsum xs) (fsum xs))),
                           cgain := Some (fdiv (fsum xs) (Fin (of_int N)))\<rparr>),
                    win := Some (Array (map (\<lambda>x. fdiv x (fdiv (fsum xs) (Fin (of_int N)))) xs))\<rparr>,
                if r = None then lg @ [WarnFallingBack] else lg)"
    using get_window_miss [OF cur miss, of ev symm] compute_window_Array [OF N d raw w]
    by simp
next
  fix rs
  assume a: "xs = map Fin rs \<and> sum_list rs \<noteq> 0"
  then have xs: "xs = map Fin rs" and s: "sum_list rs \<noteq> 0"
    by simp_all
  note ex = exact_normalization [OF N s]
  show "map (\<lambda>x. fdiv x (fdiv (fsum xs) (Fin (of_int N)))) xs =
               map Fin (window_rounded (\<lambda>x. x) sum_list N rs)"
    unfolding xs by (rule ex(1))
  show "fdiv (fsum xs) (Fin (of_int N)) = Fin (cgain_rounded (\<lambda>x. x) sum_list N rs)"
    unfolding xs by (rule ex(2))
  show "sum_list (window_rounded (\<lambda>x. x) sum_list N rs) / of_int N = 1"
    by (rule ex(3))
  have "fdiv (np_sum (Array (map Fin (window_rounded (\<lambda>x. x) sum_list N rs))))
             (Fin (of_int N)) = Fin 1"
    using N ex(3) by (simp add: np_sum_def fsum_Fin)
  then show "fdiv (np_sum (Array (map (\<lambda>x. fdiv x (fdiv (fsum xs) (Fin (of_int N)))) xs)))
                    (Fin (of_int N)) = Fin 1"
    unfolding xs ex(1) .
next
  fix rs :: "real list" and rnd sm and u g :: real
  assume a: "xs = map Fin rs
             \<and> (\<forall>y. y = sm rs / of_int N \<or> y \<in> (\<lambda>x. x / cgain_rounded rnd sm N rs) ` set rs
                     \<longrightarrow> \<bar>rnd y - y\<bar> \<le> u * \<bar>y\<bar>)
             \<and> 0 \<le> u \<and> u < 1
             \<and> \<bar>sm rs - sum_list rs\<bar> \<le> g * (\<Sum>x\<leftarrow>rs. \<bar>x\<bar>)
             \<and> sm rs \<noteq> 0"
  show "\<bar>sum_list (window_rounded rnd sm N rs) / of_int N - 1\<bar>
               \<le> ((g + u) * (\<Sum>x\<leftarrow>rs. \<bar>x\<bar>) / \<bar>sm rs\<bar> + u) / (1 - u)"
  proof (rule window_rounded_bound [where g = g])
    show "\<bar>rnd y - y\<bar> \<le> u * \<bar>y\<bar>"
      if "y = sm rs / of_int N \<or> y \<in> (\<lambda>x. x / cgain_rounded rnd sm N rs) ` set rs" for y
      using a that by blast
    show "\<bar>sm rs - sum_list rs\<bar> \<le> g * (\<Sum>x\<leftarrow>rs. \<bar>x\<bar>)"
      using a by blast
    show "1 \<le> N" "0 \<le> u" "u < 1" "sm rs \<noteq> 0"
      using N a by blast+
  qed
next
  fix rs :: "real list" and rnd sm and u g :: real
  assume a: "xs = map Fin rs
             \<and> (\<forall>y. y = sm rs / of_int N \<or> y \<in> (\<lambda>x. x / cgain_rounded rnd sm N rs) ` set rs
                     \<longrightarrow> \<bar>rnd y - y\<bar> \<le> u * \<bar>y\<bar>)
             \<and> 0 \<le> u \<and> u < 1
             \<and> \<bar>sm rs - sum_list rs\<bar> \<le> g * sum_list rs \<and> g < 1
             \<and> (\<forall>x\<in>set rs. 0 \<le> x) \<and> 0 < sum_list rs"
  show "\<bar>sum_list (window_rounded rnd sm N rs) / of_int N - 1\<bar>
               \<le> ((g + u) / (1 - g) + u) / (1 - u)"
  proof (rule window_rounded_bound_nonneg [where g = g])
    show "\<bar>rnd y - y\<bar> \<le> u * \<bar>y\<bar>"
      if "y = sm rs / of_int N \<or> y \<in> (\<lambda>x. x / cgain_rounded rnd sm N rs) ` set rs" for y
      using a that by blast
    show "\<bar>sm rs - sum_list rs\<bar> \<le> g * sum_list rs"
      using a by blast
    show "0 \<le> x" if "x \<in> set rs" for x
      using a that by blast
    show "1 \<le> N" "0 \<le> u" "u < 1" "g < 1" "0 < sum_list rs"
      using N a by blast+
  qed
qed

theorem get_window_unit_gain_witness:
  "get_window demo_env bh5_dict 2 None False =
     Inr (Array [Fin (21731872448237 / 500010865936224177),
                 Fin (1000000000000000117 / 500010865936224177)], bh5_cached, [])
   \<and> fdiv (np_sum (Array [Fin (21731872448237 / 500010865936224177),
                          Fin (1000000000000000117 / 500010865936224177)])) (Fin 2) = Fin 1
   \<and> \<bar>sum_list (window_rounded round_up (rsum round_up) 2
                  [21731872448237/1000000000000000000,
                   1000000000000000117/1000000000000000000]) / 2 - 1\<bar> \<le> 5 / 2 ^ 53"
proof -
  define rs :: "real list" where
    "rs = [21731872448237/1000000000000000000, 1000000000000000117/1000000000000000000]"
  define u :: real where "u = 1 / 2 ^ 53"
  define g :: real where "g = (1 + u) * (1 + u) - 1"
  have N: "1 \<le> (2::int)"
    by simp
  have cur: "cur_win_name bh5_dict = Some ''Blackmanharris_5''"
    "win bh5_dict = Some EmptyList" "py_len EmptyList = Inr 0"
    by (simp_all add: bh5_dict_def py_len_def)
  have miss: "(None = None \<or> None = Some ''Blackmanharris_5'') \<longrightarrow> (0::int) \<noteq> 2"
    by simp
  have d: "window_of bh5_dict (case None of None \<Rightarrow> ''Blackmanharris_5'' | Some x \<Rightarrow> x)
             = Inr bh5_entry"
    "win_fnct bh5_entry = Some (Some (as_win_fnct blackmanharris5))"
    "n_par bh5_entry = Some 0"
    by (simp_all add: window_of_def bh5_dict_def bh5_entry_def)
  have raw: "raw_window demo_env bh5_entry (Some (as_win_fnct blackmanharris5)) 0 2 False =
               ([], Some (Array (map Fin rs)))"
    unfolding rs_def by (rule bh5_raw_2)
  have w: "Some (Array (map Fin rs)) = Some (Array (map Fin rs))
           \<or> (Some (Array (map Fin rs)) = None \<and> map Fin rs = replicate (nat 2) (Fin 1))"
    by simp
  note T = get_window_unit_gain [OF N cur miss d raw w]
  have s: "sum_list rs \<noteq> 0"
    by (simp add: rs_def)
  have run: "get_window demo_env bh5_dict 2 None False =
     Inr (Array [Fin (21731872448237 / 500010865936224177),
                 Fin (1000000000000000117 / 500010865936224177)], bh5_cached, [])"
    using T [THEN conjunct1] by (simp add: rs_def bh5_dict_def bh5_cached_def fsum_def)
  have "fdiv (np_sum (Array (map (\<lambda>x. fdiv x (fdiv (fsum (map Fin rs)) (Fin (of_int 2))))
                                  (map Fin rs)))) (Fin (of_int 2)) = Fin 1"
    by (rule T [THEN conjunct2, THEN conjunct1, rule_format, of rs, OF conjI [OF refl s],
                THEN conjunct2, THEN conjunct2, THEN conjunct2])
  then have unit: "fdiv (np_sum (Array [Fin (21731872448237 / 500010865936224177),
                          Fin (1000000000000000117 / 500010865936224177)])) (Fin 2) = Fin 1"
    by (simp add: rs_def fsum_def)
  have e: "\<bar>round_up y - y\<bar> \<le> u * \<bar>y\<bar>" for y
    unfolding u_def by (rule round_up_error)
  have u: "0 \<le> u" "u < 1"
    by (simp_all add: u_def)
  have "\<bar>rsum round_up rs - sum_list rs\<bar> \<le> ((1 + u) ^ length rs - 1) * (\<Sum>x\<leftarrow>rs. \<bar>x\<bar>)"
    using e u(1) by (rule rsum_error)
  then have sm: "\<bar>rsum round_up rs - sum_list rs\<bar> \<le> g * sum_list rs"
    by (simp add: g_def rs_def)
  have g: "g < 1"
    by (simp add: g_def u_def)
  have pos: "\<forall>x\<in>set rs. 0 \<le> x" "0 < sum_list rs"
    by (simp_all add: rs_def)
  have "\<bar>sum_list (window_rounded round_up (rsum round_up) (2::int) rs) / of_int 2 - 1\<bar>
          \<le> ((g + u) / (1 - g) + u) / (1 - u)"
    using T [THEN conjunct2, THEN conjunct2, THEN conjunct2, rule_format,
             where rs = rs and rnd = round_up and sm = "rsum round_up" and u = u and g = g]
      e u sm g pos
    by simp
  also have "\<dots> \<le> 5 / 2 ^ 53"
    by (simp add: g_def u_def)
  finally have "\<bar>sum_list (window_rounded round_up (rsum round_up) 2 rs) / 2 - 1\<bar> \<le> 5 / 2 ^ 53"
    by simp
  with run unit show ?thesis
    by (simp only: rs_def)
qed

text \<open>
  For \<open>N = 1\<close> a symmetric cosine-sum window divides by \<open>L = N - 1 = 0\<close>: the grid, the
  window, its gain and the returned array are \<open>nan\<close>, and so is the sum of the returned
  array divided by \<open>N\<close>.  A generator output whose sum is 0, here \<open>[0, 0]\<close>, has the
  gain 0 and is returned as \<open>[nan, nan]\<close>.
\<close>

theorem get_window_nan_gain:
  "map_sum id fst (get_window demo_env bh5_dict 1 None True) = Inr (Array [NaN])
   \<and> fdiv (np_sum (Array [NaN])) (Fin 1) \<noteq> Fin 1
   \<and> map_sum id fst
         (get_window demo_env
            (hann_dict (\<lambda>N ps symm. Return (Some (Array [Fin 0, Fin 0])))) 2 None True) =
       Inr (Array [NaN, NaN])
   \<and> fdiv (np_sum (Array [NaN, NaN])) (Fin 2) \<noteq> Fin 1"
proof -
  have "map_sum id fst (get_window demo_env bh5_dict 1 None True) = Inr (Array [NaN])"
    by (simp add: get_window_def bh5_dict_def bh5_entry_def py_len_def compute_window_def
          window_of_def mk_window_def raw_window_def try_window_def call_fnct_def
          as_win_fnct_def blackmanharris5_def calc_cosine_window_def a5_def x_grid_def Let_def
          np_sum_def np_square_def fsum_def idiv_def)
  moreover have "map_sum id fst
         (get_window demo_env
            (hann_dict (\<lambda>N ps symm. Return (Some (Array [Fin 0, Fin 0])))) 2 None True) =
       Inr (Array [NaN, NaN])"
    by (simp add: get_window_def hann_dict_def py_len_def compute_window_def window_of_def
          mk_window_def raw_window_def try_window_def call_fnct_def Let_def np_sum_def
          np_square_def fsum_def idiv_def)
  ultimately show ?thesis
    by (simp add: np_sum_def fsum_def)
qed

subsection \<open>Fallback to the rectangular window\<close>

lemma raw_window_None:
  assumes "snd (try_window ev d f n N symm) = Raise m \<or>
           snd (try_window ev d f n N symm) = Return None"
  shows "snd (raw_window ev d f n N symm) = None"
  using assms by (auto simp: raw_window_def split: prod.splits gen_result.splits)

lemma raw_window_log_Raise:
  assumes "snd (try_window ev d f n N symm) = Raise m"
  shows "ErrWindowFunction (fn_name d) m \<in> set (fst (raw_window ev d f n N symm))"
  using assms by (auto simp: raw_window_def split: prod.splits gen_result.splits)

lemma raw_window_log_unsupported:
  assumes "fn_name d \<noteq> ''dpss''" "2 < n"
  shows "raw_window ev d f n N symm = ([ErrUnsupportedParams n], None)"
  using assms by (simp add: raw_window_def try_window_def)


text \<open>
  C4.  For \<open>N \<ge> 1\<close>, when \<open>get_window\<close> does not take the array from the cache and the
  \<open>try\<close> block ends with an exception (of the generator or of a subscript), with the
  result \<open>None\<close>, or with an unsupported number of parameters, the call returns normally:
  the result is the array of \<open>N\<close> ones, gain and bandwidth are stored as 1, and the log
  ends with the warning of the fallback, after the error record of the exception or of
  the unsupported count.
\<close>

theorem get_window_falls_back:
  assumes N: "1 \<le> N"
    and cur: "cur_win_name wd = Some cur" "win wd = Some c" "py_len c = Inr l"
    and miss: "(wn = None \<or> wn = Some cur) \<longrightarrow> l \<noteq> N"
    and d: "window_of wd (case wn of None \<Rightarrow> cur | Some x \<Rightarrow> x) = Inr d"
           "win_fnct d = Some f" "n_par d = Some n"
    and fail: "snd (try_window ev d f n N symm) = Raise m
               \<or> snd (try_window ev d f n N symm) = Return None
               \<or> (fn_name d \<noteq> ''dpss'' \<and> 2 < n)"
  shows "get_window ev wd N wn symm =
           Inr (Array (replicate (nat N) (Fin 1)),
                wd\<lparr>entries := (entries wd)
                      ((case wn of None \<Rightarrow> cur | Some x \<Rightarrow> x) \<mapsto>
                         d\<lparr>nenbw := Some (Fin 1), cgain := Some (Fin 1)\<rparr>),
                    win := Some (Array (replicate (nat N) (Fin 1)))\<rparr>,
                fst (raw_window ev d f n N symm) @ [WarnFallingBack])
         \<and> (snd (try_window ev d f n N symm) = Raise m \<longrightarrow>
              ErrWindowFunction (fn_name d) m \<in> set (fst (raw_window ev d f n N symm)))
         \<and> (fn_name d \<noteq> ''dpss'' \<and> 2 < n \<longrightarrow>
              fst (raw_window ev d f n N symm) = [ErrUnsupportedParams n])"
proof -
  from fail have none: "snd (raw_window ev d f n N symm) = None"
    using raw_window_None [of ev d f n N symm m] raw_window_log_unsupported [of d n ev f N symm]
    by auto
  then have raw: "raw_window ev d f n N symm = (fst (raw_window ev d f n N symm), None)"
    by (metis prod.collapse)
  define rs where "rs = replicate (nat N) (1::real)"
  have sum: "sum_list rs = of_int N"
    using N by (simp add: rs_def sum_list_replicate_one)
  have w: "None = Some (Array (map Fin rs)) \<or> (None = (None::ndval option) \<and> rs = replicate (nat N) 1)"
    by (simp add: rs_def)
  have s: "sum_list rs \<noteq> 0"
    using N sum by simp
  have sq: "(\<Sum>x\<leftarrow>rs. x * x) = of_int N"
    using N by (simp add: rs_def sum_list_replicate_one)
  have arr: "map (\<lambda>x. Fin (x / (sum_list rs / of_int N))) rs = replicate (nat N) (Fin 1)"
    using N by (simp add: sum) (simp add: rs_def)
  have en: "Fin (of_int N * (\<Sum>x\<leftarrow>rs. x * x) / (sum_list rs * sum_list rs)) = Fin 1"
    using N by (simp add: sq sum)
  have cg: "Fin (sum_list rs / of_int N) = Fin 1"
    using N by (simp add: sum)
  have "get_window ev wd N wn symm =
           Inr (Array (replicate (nat N) (Fin 1)),
                wd\<lparr>entries := (entries wd)
                      ((case wn of None \<Rightarrow> cur | Some x \<Rightarrow> x) \<mapsto>
                         d\<lparr>nenbw := Some (Fin 1), cgain := Some (Fin 1)\<rparr>),
                    win := Some (Array (replicate (nat N) (Fin 1)))\<rparr>,
                fst (raw_window ev d f n N symm) @ [WarnFallingBack])"
    using get_window_miss [OF cur miss, of ev symm]
      compute_window_finite [OF N d raw w s, unfolded arr en cg]
    by simp
  then show ?thesis
    using raw_window_log_Raise [of ev d f n N symm m] raw_window_log_unsupported [of d n ev f N symm]
    by auto
qed



theorem get_window_falls_back_witness:
  "get_window demo_env (kaiser_dict raising_double (Fin 10)) 3 None False =
     Inr (Array [Fin 1, Fin 1, Fin 1],
          (kaiser_dict raising_double (Fin 10))
            \<lparr>entries := [''Kaiser'' \<mapsto>
               (mk_window ''kaiser'' (Some [\<lparr>val = Fin 10, min_val = Fin 0, max_val = Fin 30\<rparr>]))
                 \<lparr>win_fnct := Some (Some raising_double), n_par := Some 1,
                  nenbw := Some (Fin 1), cgain := Some (Fin 1)\<rparr>],
             win := Some (Array [Fin 1, Fin 1, Fin 1])\<rparr>,
          [ErrWindowFunction ''kaiser'' ''ValueError'', WarnFallingBack])"
proof -
  define e where "e = (mk_window ''kaiser'' (Some [\<lparr>val = Fin 10, min_val = Fin 0, max_val = Fin 30\<rparr>]))
          \<lparr>win_fnct := Some (Some raising_double), n_par := Some 1\<rparr>"
  have N: "1 \<le> (3::int)"
    by simp
  have cur: "cur_win_name (kaiser_dict raising_double (Fin 10)) = Some ''Kaiser''"
    "win (kaiser_dict raising_double (Fin 10)) = Some EmptyList" "py_len EmptyList = Inr 0"
    by (simp_all add: kaiser_dict_def py_len_def)
  have miss: "(None = None \<or> None = Some ''Kaiser'') \<longrightarrow> (0::int) \<noteq> 3"
    by simp
  have d: "window_of (kaiser_dict raising_double (Fin 10))
             (case None of None \<Rightarrow> ''Kaiser'' | Some x \<Rightarrow> x) = Inr e"
    "win_fnct e = Some (Some raising_double)" "n_par e = Some 1"
    by (simp_all add: window_of_def kaiser_dict_def e_def)
  have t: "try_window demo_env e (Some raising_double) 1 3 False = ([], Raise ''ValueError'')"
    by (simp add: try_window_def e_def mk_window_def par_val_def call_fnct_def raising_double_def)
  then have fail: "snd (try_window demo_env e (Some raising_double) 1 3 False) = Raise ''ValueError''
      \<or> snd (try_window demo_env e (Some raising_double) 1 3 False) = Return None
      \<or> (fn_name e \<noteq> ''dpss'' \<and> 2 < (1::nat))"
    by simp
  have r: "raw_window demo_env e (Some raising_double) 1 3 False =
             ([ErrWindowFunction ''kaiser'' ''ValueError''], None)"
    unfolding raw_window_def t by (simp add: e_def mk_window_def)
  have three: "replicate (nat 3) (Fin 1) = [Fin 1, Fin 1, Fin 1]"
    by (simp add: numeral_3_eq_3)
  show ?thesis
    using get_window_falls_back [OF N cur miss d fail, unfolded r fst_conv three]
    by (simp add: e_def kaiser_dict_def)
qed

subsection \<open>The cache\<close>

lemma par_val_stats: "par_val (d\<lparr>nenbw := a, cgain := b\<rparr>) i = par_val d i"
  by (simp add: par_val_def)

lemma fn_name_stats: "fn_name (d\<lparr>nenbw := a, cgain := b\<rparr>) = fn_name d"
  by simp

lemma raw_window_stats:
  "raw_window ev (d\<lparr>nenbw := a, cgain := b\<rparr>) f n N symm = raw_window ev d f n N symm"
  unfolding raw_window_def try_window_def par_val_stats fn_name_stats ..

lemma window_of_not_reserved:
  assumes "window_of wd nm = Inr d" "cur_win_name wd = Some cur" "win wd = Some c"
  shows "nm \<noteq> ''cur_win_name''" "nm \<noteq> ''win''" "entries wd nm = Some d"
  using assms by (auto simp: window_of_def split: if_splits option.splits ndval.splits)

lemma compute_window_eq:
  assumes d: "window_of wd nm = Inr d" "win_fnct d = Some f" "n_par d = Some n"
    and raw: "raw_window ev d f n N symm = (lg0, r)"
    and w0: "(case r of None \<Rightarrow> np_ones N | Some w \<Rightarrow> Inr w) = Inr w0"
    and w: "idiv w0 (fdiv (np_sum w0) (Fin (of_int N))) = Inr w"
  shows "compute_window ev wd N nm symm =
           Inr (w,
                wd\<lparr>entries := (entries wd)
                      (nm \<mapsto> d\<lparr>nenbw := Some (fdiv (fmul (Fin (of_int N)) (np_sum (np_square w0)))
                                                    (fmul (np_sum w0) (np_sum w0))),
                               cgain := Some (fdiv (np_sum w0) (Fin (of_int N)))\<rparr>),
                    win := Some w\<rparr>,
                if r = None then lg0 @ [WarnFallingBack] else lg0)"
  using d raw w by (simp add: compute_window_def w0 Let_def)

lemma compute_window_cases:
  assumes cw: "compute_window ev wd N nm symm = Inr (w, wd', lg)"
  obtains d f n lg0 r w0 where
    "window_of wd nm = Inr d" "win_fnct d = Some f" "n_par d = Some n"
    "raw_window ev d f n N symm = (lg0, r)"
    "(case r of None \<Rightarrow> np_ones N | Some w \<Rightarrow> Inr w) = Inr w0"
    "idiv w0 (fdiv (np_sum w0) (Fin (of_int N))) = Inr w"
proof -
  from cw obtain d where d: "window_of wd nm = Inr d"
    by (auto simp: compute_window_def split: sum.splits)
  from cw d obtain f where f: "win_fnct d = Some f"
    by (auto simp: compute_window_def split: option.splits)
  from cw d f obtain n where n: "n_par d = Some n"
    by (auto simp: compute_window_def split: option.splits)
  obtain lg0 r where raw: "raw_window ev d f n N symm = (lg0, r)"
    by (cases "raw_window ev d f n N symm")
  from cw d f n raw obtain w0 where w0: "(case r of None \<Rightarrow> np_ones N | Some w \<Rightarrow> Inr w) = Inr w0"
    by (auto simp: compute_window_def split: sum.splits)
  from cw d f n raw have "idiv w0 (fdiv (np_sum w0) (Fin (of_int N))) = Inr w"
    by (auto simp: compute_window_def w0 Let_def split: sum.splits)
  with d f n raw w0 show thesis
    by (rule that)
qed

lemma compute_window_again:
  assumes cw: "compute_window ev wd N nm symm = Inr (w, wd', lg)"
    and cur: "cur_win_name wd = Some cur" "win wd = Some c"
  shows "compute_window ev (wd'\<lparr>win := Some c'\<rparr>) N nm symm = Inr (w, wd', lg)"
proof -
  from cw obtain d f n lg0 r w0 where
    d: "window_of wd nm = Inr d" "win_fnct d = Some f" "n_par d = Some n" and
    raw: "raw_window ev d f n N symm = (lg0, r)" and
    w0: "(case r of None \<Rightarrow> np_ones N | Some w \<Rightarrow> Inr w) = Inr w0" and
    w: "idiv w0 (fdiv (np_sum w0) (Fin (of_int N))) = Inr w"
    by (rule compute_window_cases)
  define en where "en = fdiv (fmul (Fin (of_int N)) (np_sum (np_square w0))) (fmul (np_sum w0) (np_sum w0))"
  define cg where "cg = fdiv (np_sum w0) (Fin (of_int N))"
  define d' where "d' = d\<lparr>nenbw := Some en, cgain := Some cg\<rparr>"
  have wd': "wd' = wd\<lparr>entries := (entries wd)(nm \<mapsto> d'), win := Some w\<rparr>"
    and lg: "lg = (if r = None then lg0 @ [WarnFallingBack] else lg0)"
    using cw compute_window_eq [OF d raw w0 w] by (simp_all add: d'_def en_def cg_def)
  note nr = window_of_not_reserved [OF d(1) cur]
  have d2: "window_of (wd'\<lparr>win := Some c'\<rparr>) nm = Inr d'"
    "win_fnct d' = Some f" "n_par d' = Some n"
    using nr d by (simp_all add: window_of_def wd' d'_def)
  have raw2: "raw_window ev d' f n N symm = (lg0, r)"
    using raw by (simp add: d'_def raw_window_stats)
  have upd: "d'\<lparr>nenbw := Some en, cgain := Some cg\<rparr> = d'"
    by (simp add: d'_def)
  show ?thesis
    using compute_window_eq [OF d2 raw2 w0 w]
    by (simp add: en_def [symmetric] cg_def [symmetric] upd wd' lg)
qed


text \<open>
  C9, as amended.  Let \<open>win_name\<close> be \<open>None\<close> or the current window name.  When \<open>N\<close> is
  the length of the stored array, \<open>get_window\<close> returns the stored array, leaves the
  dictionary as it is and logs nothing, whatever the generators and whatever \<open>sym\<close>.
  When \<open>N\<close> is another length (and not 0) and the call returns \<open>w\<close> and the dictionary
  \<open>wd'\<close>, recomputing on \<open>wd'\<close> with the cache emptied returns the same \<open>w\<close>, \<open>wd'\<close>
  and log, and a further call for the same \<open>N\<close> returns \<open>w\<close> from the cache when
  \<open>w\<close> has length \<open>N\<close> (for any \<open>sym\<close>).
\<close>

theorem cache_hit_is_transparent:
  assumes cur: "cur_win_name wd = Some cur"
    and wn: "wn = None \<or> wn = Some cur"
    and c: "win wd = Some c" "py_len c = Inr l"
  shows "(l = N \<longrightarrow> get_window ev wd N wn symm = Inr (c, wd, []))
       \<and> (l \<noteq> N \<and> N \<noteq> 0 \<and> get_window ev wd N wn symm = Inr (w, wd', lg) \<longrightarrow>
            get_window ev (wd'\<lparr>win := Some EmptyList\<rparr>) N wn symm = Inr (w, wd', lg)
            \<and> (py_len w = Inr N \<longrightarrow> get_window ev' wd' N wn symm' = Inr (w, wd', [])))"
proof (intro conjI impI)
  assume "l = N"
  with cur wn c show "get_window ev wd N wn symm = Inr (c, wd, [])"
    by (simp add: get_window_hit)
next
  assume a: "l \<noteq> N \<and> N \<noteq> 0 \<and> get_window ev wd N wn symm = Inr (w, wd', lg)"
  have nm: "(case wn of None \<Rightarrow> cur | Some x \<Rightarrow> x) = cur"
    using wn by auto
  from a have cw: "compute_window ev wd N cur symm = Inr (w, wd', lg)"
    using get_window_miss [OF cur c, of wn N ev symm] by (simp add: nm)
  from cw obtain d f n lg0 r w0 where
    d: "window_of wd cur = Inr d" "win_fnct d = Some f" "n_par d = Some n" and
    raw: "raw_window ev d f n N symm = (lg0, r)" and
    w0: "(case r of None \<Rightarrow> np_ones N | Some w \<Rightarrow> Inr w) = Inr w0" and
    w: "idiv w0 (fdiv (np_sum w0) (Fin (of_int N))) = Inr w"
    by (rule compute_window_cases)
  have wd': "cur_win_name wd' = Some cur" "win wd' = Some w"
    using cw compute_window_eq [OF d raw w0 w] cur by auto
  have "compute_window ev (wd'\<lparr>win := Some EmptyList\<rparr>) N cur symm = Inr (w, wd', lg)"
    using cw cur c(1) by (rule compute_window_again)
  moreover have "get_window ev (wd'\<lparr>win := Some EmptyList\<rparr>) N wn symm =
      compute_window ev (wd'\<lparr>win := Some EmptyList\<rparr>) N cur symm"
    using get_window_miss [of "wd'\<lparr>win := Some EmptyList\<rparr>" cur EmptyList 0 wn N ev symm] a wd'
    by (simp add: nm py_len_def)
  ultimately show "get_window ev (wd'\<lparr>win := Some EmptyList\<rparr>) N wn symm = Inr (w, wd', lg)"
    by simp
  show "get_window ev' wd' N wn symm' = Inr (w, wd', [])" if "py_len w = Inr N"
    using wd' wn that by (simp add: get_window_hit)
qed



theorem cache_hit_is_transparent_witness:
  "get_window demo_env bh5_cached 2 None True =
     Inr (Array [Fin (21731872448237 / 500010865936224177),
                 Fin (1000000000000000117 / 500010865936224177)], bh5_cached, [])
   \<and> get_window demo_env (bh5_cached\<lparr>win := Some EmptyList\<rparr>) 2 None False =
     Inr (Array [Fin (21731872448237 / 500010865936224177),
                 Fin (1000000000000000117 / 500010865936224177)], bh5_cached, [])"
proof -
  have wn: "None = None \<or> None = Some ''Blackmanharris_5''"
    by simp
  have hit: "cur_win_name bh5_cached = Some ''Blackmanharris_5''"
    "win bh5_cached = Some (Array [Fin (21731872448237 / 500010865936224177),
                 Fin (1000000000000000117 / 500010865936224177)])"
    "py_len (Array [Fin (21731872448237 / 500010865936224177),
                 Fin (1000000000000000117 / 500010865936224177)]) = Inr 2"
    by (simp_all add: bh5_cached_def py_len_def)
  have miss: "cur_win_name bh5_dict = Some ''Blackmanharris_5''"
    "win bh5_dict = Some EmptyList" "py_len EmptyList = Inr 0"
    by (simp_all add: bh5_dict_def py_len_def)
  have "get_window demo_env bh5_cached 2 None True =
     Inr (Array [Fin (21731872448237 / 500010865936224177),
                 Fin (1000000000000000117 / 500010865936224177)], bh5_cached, [])"
    using cache_hit_is_transparent [OF hit(1) wn hit(2,3), of 2 demo_env True]
    by simp
  moreover have "get_window demo_env (bh5_cached\<lparr>win := Some EmptyList\<rparr>) 2 None False =
     Inr (Array [Fin (21731872448237 / 500010865936224177),
                 Fin (1000000000000000117 / 500010865936224177)], bh5_cached, [])"
    using cache_hit_is_transparent [OF miss(1) wn miss(2,3), of 2 demo_env False] bh5_first
    by simp
  ultimately show ?thesis
    by simp
qed

text \<open>
  The cache does not record \<open>sym\<close>.  After the periodic window of length 2 has been
  computed, the request for the symmetric window of length 2 is answered from the cache
  with the periodic one; recomputing gives another array.
\<close>

theorem cache_ignores_symmetry:
  "get_window demo_env bh5_dict 2 None False =
     Inr (Array [Fin (21731872448237 / 500010865936224177),
                 Fin (1000000000000000117 / 500010865936224177)], bh5_cached, [])
   \<and> map_sum id fst (get_window demo_env bh5_cached 2 None True) =
     Inr (Array [Fin (21731872448237 / 500010865936224177),
                 Fin (1000000000000000117 / 500010865936224177)])
   \<and> map_sum id fst (get_window demo_env (bh5_cached\<lparr>win := Some EmptyList\<rparr>) 2 None True) =
     Inr (Array [Fin 1, Fin 1])
   \<and> map_sum id fst (get_window demo_env bh5_cached 2 None True) \<noteq>
     map_sum id fst (get_window demo_env (bh5_cached\<lparr>win := Some EmptyList\<rparr>) 2 None True)"
proof -
  have "get_window demo_env bh5_cached 2 None True =
     Inr (Array [Fin (21731872448237 / 500010865936224177),
                 Fin (1000000000000000117 / 500010865936224177)], bh5_cached, [])"
    by (rule get_window_hit [where cur = "''Blackmanharris_5''"])
       (simp_all add: bh5_cached_def py_len_def)
  then show ?thesis
    using bh5_first bh5_recomputed_symmetric by simp
qed

text \<open>
  \<open>get_window\<close> for a family other than the current one computes that family's window
  and stores it under \<open>win\<close>, but leaves \<open>cur_win_name\<close> as it is (it does not call
  \<open>set_window_name\<close>): the next request for the current family with the same \<open>N\<close> is
  answered with the other family's array.
\<close>

lemma other_family_fills_cache:
  assumes cur: "cur_win_name wd = Some cur"
    and nm: "nm \<noteq> cur"
    and gw: "get_window ev wd N (Some nm) symm = Inr (w, wd', lg)"
    and len: "py_len w = Inr N"
  shows "get_window ev' wd' N None symm' = Inr (w, wd', [])"
proof -
  from cur nm gw have cw: "compute_window ev wd N nm symm = Inr (w, wd', lg)"
    by (simp add: get_window_def)
  from cw obtain d f n lg0 r w0 where
    d: "window_of wd nm = Inr d" "win_fnct d = Some f" "n_par d = Some n" and
    raw: "raw_window ev d f n N symm = (lg0, r)" and
    w0: "(case r of None \<Rightarrow> np_ones N | Some w \<Rightarrow> Inr w) = Inr w0" and
    w: "idiv w0 (fdiv (np_sum w0) (Fin (of_int N))) = Inr w"
    by (rule compute_window_cases)
  have "cur_win_name wd' = Some cur" "win wd' = Some w"
    using cw compute_window_eq [OF d raw w0 w] cur by auto
  then show ?thesis
    using len by (simp add: get_window_hit)
qed

subsection \<open>Invalidation of the cache\<close>

lemma set_window_name_cache:
  assumes "set_window_name ev wd nm = Inr (f, wd', lg)"
  shows "win wd' = Some EmptyList \<and> (\<exists>cur. cur_win_name wd' = Some cur)"
  using assms
  by (auto simp: set_window_name_def Let_def split: sum.splits option.splits prod.splits if_splits)

lemma store_par_frame:
  assumes "store_par ev wd cur i txt = Inr wd'"
  shows "win wd' = win wd \<and> cur_win_name wd' = cur_win_name wd"
  using assms by (auto simp: store_par_def split: sum.splits option.splits if_splits)

lemma update_win_params_cache:
  assumes "update_win_params ev wd t1 t2 = Inr (wd', lg)"
  shows "win wd' = Some EmptyList \<and> (\<exists>cur. cur_win_name wd' = Some cur)"
  using assms
  by (auto simp: update_win_params_def split: option.splits sum.splits prod.splits if_splits
           dest!: store_par_frame set_window_name_cache)


lemma idiv_not_EmptyList: "idiv w0 c \<noteq> Inr EmptyList"
  by (simp add: idiv_def split: ndval.splits)

lemma bh5_recomputed:
  "compute_window demo_env (bh5_cached\<lparr>win := Some EmptyList\<rparr>) 2 ''Blackmanharris_5'' False =
     Inr (Array [Fin (21731872448237 / 500010865936224177),
                 Fin (1000000000000000117 / 500010865936224177)], bh5_cached, [])"
  by (simp add: bh5_cached_def bh5_entry_def compute_window_def window_of_def mk_window_def
        raw_window_def try_window_def call_fnct_def as_win_fnct_def bh5_periodic_2 Let_def
        np_sum_def np_square_def fsum_def idiv_def)

text \<open>
  C10.  Every call of \<open>set_window_name\<close> that returns, also one that selects the current
  family again, leaves the empty list under \<open>win\<close>; so do \<open>update_win_type\<close> and
  \<open>update_win_params\<close>, which call it first.  The next \<open>get_window\<close> for any \<open>N \<ge> 1\<close>
  then recomputes the array: it returns exactly when the sub-dictionary of the requested
  family has a function object and a parameter count, and then the generator is run (or the
  ones of the fallback are taken), the array is divided by its coherent gain, and that array
  is returned and stored under \<open>win\<close> together with the two statistics.  What it returns is
  never the stored empty list.
\<close>

theorem selection_clears_cache:
  assumes "set_window_name ev wd nm = Inr (f, wd', lg)
           \<or> update_win_type ev wd nm = Inr (wd', lg)
           \<or> update_win_params ev wd t1 t2 = Inr (wd', lg)"
  shows "win wd' = Some EmptyList
       \<and> (\<exists>cur. cur_win_name wd' = Some cur
            \<and> (\<forall>N wn symm ev'. 1 \<le> N \<longrightarrow>
                  get_window ev' wd' N wn symm =
                    compute_window ev' wd' N (case wn of None \<Rightarrow> cur | Some x \<Rightarrow> x) symm
                  \<and> (\<forall>w wd'' lg'.
                        get_window ev' wd' N wn symm = Inr (w, wd'', lg') \<longleftrightarrow>
                        (\<exists>d g n lg0 r w0.
                            window_of wd' (case wn of None \<Rightarrow> cur | Some x \<Rightarrow> x) = Inr d
                            \<and> win_fnct d = Some g \<and> n_par d = Some n
                            \<and> raw_window ev' d g n N symm = (lg0, r)
                            \<and> (case r of None \<Rightarrow> np_ones N | Some w \<Rightarrow> Inr w) = Inr w0
                            \<and> idiv w0 (fdiv (np_sum w0) (Fin (of_int N))) = Inr w
                            \<and> wd'' = wd'\<lparr>entries := (entries wd')
                                  ((case wn of None \<Rightarrow> cur | Some x \<Rightarrow> x) \<mapsto>
                                     d\<lparr>nenbw := Some (fdiv (fmul (Fin (of_int N))
                                                                (np_sum (np_square w0)))
                                                          (fmul (np_sum w0) (np_sum w0))),
                                       cgain := Some (fdiv (np_sum w0) (Fin (of_int N)))\<rparr>),
                                 win := Some w\<rparr>
                            \<and> lg' = (if r = None then lg0 @ [WarnFallingBack] else lg0)))
                  \<and> (\<forall>wd'' lg'. get_window ev' wd' N wn symm \<noteq> Inr (EmptyList, wd'', lg'))))"
proof -
  have "win wd' = Some EmptyList \<and> (\<exists>cur. cur_win_name wd' = Some cur)"
    using assms
  proof (elim disjE)
    assume "set_window_name ev wd nm = Inr (f, wd', lg)"
    then show ?thesis
      using set_window_name_cache by blast
  next
    assume "update_win_type ev wd nm = Inr (wd', lg)"
    then obtain g where "set_window_name ev wd nm = Inr (g, wd', lg)"
      by (auto simp: update_win_type_def split: sum.splits)
    then show ?thesis
      using set_window_name_cache by blast
  next
    assume "update_win_params ev wd t1 t2 = Inr (wd', lg)"
    then show ?thesis
      using update_win_params_cache by blast
  qed
  then obtain cur where c: "win wd' = Some EmptyList" "cur_win_name wd' = Some cur"
    by blast
  have gw: "get_window ev' wd' N wn symm =
          compute_window ev' wd' N (case wn of None \<Rightarrow> cur | Some x \<Rightarrow> x) symm"
    if "1 \<le> N" for N wn symm ev'
    using get_window_miss [of wd' cur EmptyList 0 wn N ev' symm] c that
    by (simp add: py_len_def)
  have run: "get_window ev' wd' N wn symm = Inr (w, wd'', lg') \<longleftrightarrow>
                        (\<exists>d g n lg0 r w0.
                            window_of wd' (case wn of None \<Rightarrow> cur | Some x \<Rightarrow> x) = Inr d
                            \<and> win_fnct d = Some g \<and> n_par d = Some n
                            \<and> raw_window ev' d g n N symm = (lg0, r)
                            \<and> (case r of None \<Rightarrow> np_ones N | Some w \<Rightarrow> Inr w) = Inr w0
                            \<and> idiv w0 (fdiv (np_sum w0) (Fin (of_int N))) = Inr w
                            \<and> wd'' = wd'\<lparr>entries := (entries wd')
                                  ((case wn of None \<Rightarrow> cur | Some x \<Rightarrow> x) \<mapsto>
                                     d\<lparr>nenbw := Some (fdiv (fmul (Fin (of_int N))
                                                                (np_sum (np_square w0)))
                                                          (fmul (np_sum w0) (np_sum w0))),
                                       cgain := Some (fdiv (np_sum w0) (Fin (of_int N)))\<rparr>),
                                 win := Some w\<rparr>
                            \<and> lg' = (if r = None then lg0 @ [WarnFallingBack] else lg0))"
    (is "?L \<longleftrightarrow> ?R")
    if N: "1 \<le> N" for N wn symm ev' w wd'' lg'
  proof
    assume ?L
    then have cw: "compute_window ev' wd' N (case wn of None \<Rightarrow> cur | Some x \<Rightarrow> x) symm =
                     Inr (w, wd'', lg')"
      by (simp add: gw [OF N])
    from cw obtain d g n lg0 r w0 where
      d: "window_of wd' (case wn of None \<Rightarrow> cur | Some x \<Rightarrow> x) = Inr d"
         "win_fnct d = Some g" "n_par d = Some n" and
      raw: "raw_window ev' d g n N symm = (lg0, r)" and
      w0: "(case r of None \<Rightarrow> np_ones N | Some w \<Rightarrow> Inr w) = Inr w0" and
      w: "idiv w0 (fdiv (np_sum w0) (Fin (of_int N))) = Inr w"
      by (rule compute_window_cases)
    from cw compute_window_eq [OF d raw w0 w]
    have "wd'' = wd'\<lparr>entries := (entries wd')
                                  ((case wn of None \<Rightarrow> cur | Some x \<Rightarrow> x) \<mapsto>
                                     d\<lparr>nenbw := Some (fdiv (fmul (Fin (of_int N))
                                                                (np_sum (np_square w0)))
                                                          (fmul (np_sum w0) (np_sum w0))),
                                       cgain := Some (fdiv (np_sum w0) (Fin (of_int N)))\<rparr>),
                                 win := Some w\<rparr>"
      and "lg' = (if r = None then lg0 @ [WarnFallingBack] else lg0)"
      by simp_all
    with d raw w0 w show ?R
      by blast
  next
    assume ?R
    then obtain d g n lg0 r w0 where
      d: "window_of wd' (case wn of None \<Rightarrow> cur | Some x \<Rightarrow> x) = Inr d"
         "win_fnct d = Some g" "n_par d = Some n" and
      raw: "raw_window ev' d g n N symm = (lg0, r)" and
      w0: "(case r of None \<Rightarrow> np_ones N | Some w \<Rightarrow> Inr w) = Inr w0" and
      w: "idiv w0 (fdiv (np_sum w0) (Fin (of_int N))) = Inr w" and
      rest: "wd'' = wd'\<lparr>entries := (entries wd')
                                  ((case wn of None \<Rightarrow> cur | Some x \<Rightarrow> x) \<mapsto>
                                     d\<lparr>nenbw := Some (fdiv (fmul (Fin (of_int N))
                                                                (np_sum (np_square w0)))
                                                          (fmul (np_sum w0) (np_sum w0))),
                                       cgain := Some (fdiv (np_sum w0) (Fin (of_int N)))\<rparr>),
                                 win := Some w\<rparr>"
            "lg' = (if r = None then lg0 @ [WarnFallingBack] else lg0)"
      by blast
    show ?L
      unfolding gw [OF N] compute_window_eq [OF d raw w0 w] rest ..
  qed
  have fresh: "get_window ev' wd' N wn symm \<noteq> Inr (EmptyList, wd'', lg')"
    if N: "1 \<le> N" for N wn symm ev' wd'' lg'
  proof
    assume "get_window ev' wd' N wn symm = Inr (EmptyList, wd'', lg')"
    then obtain w0 c where "idiv w0 c = Inr EmptyList"
      unfolding run [OF N] by blast
    then show False
      by (simp add: idiv_not_EmptyList)
  qed
  from c gw run fresh show ?thesis
    by blast
qed

theorem selection_clears_cache_witness:
  "set_window_name demo_env bh5_cached ''Blackmanharris_5'' =
     Inr (Some (as_win_fnct blackmanharris5), bh5_cached\<lparr>win := Some EmptyList\<rparr>, [])
   \<and> win (bh5_cached\<lparr>win := Some EmptyList\<rparr>) = Some EmptyList
   \<and> get_window demo_env (bh5_cached\<lparr>win := Some EmptyList\<rparr>) 2 None False =
       Inr (Array [Fin (21731872448237 / 500010865936224177),
                   Fin (1000000000000000117 / 500010865936224177)], bh5_cached, [])"
proof -
  have f: "fnct_of ''pyfda.libs.pyfda_fft_windows_lib.blackmanharris5'' = ''blackmanharris5''"
    by (simp add: fnct_of_def)
  have m: "mod_name_of ''pyfda.libs.pyfda_fft_windows_lib.blackmanharris5'' =
             ''pyfda.libs.pyfda_fft_windows_lib''"
    by (simp add: mod_name_of_def)
  have s: "set_window_name demo_env bh5_cached ''Blackmanharris_5'' =
     Inr (Some (as_win_fnct blackmanharris5), bh5_cached\<lparr>win := Some EmptyList\<rparr>, [])"
    by (simp add: set_window_name_def in_win_dict_def window_of_def find_win_fnct_def f m
          demo_env_def pyfda_fft_windows_lib_def bh5_cached_def bh5_entry_def mk_window_def
          Let_def)
  then have "set_window_name demo_env bh5_cached ''Blackmanharris_5'' =
       Inr (Some (as_win_fnct blackmanharris5), bh5_cached\<lparr>win := Some EmptyList\<rparr>, [])
     \<or> update_win_type demo_env bh5_cached ''Blackmanharris_5'' =
          Inr (bh5_cached\<lparr>win := Some EmptyList\<rparr>, [])
     \<or> update_win_params demo_env bh5_cached [] [] = Inr (bh5_cached\<lparr>win := Some EmptyList\<rparr>, [])"
    by simp
  from selection_clears_cache [OF this] obtain cur where
    e: "win (bh5_cached\<lparr>win := Some EmptyList\<rparr>) = Some EmptyList" and
    c: "cur_win_name (bh5_cached\<lparr>win := Some EmptyList\<rparr>) = Some cur" and
    g: "\<And>N wn symm ev'. 1 \<le> N \<Longrightarrow>
          get_window ev' (bh5_cached\<lparr>win := Some EmptyList\<rparr>) N wn symm =
            compute_window ev' (bh5_cached\<lparr>win := Some EmptyList\<rparr>) N
              (case wn of None \<Rightarrow> cur | Some x \<Rightarrow> x) symm"
    by blast
  from c have cur: "cur = ''Blackmanharris_5''"
    by (simp add: bh5_cached_def)
  have "get_window demo_env (bh5_cached\<lparr>win := Some EmptyList\<rparr>) 2 None False =
       Inr (Array [Fin (21731872448237 / 500010865936224177),
                   Fin (1000000000000000117 / 500010865936224177)], bh5_cached, [])"
    using g [of 2 demo_env None False] by (simp add: cur bh5_recomputed)
  with s e show ?thesis
    by simp
qed


subsection \<open>Clamping of the shape parameters\<close>

lemma flt_irrefl: "\<not> flt x x"
  by (cases x) simp_all

lemma edit_par_simps:
  "val (edit_par ev p t) = clamp_to (min_val p) (max_val p) (safe_eval ev t (val p))"
  "min_val (edit_par ev p t) = min_val p"
  "max_val (edit_par ev p t) = max_val p"
  by (simp_all add: edit_par_def clamp_to_def Let_def)

lemma clamp_to_bounds:
  "\<not> flt hi lo \<Longrightarrow> \<not> flt (clamp_to lo hi x) lo \<and> \<not> flt hi (clamp_to lo hi x)"
  by (simp add: clamp_to_def flt_irrefl)

lemma clamp_to_idem:
  "\<not> flt hi lo \<Longrightarrow> clamp_to lo hi (clamp_to lo hi x) = clamp_to lo hi x"
  by (simp add: clamp_to_def flt_irrefl)

lemma edit_par_clamped_text:
  assumes "\<not> flt (max_val p) (min_val p)"
    and "safe_eval ev t' (val p) = clamp_to (min_val p) (max_val p) (safe_eval ev t (val p))"
  shows "edit_par ev p t' = edit_par ev p t"
  using assms clamp_to_idem [of "max_val p" "min_val p" "safe_eval ev t (val p)"]
  by (simp add: edit_par_def Let_def clamp_to_def)

lemma store_par_eq:
  assumes "window_of wd cur = Inr d" "par d = Some ps" "i < length ps"
  shows "store_par ev wd cur i txt =
           Inr (wd\<lparr>entries := (entries wd)
                  (cur \<mapsto> d\<lparr>par := Some (ps[i := edit_par ev (ps ! i) txt])\<rparr>)\<rparr>)"
  using assms by (simp add: store_par_def)

lemma window_of_entries_upd:
  assumes "window_of wd cur = Inr d"
  shows "window_of (wd\<lparr>entries := (entries wd)(cur \<mapsto> d')\<rparr>) cur = Inr d'"
  using assms by (auto simp: window_of_def split: if_splits option.splits ndval.splits)

lemma n_par_of_eq:
  assumes "window_of wd cur = Inr d" "n_par d = Some n"
  shows "n_par_of wd cur = Inr n"
  using assms by (simp add: n_par_of_def)

lemma update_win_params_eq:
  assumes cur: "cur_win_name wd = Some cur"
    and sel: "set_window_name ev wd cur = Inr (f, wd1, lg)"
    and d1: "window_of wd1 cur = Inr d1" "n_par d1 = Some n" "par d1 = Some ps" "n \<le> length ps"
  shows "update_win_params ev wd t1 t2 =
           Inr (wd1\<lparr>entries := (entries wd1)
                  (cur \<mapsto> d1\<lparr>par := Some
                     (let ps2 = (if 1 < n then ps[1 := edit_par ev (ps ! 1) t2] else ps)
                      in if 0 < n then ps2[0 := edit_par ev (ps2 ! 0) t1] else ps2)\<rparr>)\<rparr>, lg)"
proof -
  have e1: "entries wd1 cur = Some d1"
    using d1(1) by (auto simp: window_of_def split: if_splits option.splits ndval.splits)
  have id: "wd1\<lparr>entries := (entries wd1)(cur \<mapsto> d1\<lparr>par := Some ps\<rparr>)\<rparr> = wd1"
    using e1 d1(3) by (simp add: map_upd_triv)
  have np1: "n_par_of wd1 cur = Inr n"
    using d1 by (simp add: n_par_of_eq)
  consider "n = 0" | "n = 1" | "1 < n"
    by linarith
  then show ?thesis
  proof cases
    case 1
    then show ?thesis
      using cur sel np1 by (simp add: update_win_params_def id)
  next
    case 2
    with d1 have len: "0 < length ps"
      by (cases ps) simp_all
    show ?thesis
      using cur sel np1 2 store_par_eq [OF d1(1,3) len]
      by (simp add: update_win_params_def)
  next
    case 3
    with d1 have len: "1 < length ps" "0 < length ps"
      by linarith+
    define d2 where "d2 = d1\<lparr>par := Some (ps[1 := edit_par ev (ps ! 1) t2])\<rparr>"
    define wd2 where "wd2 = wd1\<lparr>entries := (entries wd1)(cur \<mapsto> d2)\<rparr>"
    have s1: "store_par ev wd1 cur 1 t2 = Inr wd2"
      using store_par_eq [OF d1(1,3) len(1)] by (simp add: wd2_def d2_def)
    have w2: "window_of wd2 cur = Inr d2"
      unfolding wd2_def using d1(1) by (rule window_of_entries_upd)
    have p2: "par d2 = Some (ps[1 := edit_par ev (ps ! 1) t2])" "n_par d2 = Some n"
      using d1 by (simp_all add: d2_def)
    have np2: "n_par_of wd2 cur = Inr n"
      using w2 p2 by (simp add: n_par_of_eq)
    have s2: "store_par ev wd2 cur 0 t1 =
        Inr (wd2\<lparr>entries := (entries wd2)
               (cur \<mapsto> d2\<lparr>par := Some ((ps[1 := edit_par ev (ps ! 1) t2])
                                         [0 := edit_par ev ((ps[1 := edit_par ev (ps ! 1) t2]) ! 0) t1])\<rparr>)\<rparr>)"
      using store_par_eq [OF w2 p2(1)] len by simp
    show ?thesis
      using cur sel np1 3 s1 np2 s2
      by (simp add: update_win_params_def) (simp add: wd2_def d2_def)
  qed
qed


lemma try_window_pars:
  assumes "par d = Some qs"
  shows "fn_name d \<noteq> ''dpss'' \<Longrightarrow> 0 < length qs \<Longrightarrow>
           try_window ev d g 1 N symm = ([], call_fnct g N [val (qs ! 0)] symm)"
    and "fn_name d \<noteq> ''dpss'' \<Longrightarrow> 1 < length qs \<Longrightarrow>
           try_window ev d g 2 N symm = ([], call_fnct g N [val (qs ! 0), val (qs ! 1)] symm)"
    and "fn_name d = ''dpss'' \<Longrightarrow> 0 < length qs \<Longrightarrow>
           try_window ev d g n N symm =
             ([InfoDpss], case sig_windows ev ''dpss'' of
                            None \<Rightarrow> Raise ''AttributeError''
                          | Some h \<Rightarrow> h N [val (qs ! 0)] symm)"
  using assms by (auto simp: try_window_def par_val_def split: option.splits)

lemma clamp_to_Fin:
  assumes "lo \<le> hi"
  shows "if x = NaN then clamp_to (Fin lo) (Fin hi) x = NaN
         else \<exists>v. clamp_to (Fin lo) (Fin hi) x = Fin v \<and> lo \<le> v \<and> v \<le> hi"
  using assms by (cases x) (auto simp: clamp_to_def)

text \<open>
  C6, as amended.  The shape parameters are clamped where they are entered, not where
  the window is computed.  \<open>update_win_params\<close>, for the current family with stored
  parameter count \<open>n\<close> (at most the number of parameter records), stores for each of the
  first two parameters below \<open>n\<close> the value read from its line edit clamped to that
  parameter's \<open>min\<close> and \<open>max\<close>, which it leaves alone, and changes no other parameter
  record.  With finite bounds \<open>min \<le> max\<close> the stored value is a finite number between
  them, unless the text reads as \<open>nan\<close>, which is stored as it is.  Entering texts that
  read as the clamped values of other texts leaves the same dictionary, so the next
  \<open>get_window\<close> yields the same array.  \<open>get_window\<close> itself hands the stored values to
  the generator as they are: the first for a family with one parameter, the first two for
  a family with two, and the first to \<open>scipy.signal.windows.dpss\<close> for \<open>dpss\<close>.
\<close>

theorem update_win_params_clamps:
  assumes cur: "cur_win_name wd = Some cur"
    and sel: "set_window_name ev wd cur = Inr (f, wd1, lg)"
    and d1: "window_of wd1 cur = Inr d1" "n_par d1 = Some n" "par d1 = Some ps" "n \<le> length ps"
  shows "\<exists>ps'. update_win_params ev wd t1 t2 =
                 Inr (wd1\<lparr>entries := (entries wd1)(cur \<mapsto> d1\<lparr>par := Some ps'\<rparr>)\<rparr>, lg)
          \<and> window_of (wd1\<lparr>entries := (entries wd1)(cur \<mapsto> d1\<lparr>par := Some ps'\<rparr>)\<rparr>) cur =
                Inr (d1\<lparr>par := Some ps'\<rparr>)
          \<and> length ps' = length ps
          \<and> (\<forall>i. i < n \<and> i < 2 \<longrightarrow>
                val (ps' ! i) = clamp_to (min_val (ps ! i)) (max_val (ps ! i))
                                  (safe_eval ev (if i = 0 then t1 else t2) (val (ps ! i)))
                \<and> min_val (ps' ! i) = min_val (ps ! i) \<and> max_val (ps' ! i) = max_val (ps ! i)
                \<and> (\<forall>lo hi. min_val (ps ! i) = Fin lo \<and> max_val (ps ! i) = Fin hi \<and> lo \<le> hi \<longrightarrow>
                      (if safe_eval ev (if i = 0 then t1 else t2) (val (ps ! i)) = NaN
                       then val (ps' ! i) = NaN
                       else \<exists>v. val (ps' ! i) = Fin v \<and> lo \<le> v \<and> v \<le> hi)))
          \<and> (\<forall>i. i < length ps \<and> \<not> (i < n \<and> i < 2) \<longrightarrow> ps' ! i = ps ! i)
          \<and> ((0 < n \<longrightarrow>
                  \<not> flt (max_val (ps ! 0)) (min_val (ps ! 0))
                  \<and> safe_eval ev t1' (val (ps ! 0)) =
                      clamp_to (min_val (ps ! 0)) (max_val (ps ! 0))
                        (safe_eval ev t1 (val (ps ! 0))))
               \<and> (1 < n \<longrightarrow>
                  \<not> flt (max_val (ps ! 1)) (min_val (ps ! 1))
                  \<and> safe_eval ev t2' (val (ps ! 1)) =
                      clamp_to (min_val (ps ! 1)) (max_val (ps ! 1))
                        (safe_eval ev t2 (val (ps ! 1))))
               \<longrightarrow> update_win_params ev wd t1' t2' = update_win_params ev wd t1 t2)
          \<and> (\<forall>ev' g N symm.
                (fn_name d1 \<noteq> ''dpss'' \<and> n = 1 \<longrightarrow>
                   try_window ev' (d1\<lparr>par := Some ps'\<rparr>) g n N symm =
                     ([], call_fnct g N [val (ps' ! 0)] symm))
                \<and> (fn_name d1 \<noteq> ''dpss'' \<and> n = 2 \<longrightarrow>
                   try_window ev' (d1\<lparr>par := Some ps'\<rparr>) g n N symm =
                     ([], call_fnct g N [val (ps' ! 0), val (ps' ! 1)] symm))
                \<and> (fn_name d1 = ''dpss'' \<and> 0 < n \<longrightarrow>
                   try_window ev' (d1\<lparr>par := Some ps'\<rparr>) g n N symm =
                     ([InfoDpss], case sig_windows ev' ''dpss'' of
                                    None \<Rightarrow> Raise ''AttributeError''
                                  | Some h \<Rightarrow> h N [val (ps' ! 0)] symm)))"
proof -
  define ps2 where "ps2 = (if 1 < n then ps[1 := edit_par ev (ps ! 1) t2] else ps)"
  define ps' where "ps' = (if 0 < n then ps2[0 := edit_par ev (ps2 ! 0) t1] else ps2)"
  define d3 where "d3 = d1\<lparr>par := Some ps'\<rparr>"
  have upd: "update_win_params ev wd t1 t2 = Inr (wd1\<lparr>entries := (entries wd1)(cur \<mapsto> d3)\<rparr>, lg)"
    using update_win_params_eq [OF cur sel d1, of t1 t2]
    by (simp add: d3_def ps'_def ps2_def Let_def)
  have wo: "window_of (wd1\<lparr>entries := (entries wd1)(cur \<mapsto> d3)\<rparr>) cur = Inr d3"
    using d1(1) by (rule window_of_entries_upd)
  have len: "length ps' = length ps"
    by (simp add: ps'_def ps2_def)
  have z: "ps2 ! 0 = ps ! 0"
    by (simp add: ps2_def)
  have p0: "ps' ! 0 = edit_par ev (ps ! 0) t1" if "0 < n"
  proof -
    from that d1(4) have "0 < length ps"
      by linarith
    then have "0 < length ps2"
      by (simp add: ps2_def)
    with that show ?thesis
      by (simp add: ps'_def z)
  qed
  have p1: "ps' ! 1 = edit_par ev (ps ! 1) t2" if "1 < n"
  proof -
    from that d1(4) have "1 < length ps"
      by linarith
    with that show ?thesis
      by (simp add: ps'_def ps2_def)
  qed
  have el: "ps' ! i = edit_par ev (ps ! i) (if i = 0 then t1 else t2)" if "i < n \<and> i < 2" for i
  proof -
    from that consider "i = 0" "0 < n" | "i = 1" "1 < n"
      by (cases i) auto
    then show ?thesis
      using p0 p1 by cases simp_all
  qed
  have vals: "val (ps' ! i) = clamp_to (min_val (ps ! i)) (max_val (ps ! i))
                                  (safe_eval ev (if i = 0 then t1 else t2) (val (ps ! i)))
                \<and> min_val (ps' ! i) = min_val (ps ! i) \<and> max_val (ps' ! i) = max_val (ps ! i)
                \<and> (\<forall>lo hi. min_val (ps ! i) = Fin lo \<and> max_val (ps ! i) = Fin hi \<and> lo \<le> hi \<longrightarrow>
                      (if safe_eval ev (if i = 0 then t1 else t2) (val (ps ! i)) = NaN
                       then val (ps' ! i) = NaN
                       else \<exists>v. val (ps' ! i) = Fin v \<and> lo \<le> v \<and> v \<le> hi))"
    if "i < n \<and> i < 2" for i
    unfolding el [OF that] edit_par_simps using clamp_to_Fin by simp
  have other: "ps' ! i = ps ! i" if "i < length ps \<and> \<not> (i < n \<and> i < 2)" for i
  proof -
    from that have "(0 < n \<longrightarrow> i \<noteq> 0) \<and> (1 < n \<longrightarrow> i \<noteq> 1)"
      by auto
    then show ?thesis
      by (auto simp: ps'_def ps2_def)
  qed
  have same: "update_win_params ev wd t1' t2' = update_win_params ev wd t1 t2"
    if h: "(0 < n \<longrightarrow>
                  \<not> flt (max_val (ps ! 0)) (min_val (ps ! 0))
                  \<and> safe_eval ev t1' (val (ps ! 0)) =
                      clamp_to (min_val (ps ! 0)) (max_val (ps ! 0))
                        (safe_eval ev t1 (val (ps ! 0))))
               \<and> (1 < n \<longrightarrow>
                  \<not> flt (max_val (ps ! 1)) (min_val (ps ! 1))
                  \<and> safe_eval ev t2' (val (ps ! 1)) =
                      clamp_to (min_val (ps ! 1)) (max_val (ps ! 1))
                        (safe_eval ev t2 (val (ps ! 1))))"
  proof -
    from h have e0: "edit_par ev (ps ! 0) t1' = edit_par ev (ps ! 0) t1" if "0 < n"
      using that by (simp add: edit_par_clamped_text)
    from h have e1: "edit_par ev (ps ! 1) t2' = edit_par ev (ps ! 1) t2" if "1 < n"
      using that by (simp add: edit_par_clamped_text)
    have q2: "(if 1 < n then ps[1 := edit_par ev (ps ! 1) t2'] else ps) = ps2"
      using e1 by (simp add: ps2_def)
    have q0: "(if 0 < n then ps2[0 := edit_par ev (ps2 ! 0) t1'] else ps2) = ps'"
      using e0 by (simp add: ps'_def z)
    have "update_win_params ev wd t1' t2' =
            Inr (wd1\<lparr>entries := (entries wd1)(cur \<mapsto> d3)\<rparr>, lg)"
      using update_win_params_eq [OF cur sel d1, of t1' t2', unfolded Let_def q2 q0]
      by (simp add: d3_def)
    with upd show ?thesis
      by simp
  qed
  have p3: "par d3 = Some ps'" and fn3: "fn_name d3 = fn_name d1"
    by (simp_all add: d3_def)
  have gen: "(fn_name d1 \<noteq> ''dpss'' \<and> n = 1 \<longrightarrow>
                   try_window ev' d3 g n N symm = ([], call_fnct g N [val (ps' ! 0)] symm))
                \<and> (fn_name d1 \<noteq> ''dpss'' \<and> n = 2 \<longrightarrow>
                   try_window ev' d3 g n N symm =
                     ([], call_fnct g N [val (ps' ! 0), val (ps' ! 1)] symm))
                \<and> (fn_name d1 = ''dpss'' \<and> 0 < n \<longrightarrow>
                   try_window ev' d3 g n N symm =
                     ([InfoDpss], case sig_windows ev' ''dpss'' of
                                    None \<Rightarrow> Raise ''AttributeError''
                                  | Some h \<Rightarrow> h N [val (ps' ! 0)] symm))"
    for ev' g N symm
  proof (intro conjI impI)
    assume a: "fn_name d1 \<noteq> ''dpss'' \<and> n = 1"
    with d1(4) len have "0 < length ps'"
      by linarith
    with a show "try_window ev' d3 g n N symm = ([], call_fnct g N [val (ps' ! 0)] symm)"
      using try_window_pars(1) [OF p3, of ev' g N symm] by (simp add: fn3)
  next
    assume a: "fn_name d1 \<noteq> ''dpss'' \<and> n = 2"
    with d1(4) len have "1 < length ps'"
      by linarith
    with a show "try_window ev' d3 g n N symm =
                   ([], call_fnct g N [val (ps' ! 0), val (ps' ! 1)] symm)"
      using try_window_pars(2) [OF p3, of ev' g N symm] by (simp add: fn3)
  next
    assume a: "fn_name d1 = ''dpss'' \<and> 0 < n"
    with d1(4) len have "0 < length ps'"
      by linarith
    with a show "try_window ev' d3 g n N symm =
                     ([InfoDpss], case sig_windows ev' ''dpss'' of
                                    None \<Rightarrow> Raise ''AttributeError''
                                  | Some h \<Rightarrow> h N [val (ps' ! 0)] symm)"
      using try_window_pars(3) [OF p3, of ev' g n N symm] by (simp add: fn3)
  qed
  show ?thesis
    using upd wo len vals other same gen unfolding d3_def by blast
qed

lemma kaiser_selected:
  "set_window_name demo_env (kaiser_dict shape_double v) ''Kaiser'' =
     Inr (Some shape_double, kaiser_dict shape_double v, [])"
  by (simp add: set_window_name_def in_win_dict_def window_of_def find_win_fnct_def
        fnct_of_def demo_env_def kaiser_dict_def mk_window_def Let_def)

theorem update_win_params_clamps_witness:
  "update_win_params demo_env (kaiser_dict shape_double (Fin 10)) ''30'' [] =
     update_win_params demo_env (kaiser_dict shape_double (Fin 10)) ''1000'' []
   \<and> update_win_params demo_env (kaiser_dict shape_double (Fin 10)) ''1000'' [] =
     Inr (kaiser_dict shape_double (Fin 30), [])"
proof -
  define e where "e = (mk_window ''kaiser'' (Some [\<lparr>val = Fin 10, min_val = Fin 0, max_val = Fin 30\<rparr>]))
          \<lparr>win_fnct := Some (Some shape_double), n_par := Some 1\<rparr>"
  have cur: "cur_win_name (kaiser_dict shape_double (Fin 10)) = Some ''Kaiser''"
    by (simp add: kaiser_dict_def)
  have d1: "window_of (kaiser_dict shape_double (Fin 10)) ''Kaiser'' = Inr e"
    "n_par e = Some 1"
    "par e = Some [\<lparr>val = Fin 10, min_val = Fin 0, max_val = Fin 30\<rparr>]"
    "1 \<le> length [\<lparr>val = Fin 10, min_val = Fin 0, max_val = Fin 30\<rparr>]"
    by (simp_all add: window_of_def kaiser_dict_def e_def mk_window_def)
  have c: "(0::nat) < 1 \<and>
     \<not> flt (max_val ([\<lparr>val = Fin 10, min_val = Fin 0, max_val = Fin 30\<rparr>] ! 0))
            (min_val ([\<lparr>val = Fin 10, min_val = Fin 0, max_val = Fin 30\<rparr>] ! 0)) \<and>
     safe_eval demo_env ''30'' (val ([\<lparr>val = Fin 10, min_val = Fin 0, max_val = Fin 30\<rparr>] ! 0)) =
       clamp_to (min_val ([\<lparr>val = Fin 10, min_val = Fin 0, max_val = Fin 30\<rparr>] ! 0))
                (max_val ([\<lparr>val = Fin 10, min_val = Fin 0, max_val = Fin 30\<rparr>] ! 0))
         (safe_eval demo_env ''1000''
            (val ([\<lparr>val = Fin 10, min_val = Fin 0, max_val = Fin 30\<rparr>] ! 0)))"
    by (simp add: demo_env_def clamp_to_def)
  have "update_win_params demo_env (kaiser_dict shape_double (Fin 10)) ''30'' [] =
     update_win_params demo_env (kaiser_dict shape_double (Fin 10)) ''1000'' []"
    using update_win_params_clamps [OF cur kaiser_selected d1, of "''1000''" "[]" "''30''" "[]"] c
    by auto
  moreover have "update_win_params demo_env (kaiser_dict shape_double (Fin 10)) ''1000'' [] =
     Inr (kaiser_dict shape_double (Fin 30), [])"
    using update_win_params_eq [OF cur kaiser_selected d1, of "''1000''" "[]"]
    by (simp add: kaiser_dict_def e_def mk_window_def edit_par_def demo_env_def Let_def)
  ultimately show ?thesis
    by simp
qed

text \<open>
  A value stored in the dictionary by other means reaches the generator unclamped: with
  1000 stored for the Kaiser parameter (\<open>max\<close> 30) the generator is called with 1000 and
  the result differs from the one for 30.
\<close>

theorem get_window_does_not_clamp:
  "map_sum id fst (get_window demo_env (kaiser_dict shape_double (Fin 1000)) 2 None False) =
     Inr (Array [Fin (2000 / 1001), Fin (2 / 1001)])
   \<and> map_sum id fst (get_window demo_env (kaiser_dict shape_double (Fin 30)) 2 None False) =
     Inr (Array [Fin (60 / 31), Fin (2 / 31)])
   \<and> map_sum id fst (get_window demo_env (kaiser_dict shape_double (Fin 1000)) 2 None False) \<noteq>
     map_sum id fst (get_window demo_env (kaiser_dict shape_double (Fin 30)) 2 None False)"
  by (simp add: get_window_def kaiser_dict_def py_len_def compute_window_def window_of_def
        mk_window_def raw_window_def try_window_def par_val_def call_fnct_def shape_double_def
        Let_def np_sum_def np_square_def fsum_def idiv_def)

subsection \<open>Resolving a window name\<close>

text \<open>
  The fallback as far as it goes: a name that is not in the dictionary is answered with
  the family \<open>Rectangular\<close> and a warning, when the dictionary has that family and its
  function is found in \<open>scipy.signal.windows\<close>.
\<close>

lemma unknown_name_falls_back:
  assumes "\<not> in_win_dict wd nm"
    and "entries wd ''Rectangular'' = Some d"
    and "CHR ''.'' \<notin> set (fn_name d)"
    and "sig_windows ev (fnct_of (fn_name d)) = Some g"
  shows "set_window_name ev wd nm =
           Inr (Some g,
                wd\<lparr>cur_win_name := Some ''Rectangular'', win := Some EmptyList,
                   entries := (entries wd)
                     (''Rectangular'' \<mapsto>
                        d\<lparr>win_fnct := Some (Some g),
                          n_par := Some (case par d of Some ps \<Rightarrow> length ps | None \<Rightarrow> 0)\<rparr>)\<rparr>,
                [WarnUnknownWindow nm])"
  using assms
  by (simp add: set_window_name_def window_of_def find_win_fnct_def Let_def)

lemma unknown_name_in_catalogue:
  "set_window_name demo_env all_windows_dict ''Nonexistent'' =
     Inr (Some boxcar_double,
          all_windows_dict\<lparr>cur_win_name := Some ''Rectangular'', win := Some EmptyList,
             entries := (entries all_windows_dict)
               (''Rectangular'' \<mapsto>
                  (mk_window ''boxcar'' None)\<lparr>win_fnct := Some (Some boxcar_double),
                                             n_par := Some 0\<rparr>)\<rparr>,
          [WarnUnknownWindow ''Nonexistent''])"
proof -
  have a: "\<not> in_win_dict all_windows_dict ''Nonexistent''"
    by (simp add: in_win_dict_def all_windows_dict_def)
  have b: "entries all_windows_dict ''Rectangular'' = Some (mk_window ''boxcar'' None)"
    by (simp add: all_windows_dict_def)
  have c: "CHR ''.'' \<notin> set (fn_name (mk_window ''boxcar'' None))"
    by (simp add: mk_window_def)
  have d: "sig_windows demo_env (fnct_of (fn_name (mk_window ''boxcar'' None))) = Some boxcar_double"
    by (simp add: mk_window_def fnct_of_def demo_env_def)
  show ?thesis
    using unknown_name_falls_back [OF a b c d] by (simp add: mk_window_def)
qed

text \<open>
  C7.  \<open>set_window_name\<close> raises for a name that is not in the dictionary when the
  dictionary has no family \<open>Rectangular\<close> (\<open>KeyError\<close>), and for the names \<open>win\<close> and
  \<open>cur_win_name\<close>, which are keys of the dictionary but not families (\<open>TypeError\<close>, or
  \<open>IndexError\<close> once an array is cached).
\<close>

theorem set_window_name_raises:
  "set_window_name ev (hann_dict g) ''Nonexistent'' = Inl (KeyError ''Rectangular'')
   \<and> set_window_name ev (hann_dict g) ''win'' = Inl TypeError
   \<and> set_window_name ev (hann_dict g) ''cur_win_name'' = Inl TypeError
   \<and> set_window_name ev bh5_cached ''win'' = Inl IndexError"
  by (simp add: set_window_name_def in_win_dict_def window_of_def hann_dict_def bh5_cached_def
        Let_def)



section \<open>Properties of the Chebyshev-II designer\<close>

lemma bind_err_simps [simp]:
  "bind_err (Inl e) k = Inl e"
  "bind_err (Inr x) k = k x"
  by (simp_all add: bind_err_def)

lemma get_params_eq:
  assumes "fd ''N'' = Some n" "fd ''F_PB'' = Some p" "fd ''F_SB'' = Some s"
    "fd ''F_PB2'' = Some p2" "fd ''F_SB2'' = Some s2" "fd ''A_PB'' = Some ap"
    "fd ''A_SB'' = Some as" "fd ''A_PB2'' = Some ap2" "fd ''A_SB2'' = Some as2"
  shows "get_params fd =
           Inr \<lparr>self_N = n, self_F_PB = py_mul2 p, self_F_SB = py_mul2 s,
                self_F_PB2 = py_mul2 p2, self_F_SB2 = py_mul2 s2, self_F_SBC = None,
                self_A_PB = ap, self_A_SB = as, self_A_PB2 = ap2, self_A_SB2 = as2\<rparr>"
  using assms by (simp add: get_params_def getitem_def)

lemma get_params_Inr:
  assumes "get_params fd = Inr st"
  shows "\<exists>n p s p2 s2 ap as ap2 as2.
           fd ''N'' = Some n \<and> fd ''F_PB'' = Some p \<and> fd ''F_SB'' = Some s \<and>
           fd ''F_PB2'' = Some p2 \<and> fd ''F_SB2'' = Some s2 \<and> fd ''A_PB'' = Some ap \<and>
           fd ''A_SB'' = Some as \<and> fd ''A_PB2'' = Some ap2 \<and> fd ''A_SB2'' = Some as2 \<and>
           st = \<lparr>self_N = n, self_F_PB = py_mul2 p, self_F_SB = py_mul2 s,
                self_F_PB2 = py_mul2 p2, self_F_SB2 = py_mul2 s2, self_F_SBC = None,
                self_A_PB = ap, self_A_SB = as, self_A_PB2 = ap2, self_A_SB2 = as2\<rparr>"
  using assms
  by (auto simp: get_params_def getitem_def bind_err_def split: option.splits)

lemma get_params_Inl:
  assumes "get_params fd = Inl e"
  shows "\<exists>k. e = KeyError k \<and> fd k = None"
  using assms
  by (auto simp: get_params_def getitem_def bind_err_def split: option.splits)

lemma fdiv_fmul_2: "fdiv (fmul x (Fin 2)) (Fin 2) = x"
  by (cases x) simp_all

lemma py_div2_py_mul2: "py_div2 (py_mul2 (FloatV x)) = Inr (FloatV x)"
  by (simp add: fdiv_fmul_2)

lemma save_scalar:
  assumes "save_fil sg fd arg frmt (dunder_name sg) = Inr fd1"
    and "self_F_SBC st = Some c" "np_isscalar c" "py_div2 c = Inr h"
  shows "save sg st fd arg = Inr (fd1(''N'' \<mapsto> self_N st, ''F_SB'' \<mapsto> h))"
  using assms by (simp add: save_def)

lemma save_pair:
  assumes "save_fil sg fd arg frmt (dunder_name sg) = Inr fd1"
    and "self_F_SBC st = Some (ListV [FloatV c1, FloatV c2])"
  shows "save sg st fd arg =
           Inr (fd1(''N'' \<mapsto> self_N st, ''F_SB'' \<mapsto> FloatV (fdiv c1 (Fin 2)),
                    ''F_SB2'' \<mapsto> FloatV (fdiv c2 (Fin 2))))"
  using assms by (simp add: save_def)

lemma save_fixed:
  assumes "self_F_SBC st = None"
  shows "save sg st fd arg = save_fil sg fd arg frmt (dunder_name sg)"
  using assms by (cases "save_fil sg fd arg frmt (dunder_name sg)") (simp_all add: save_def)


lemma fmul_fdiv_2: "fmul (fdiv x (Fin 2)) (Fin 2) = x"
  by (cases x) simp_all

lemma min_design_eq:
  assumes "get_params fd = Inr st"
  shows "LPmin sg fd =
           bind_err (cheb2ord sg (self_F_PB st) (self_F_SB st) (self_A_PB st) (self_A_SB st))
             (\<lambda>(n, wc). synthesize sg (st\<lparr>self_N := n, self_F_SBC := Some wc\<rparr>) fd wc ''lowpass'')"
    and "HPmin sg fd =
           bind_err (cheb2ord sg (self_F_PB st) (self_F_SB st) (self_A_PB st) (self_A_SB st))
             (\<lambda>(n, wc). synthesize sg (st\<lparr>self_N := n, self_F_SBC := Some wc\<rparr>) fd wc ''highpass'')"
    and "BPmin sg fd =
           bind_err (cheb2ord sg (ListV [self_F_PB st, self_F_PB2 st])
                       (ListV [self_F_SB st, self_F_SB2 st]) (self_A_PB st) (self_A_SB st))
             (\<lambda>(n, wc). synthesize sg (st\<lparr>self_N := n, self_F_SBC := Some wc\<rparr>) fd wc ''bandpass'')"
    and "BSmin sg fd =
           bind_err (cheb2ord sg (ListV [self_F_PB st, self_F_PB2 st])
                       (ListV [self_F_SB st, self_F_SB2 st]) (self_A_PB st) (self_A_SB st))
             (\<lambda>(n, wc). synthesize sg (st\<lparr>self_N := n, self_F_SBC := Some wc\<rparr>) fd wc ''bandstop'')"
  using assms by (simp_all add: LPmin_def HPmin_def BPmin_def BSmin_def)

lemma man_design_eq:
  assumes "get_params fd = Inr st"
  shows "LPman sg fd = synthesize sg st fd (self_F_SB st) ''low''"
    and "HPman sg fd = synthesize sg st fd (self_F_SB st) ''highpass''"
    and "BPman sg fd = synthesize sg st fd (ListV [self_F_SB st, self_F_SB2 st]) ''bandpass''"
    and "BSman sg fd = synthesize sg st fd (ListV [self_F_SB st, self_F_SB2 st]) ''bandstop''"
  using assms by (simp_all add: LPman_def HPman_def BPman_def BSman_def)

lemma get_params_written_back:
  assumes gp: "get_params fd = Inr st"
  shows "\<exists>st2. get_params (fd(''N'' \<mapsto> n, ''F_SB'' \<mapsto> FloatV (fdiv c (Fin 2)))) = Inr st2
           \<and> self_N st2 = n \<and> self_A_SB st2 = self_A_SB st \<and> self_F_SB st2 = FloatV c"
    and "\<exists>st2. get_params (fd(''N'' \<mapsto> n, ''F_SB'' \<mapsto> FloatV (fdiv c1 (Fin 2)),
                               ''F_SB2'' \<mapsto> FloatV (fdiv c2 (Fin 2)))) = Inr st2
           \<and> self_N st2 = n \<and> self_A_SB st2 = self_A_SB st
           \<and> self_F_SB st2 = FloatV c1 \<and> self_F_SB2 st2 = FloatV c2"
proof -
  from get_params_Inr [OF gp] obtain n0 p s p2 s2 ap as ap2 as2 where
    k: "fd ''N'' = Some n0" "fd ''F_PB'' = Some p" "fd ''F_SB'' = Some s"
       "fd ''F_PB2'' = Some p2" "fd ''F_SB2'' = Some s2" "fd ''A_PB'' = Some ap"
       "fd ''A_SB'' = Some as" "fd ''A_PB2'' = Some ap2" "fd ''A_SB2'' = Some as2"
    and st: "st = \<lparr>self_N = n0, self_F_PB = py_mul2 p, self_F_SB = py_mul2 s,
                self_F_PB2 = py_mul2 p2, self_F_SB2 = py_mul2 s2, self_F_SBC = None,
                self_A_PB = ap, self_A_SB = as, self_A_PB2 = ap2, self_A_SB2 = as2\<rparr>"
    by blast
  show "\<exists>st2. get_params (fd(''N'' \<mapsto> n, ''F_SB'' \<mapsto> FloatV (fdiv c (Fin 2)))) = Inr st2
           \<and> self_N st2 = n \<and> self_A_SB st2 = self_A_SB st \<and> self_F_SB st2 = FloatV c"
    using k by (simp add: get_params_def getitem_def st fmul_fdiv_2)
  show "\<exists>st2. get_params (fd(''N'' \<mapsto> n, ''F_SB'' \<mapsto> FloatV (fdiv c1 (Fin 2)),
                               ''F_SB2'' \<mapsto> FloatV (fdiv c2 (Fin 2)))) = Inr st2
           \<and> self_N st2 = n \<and> self_A_SB st2 = self_A_SB st
           \<and> self_F_SB st2 = FloatV c1 \<and> self_F_SB2 st2 = FloatV c2"
    using k by (simp add: get_params_def getitem_def st fmul_fdiv_2)
qed

text \<open>
  C2.  Once the parameters are read, each minimum-order method (\<open>LPmin\<close>, \<open>HPmin\<close>,
  \<open>BPmin\<close>, \<open>BSmin\<close>) first calls \<open>cheb2ord\<close> on the doubled passband and stopband
  edges and on ripple and attenuation; when that returns the order \<open>n\<close> and the corner
  frequency or frequencies \<open>wc\<close>, the method is the synthesis step of the fixed-order
  methods, \<open>cheby2\<close> followed by \<open>save\<close>, run at \<open>n\<close> and \<open>wc\<close> instead of the
  requested order and stopband edges; when \<open>cheb2ord\<close> raises, nothing is synthesized.
  The fixed-order method on the record as written back (\<open>N = n\<close>, \<open>F_SB = wc/2\<close>) calls
  \<open>cheby2\<close> with the same order, attenuation and corner frequencies.
\<close>

theorem min_order_uses_computed_order_and_edges:
  assumes gp: "get_params fd = Inr st"
  shows "(cheb2ord sg (self_F_PB st) (self_F_SB st) (self_A_PB st) (self_A_SB st) = Inr (n, wc) \<longrightarrow>
            LPmin sg fd = synthesize sg (st\<lparr>self_N := n, self_F_SBC := Some wc\<rparr>) fd wc ''lowpass''
          \<and> HPmin sg fd = synthesize sg (st\<lparr>self_N := n, self_F_SBC := Some wc\<rparr>) fd wc ''highpass'')
       \<and> (cheb2ord sg (ListV [self_F_PB st, self_F_PB2 st]) (ListV [self_F_SB st, self_F_SB2 st])
              (self_A_PB st) (self_A_SB st) = Inr (n, wc) \<longrightarrow>
            BPmin sg fd = synthesize sg (st\<lparr>self_N := n, self_F_SBC := Some wc\<rparr>) fd wc ''bandpass''
          \<and> BSmin sg fd = synthesize sg (st\<lparr>self_N := n, self_F_SBC := Some wc\<rparr>) fd wc ''bandstop'')
       \<and> (cheb2ord sg (self_F_PB st) (self_F_SB st) (self_A_PB st) (self_A_SB st) = Inl e \<longrightarrow>
            LPmin sg fd = Inl e \<and> HPmin sg fd = Inl e)
       \<and> (cheb2ord sg (ListV [self_F_PB st, self_F_PB2 st]) (ListV [self_F_SB st, self_F_SB2 st])
              (self_A_PB st) (self_A_SB st) = Inl e \<longrightarrow>
            BPmin sg fd = Inl e \<and> BSmin sg fd = Inl e)
       \<and> synthesize sg (st\<lparr>self_N := n, self_F_SBC := Some wc\<rparr>) fd wc btype =
            bind_err (cheby2 sg n (self_A_SB st) wc btype False frmt)
              (\<lambda>arg. bind_err (save sg (st\<lparr>self_N := n, self_F_SBC := Some wc\<rparr>) fd arg)
                 (\<lambda>fd'. Inr (st\<lparr>self_N := n, self_F_SBC := Some wc\<rparr>, fd')))
       \<and> (\<exists>st2. get_params (fd(''N'' \<mapsto> n, ''F_SB'' \<mapsto> FloatV (fdiv c (Fin 2)))) = Inr st2
             \<and> HPman sg (fd(''N'' \<mapsto> n, ''F_SB'' \<mapsto> FloatV (fdiv c (Fin 2)))) =
                 bind_err (cheby2 sg n (self_A_SB st) (FloatV c) ''highpass'' False frmt)
                   (\<lambda>arg. bind_err (save sg st2 (fd(''N'' \<mapsto> n, ''F_SB'' \<mapsto> FloatV (fdiv c (Fin 2)))) arg)
                      (\<lambda>fd'. Inr (st2, fd'))))
       \<and> (\<exists>st2. get_params (fd(''N'' \<mapsto> n, ''F_SB'' \<mapsto> FloatV (fdiv c1 (Fin 2)),
                                  ''F_SB2'' \<mapsto> FloatV (fdiv c2 (Fin 2)))) = Inr st2
             \<and> BPman sg (fd(''N'' \<mapsto> n, ''F_SB'' \<mapsto> FloatV (fdiv c1 (Fin 2)),
                              ''F_SB2'' \<mapsto> FloatV (fdiv c2 (Fin 2)))) =
                 bind_err (cheby2 sg n (self_A_SB st) (ListV [FloatV c1, FloatV c2]) ''bandpass''
                             False frmt)
                   (\<lambda>arg. bind_err (save sg st2 (fd(''N'' \<mapsto> n, ''F_SB'' \<mapsto> FloatV (fdiv c1 (Fin 2)),
                              ''F_SB2'' \<mapsto> FloatV (fdiv c2 (Fin 2)))) arg)
                      (\<lambda>fd'. Inr (st2, fd'))))"
proof -
  have syn: "synthesize sg (st\<lparr>self_N := n, self_F_SBC := Some wc\<rparr>) fd wc btype =
            bind_err (cheby2 sg n (self_A_SB st) wc btype False frmt)
              (\<lambda>arg. bind_err (save sg (st\<lparr>self_N := n, self_F_SBC := Some wc\<rparr>) fd arg)
                 (\<lambda>fd'. Inr (st\<lparr>self_N := n, self_F_SBC := Some wc\<rparr>, fd')))"
    by (simp add: synthesize_def)
  from get_params_written_back(1) [OF gp, of n c] obtain st2 where
    s2: "get_params (fd(''N'' \<mapsto> n, ''F_SB'' \<mapsto> FloatV (fdiv c (Fin 2)))) = Inr st2"
        "self_N st2 = n" "self_A_SB st2 = self_A_SB st" "self_F_SB st2 = FloatV c"
    by blast
  have hp: "HPman sg (fd(''N'' \<mapsto> n, ''F_SB'' \<mapsto> FloatV (fdiv c (Fin 2)))) =
                 bind_err (cheby2 sg n (self_A_SB st) (FloatV c) ''highpass'' False frmt)
                   (\<lambda>arg. bind_err (save sg st2 (fd(''N'' \<mapsto> n, ''F_SB'' \<mapsto> FloatV (fdiv c (Fin 2)))) arg)
                      (\<lambda>fd'. Inr (st2, fd')))"
    using man_design_eq(2) [OF s2(1), of sg] s2(2-4) by (simp add: synthesize_def)
  from get_params_written_back(2) [OF gp, of n c1 c2] obtain st3 where
    s3: "get_params (fd(''N'' \<mapsto> n, ''F_SB'' \<mapsto> FloatV (fdiv c1 (Fin 2)),
                               ''F_SB2'' \<mapsto> FloatV (fdiv c2 (Fin 2)))) = Inr st3"
        "self_N st3 = n" "self_A_SB st3 = self_A_SB st"
        "self_F_SB st3 = FloatV c1" "self_F_SB2 st3 = FloatV c2"
    by blast
  have bp: "BPman sg (fd(''N'' \<mapsto> n, ''F_SB'' \<mapsto> FloatV (fdiv c1 (Fin 2)),
                              ''F_SB2'' \<mapsto> FloatV (fdiv c2 (Fin 2)))) =
                 bind_err (cheby2 sg n (self_A_SB st) (ListV [FloatV c1, FloatV c2]) ''bandpass''
                             False frmt)
                   (\<lambda>arg. bind_err (save sg st3 (fd(''N'' \<mapsto> n, ''F_SB'' \<mapsto> FloatV (fdiv c1 (Fin 2)),
                              ''F_SB2'' \<mapsto> FloatV (fdiv c2 (Fin 2)))) arg)
                      (\<lambda>fd'. Inr (st3, fd')))"
    using man_design_eq(3) [OF s3(1), of sg] s3(2-5) by (simp add: synthesize_def)
  show ?thesis
    using min_design_eq [OF gp, of sg] syn s2(1) hp s3(1) bp by auto
qed


theorem min_order_uses_computed_order_and_edges_witness:
  "map_sum id snd (LPmin demo_sig (lp_spec (1/5) (3/10) 1 40)) =
     Inr ((lp_spec (1/5) (3/10) 1 40)
            (''ba'' \<mapsto> ListV [IntV 4, FloatV (Fin 40), FloatV (Fin (11/20))],
             ''N'' \<mapsto> IntV 4, ''F_SB'' \<mapsto> FloatV (Fin (11/40))))
   \<and> map_sum id snd (LPman demo_sig (lp_spec (1/5) (3/10) 1 40)) =
     Inr ((lp_spec (1/5) (3/10) 1 40)
            (''ba'' \<mapsto> ListV [IntV 1, FloatV (Fin 40), FloatV (Fin (3/5))]))"
proof -
  define st where "st = \<lparr>self_N = IntV 1, self_F_PB = FloatV (Fin (2/5)),
      self_F_SB = FloatV (Fin (3/5)), self_F_PB2 = FloatV (Fin (4/5)),
      self_F_SB2 = FloatV (Fin (9/10)), self_F_SBC = None, self_A_PB = FloatV (Fin 1),
      self_A_SB = FloatV (Fin 40), self_A_PB2 = FloatV (Fin 1), self_A_SB2 = FloatV (Fin 40)\<rparr>"
  have gp: "get_params (lp_spec (1/5) (3/10) 1 40) = Inr st"
    by (simp add: get_params_def getitem_def lp_spec_def st_def)
  have ord: "cheb2ord demo_sig (self_F_PB st) (self_F_SB st) (self_A_PB st) (self_A_SB st) =
               Inr (IntV 4, FloatV (Fin (11/20)))"
    by (simp add: demo_sig_def cheb2ord_double_def st_def)
  note t = min_order_uses_computed_order_and_edges [OF gp, of demo_sig "IntV 4" "FloatV (Fin (11/20))"]
  from t ord have "LPmin demo_sig (lp_spec (1/5) (3/10) 1 40) =
      synthesize demo_sig (st\<lparr>self_N := IntV 4, self_F_SBC := Some (FloatV (Fin (11/20)))\<rparr>)
        (lp_spec (1/5) (3/10) 1 40) (FloatV (Fin (11/20))) ''lowpass''"
    by blast
  then have "map_sum id snd (LPmin demo_sig (lp_spec (1/5) (3/10) 1 40)) =
     Inr ((lp_spec (1/5) (3/10) 1 40)
            (''ba'' \<mapsto> ListV [IntV 4, FloatV (Fin 40), FloatV (Fin (11/20))],
             ''N'' \<mapsto> IntV 4, ''F_SB'' \<mapsto> FloatV (Fin (11/40))))"
    by (simp add: synthesize_def save_def demo_sig_def cheby2_double_def save_fil_double_def
          st_def frmt_def)
  moreover have "map_sum id snd (LPman demo_sig (lp_spec (1/5) (3/10) 1 40)) =
     Inr ((lp_spec (1/5) (3/10) 1 40)
            (''ba'' \<mapsto> ListV [IntV 1, FloatV (Fin 40), FloatV (Fin (3/5))]))"
    using gp
    by (simp add: LPman_def synthesize_def save_def demo_sig_def cheby2_double_def
          save_fil_double_def st_def frmt_def)
  ultimately show ?thesis
    by simp
qed

text \<open>
  C3.  \<open>get_params\<close> multiplies each of the four edge frequencies of the record by 2, and
  these doubled values are what all eight design methods pass to \<open>cheb2ord\<close> and
  \<open>cheby2\<close>.  \<open>save\<close> divides each computed corner frequency by 2 before it writes it
  to the record.  Dividing a doubled value by 2 gives the value back, so a minimum-order
  lowpass design whose order estimation returns the stopband edge it was given writes the
  record's own stopband edge back.
\<close>

theorem edges_doubled_and_halved:
  assumes gp: "get_params fd = Inr st"
  shows "(\<exists>p s p2 s2. fd ''F_PB'' = Some p \<and> fd ''F_SB'' = Some s
             \<and> fd ''F_PB2'' = Some p2 \<and> fd ''F_SB2'' = Some s2
             \<and> self_F_PB st = py_mul2 p \<and> self_F_SB st = py_mul2 s
             \<and> self_F_PB2 st = py_mul2 p2 \<and> self_F_SB2 st = py_mul2 s2)
       \<and> py_mul2 (FloatV (Fin x)) = FloatV (Fin (x * 2))
       \<and> py_mul2 (IntV i) = IntV (i * 2)
       \<and> LPman sg fd = synthesize sg st fd (self_F_SB st) ''low''
       \<and> HPman sg fd = synthesize sg st fd (self_F_SB st) ''highpass''
       \<and> BPman sg fd = synthesize sg st fd (ListV [self_F_SB st, self_F_SB2 st]) ''bandpass''
       \<and> BSman sg fd = synthesize sg st fd (ListV [self_F_SB st, self_F_SB2 st]) ''bandstop''
       \<and> LPmin sg fd =
           bind_err (cheb2ord sg (self_F_PB st) (self_F_SB st) (self_A_PB st) (self_A_SB st))
             (\<lambda>(n, wc). synthesize sg (st\<lparr>self_N := n, self_F_SBC := Some wc\<rparr>) fd wc ''lowpass'')
       \<and> HPmin sg fd =
           bind_err (cheb2ord sg (self_F_PB st) (self_F_SB st) (self_A_PB st) (self_A_SB st))
             (\<lambda>(n, wc). synthesize sg (st\<lparr>self_N := n, self_F_SBC := Some wc\<rparr>) fd wc ''highpass'')
       \<and> BPmin sg fd =
           bind_err (cheb2ord sg (ListV [self_F_PB st, self_F_PB2 st])
                       (ListV [self_F_SB st, self_F_SB2 st]) (self_A_PB st) (self_A_SB st))
             (\<lambda>(n, wc). synthesize sg (st\<lparr>self_N := n, self_F_SBC := Some wc\<rparr>) fd wc ''bandpass'')
       \<and> BSmin sg fd =
           bind_err (cheb2ord sg (ListV [self_F_PB st, self_F_PB2 st])
                       (ListV [self_F_SB st, self_F_SB2 st]) (self_A_PB st) (self_A_SB st))
             (\<lambda>(n, wc). synthesize sg (st\<lparr>self_N := n, self_F_SBC := Some wc\<rparr>) fd wc ''bandstop'')
       \<and> (save_fil sg fd arg frmt (dunder_name sg) = Inr fd1 \<longrightarrow>
            save sg (st\<lparr>self_N := n, self_F_SBC := Some (FloatV c)\<rparr>) fd arg =
              Inr (fd1(''N'' \<mapsto> n, ''F_SB'' \<mapsto> FloatV (fdiv c (Fin 2))))
          \<and> save sg (st\<lparr>self_N := n, self_F_SBC := Some (ListV [FloatV c1, FloatV c2])\<rparr>) fd arg =
              Inr (fd1(''N'' \<mapsto> n, ''F_SB'' \<mapsto> FloatV (fdiv c1 (Fin 2)),
                       ''F_SB2'' \<mapsto> FloatV (fdiv c2 (Fin 2))))
          \<and> save sg st fd arg = Inr fd1)
       \<and> fdiv (Fin y) (Fin 2) = Fin (y / 2)
       \<and> fdiv (fmul c (Fin 2)) (Fin 2) = c
       \<and> (fd ''F_SB'' = Some (FloatV c)
            \<and> cheb2ord sg (self_F_PB st) (self_F_SB st) (self_A_PB st) (self_A_SB st) =
                Inr (n, self_F_SB st)
            \<and> cheby2 sg n (self_A_SB st) (self_F_SB st) ''lowpass'' False frmt = Inr arg
            \<and> save_fil sg fd arg frmt (dunder_name sg) = Inr fd1 \<longrightarrow>
          LPmin sg fd = Inr (st\<lparr>self_N := n, self_F_SBC := Some (self_F_SB st)\<rparr>,
                             fd1(''N'' \<mapsto> n, ''F_SB'' \<mapsto> FloatV c)))"
proof -
  from get_params_Inr [OF gp] obtain n0 p s p2 s2 ap as ap2 as2 where
    k: "fd ''N'' = Some n0" "fd ''F_PB'' = Some p" "fd ''F_SB'' = Some s"
       "fd ''F_PB2'' = Some p2" "fd ''F_SB2'' = Some s2" "fd ''A_PB'' = Some ap"
       "fd ''A_SB'' = Some as" "fd ''A_PB2'' = Some ap2" "fd ''A_SB2'' = Some as2"
    and st: "st = \<lparr>self_N = n0, self_F_PB = py_mul2 p, self_F_SB = py_mul2 s,
                self_F_PB2 = py_mul2 p2, self_F_SB2 = py_mul2 s2, self_F_SBC = None,
                self_A_PB = ap, self_A_SB = as, self_A_PB2 = ap2, self_A_SB2 = as2\<rparr>"
    by blast
  have edges: "\<exists>p s p2 s2. fd ''F_PB'' = Some p \<and> fd ''F_SB'' = Some s
             \<and> fd ''F_PB2'' = Some p2 \<and> fd ''F_SB2'' = Some s2
             \<and> self_F_PB st = py_mul2 p \<and> self_F_SB st = py_mul2 s
             \<and> self_F_PB2 st = py_mul2 p2 \<and> self_F_SB2 st = py_mul2 s2"
    using k by (simp add: st)
  have none: "self_F_SBC st = None"
    by (simp add: st)
  have sv: "save sg (st\<lparr>self_N := n, self_F_SBC := Some (FloatV c)\<rparr>) fd arg =
              Inr (fd1(''N'' \<mapsto> n, ''F_SB'' \<mapsto> FloatV (fdiv c (Fin 2))))
          \<and> save sg (st\<lparr>self_N := n, self_F_SBC := Some (ListV [FloatV c1, FloatV c2])\<rparr>) fd arg =
              Inr (fd1(''N'' \<mapsto> n, ''F_SB'' \<mapsto> FloatV (fdiv c1 (Fin 2)),
                       ''F_SB2'' \<mapsto> FloatV (fdiv c2 (Fin 2))))
          \<and> save sg st fd arg = Inr fd1"
    if "save_fil sg fd arg frmt (dunder_name sg) = Inr fd1"
    using that save_scalar [OF that, of "st\<lparr>self_N := n, self_F_SBC := Some (FloatV c)\<rparr>" "FloatV c"]
      save_pair [OF that, of "st\<lparr>self_N := n, self_F_SBC := Some (ListV [FloatV c1, FloatV c2])\<rparr>"]
      save_fixed [OF none, of sg fd arg]
    by simp
  have rt: "LPmin sg fd = Inr (st\<lparr>self_N := n, self_F_SBC := Some (self_F_SB st)\<rparr>,
                             fd1(''N'' \<mapsto> n, ''F_SB'' \<mapsto> FloatV c))"
    if "fd ''F_SB'' = Some (FloatV c)
            \<and> cheb2ord sg (self_F_PB st) (self_F_SB st) (self_A_PB st) (self_A_SB st) =
                Inr (n, self_F_SB st)
            \<and> cheby2 sg n (self_A_SB st) (self_F_SB st) ''lowpass'' False frmt = Inr arg
            \<and> save_fil sg fd arg frmt (dunder_name sg) = Inr fd1"
  proof -
    from that k(3) have s: "s = FloatV c"
      by simp
    then have fsb: "self_F_SB st = FloatV (fmul c (Fin 2))"
      by (simp add: st)
    have "save sg (st\<lparr>self_N := n, self_F_SBC := Some (self_F_SB st)\<rparr>) fd arg =
            Inr (fd1(''N'' \<mapsto> n, ''F_SB'' \<mapsto> FloatV c))"
      using that by (simp add: save_def fsb fdiv_fmul_2)
    then show ?thesis
      using that min_design_eq(1) [OF gp, of sg] by (simp add: synthesize_def)
  qed
  have ar: "py_mul2 (FloatV (Fin x)) = FloatV (Fin (x * 2))" "py_mul2 (IntV i) = IntV (i * 2)"
    "fdiv (Fin y) (Fin 2) = Fin (y / 2)" "fdiv (fmul c (Fin 2)) (Fin 2) = c"
    by (simp_all add: fdiv_fmul_2)
  show ?thesis
    using edges ar man_design_eq [OF gp, of sg] min_design_eq [OF gp, of sg] sv rt
    by (intro conjI impI) blast+
qed


theorem edges_doubled_and_halved_witness:
  "map_sum id self_F_SB (get_params (lp_spec (1/5) (11/40) 1 40)) = Inr (FloatV (Fin (11/20)))
   \<and> map_sum id snd (LPmin demo_sig (lp_spec (1/5) (11/40) 1 40)) =
       Inr ((lp_spec (1/5) (11/40) 1 40)
              (''ba'' \<mapsto> ListV [IntV 4, FloatV (Fin 40), FloatV (Fin (11/20))],
               ''N'' \<mapsto> IntV 4, ''F_SB'' \<mapsto> FloatV (Fin (11/40))))"
proof -
  define st where "st = \<lparr>self_N = IntV 1, self_F_PB = FloatV (Fin (2/5)),
      self_F_SB = FloatV (Fin (11/20)), self_F_PB2 = FloatV (Fin (4/5)),
      self_F_SB2 = FloatV (Fin (9/10)), self_F_SBC = None, self_A_PB = FloatV (Fin 1),
      self_A_SB = FloatV (Fin 40), self_A_PB2 = FloatV (Fin 1), self_A_SB2 = FloatV (Fin 40)\<rparr>"
  have gp: "get_params (lp_spec (1/5) (11/40) 1 40) = Inr st"
    by (simp add: get_params_def getitem_def lp_spec_def st_def)
  have h: "lp_spec (1/5) (11/40) 1 40 ''F_SB'' = Some (FloatV (Fin (11/40)))
      \<and> cheb2ord demo_sig (self_F_PB st) (self_F_SB st) (self_A_PB st) (self_A_SB st) =
          Inr (IntV 4, self_F_SB st)
      \<and> cheby2 demo_sig (IntV 4) (self_A_SB st) (self_F_SB st) ''lowpass'' False frmt =
          Inr (ListV [IntV 4, FloatV (Fin 40), FloatV (Fin (11/20))])
      \<and> save_fil demo_sig (lp_spec (1/5) (11/40) 1 40)
           (ListV [IntV 4, FloatV (Fin 40), FloatV (Fin (11/20))]) frmt (dunder_name demo_sig) =
          Inr ((lp_spec (1/5) (11/40) 1 40)
                 (''ba'' \<mapsto> ListV [IntV 4, FloatV (Fin 40), FloatV (Fin (11/20))]))"
    by (simp add: lp_spec_def demo_sig_def cheb2ord_double_def cheby2_double_def
          save_fil_double_def st_def frmt_def)
  note t = edges_doubled_and_halved [OF gp, where sg = demo_sig
      and arg = "ListV [IntV 4, FloatV (Fin 40), FloatV (Fin (11/20))]"
      and ?fd1.0 = "(lp_spec (1/5) (11/40) 1 40)
                      (''ba'' \<mapsto> ListV [IntV 4, FloatV (Fin 40), FloatV (Fin (11/20))])"
      and n = "IntV 4" and c = "Fin (11/40)"]
  from t h have "LPmin demo_sig (lp_spec (1/5) (11/40) 1 40) =
      Inr (st\<lparr>self_N := IntV 4, self_F_SBC := Some (self_F_SB st)\<rparr>,
           (lp_spec (1/5) (11/40) 1 40)
              (''ba'' \<mapsto> ListV [IntV 4, FloatV (Fin 40), FloatV (Fin (11/20))],
               ''N'' \<mapsto> IntV 4, ''F_SB'' \<mapsto> FloatV (Fin (11/40))))"
    by blast
  then show ?thesis
    using gp by (simp add: st_def)
qed

text \<open>
  C5, as amended.  The design methods validate nothing.  \<open>LPmin\<close> returns coefficients
  whenever the record has its nine parameters and \<open>cheb2ord\<close> (with a scalar corner
  frequency), \<open>cheby2\<close> and \<open>save_fil\<close> return, whatever the order of the band edges and
  the signs of ripple and attenuation; \<open>get_params\<close> succeeds as soon as the nine keys
  are present; and when a key is missing every design method fails with the
  \<open>KeyError\<close> of that key, before any routine is called.
\<close>

theorem design_does_not_validate:
  "(get_params fd = Inr st
      \<and> cheb2ord sg (self_F_PB st) (self_F_SB st) (self_A_PB st) (self_A_SB st) = Inr (n, wc)
      \<and> np_isscalar wc
      \<and> cheby2 sg n (self_A_SB st) wc ''lowpass'' False frmt = Inr arg
      \<and> save_fil sg fd arg frmt (dunder_name sg) = Inr fd1 \<longrightarrow>
    (\<exists>h. py_div2 wc = Inr h
        \<and> LPmin sg fd = Inr (st\<lparr>self_N := n, self_F_SBC := Some wc\<rparr>,
                            fd1(''N'' \<mapsto> n, ''F_SB'' \<mapsto> h))))
   \<and> (fd ''N'' \<noteq> None \<and> fd ''F_PB'' \<noteq> None \<and> fd ''F_SB'' \<noteq> None \<and> fd ''F_PB2'' \<noteq> None
        \<and> fd ''F_SB2'' \<noteq> None \<and> fd ''A_PB'' \<noteq> None \<and> fd ''A_SB'' \<noteq> None
        \<and> fd ''A_PB2'' \<noteq> None \<and> fd ''A_SB2'' \<noteq> None \<longrightarrow>
      (\<exists>st'. get_params fd = Inr st'))
   \<and> (get_params fd = Inl e \<longrightarrow>
        (\<exists>k. e = KeyError k \<and> fd k = None)
        \<and> LPmin sg fd = Inl e \<and> HPmin sg fd = Inl e \<and> BPmin sg fd = Inl e \<and> BSmin sg fd = Inl e
        \<and> LPman sg fd = Inl e \<and> HPman sg fd = Inl e \<and> BPman sg fd = Inl e \<and> BSman sg fd = Inl e)"
proof (intro conjI impI)
  assume a: "get_params fd = Inr st
      \<and> cheb2ord sg (self_F_PB st) (self_F_SB st) (self_A_PB st) (self_A_SB st) = Inr (n, wc)
      \<and> np_isscalar wc
      \<and> cheby2 sg n (self_A_SB st) wc ''lowpass'' False frmt = Inr arg
      \<and> save_fil sg fd arg frmt (dunder_name sg) = Inr fd1"
  then obtain h where h: "py_div2 wc = Inr h"
    by (cases wc) simp_all
  from a h have "save sg (st\<lparr>self_N := n, self_F_SBC := Some wc\<rparr>) fd arg =
                   Inr (fd1(''N'' \<mapsto> n, ''F_SB'' \<mapsto> h))"
    by (simp add: save_def)
  with a have "LPmin sg fd = Inr (st\<lparr>self_N := n, self_F_SBC := Some wc\<rparr>,
                            fd1(''N'' \<mapsto> n, ''F_SB'' \<mapsto> h))"
    by (simp add: LPmin_def synthesize_def)
  with h show "\<exists>h. py_div2 wc = Inr h
        \<and> LPmin sg fd = Inr (st\<lparr>self_N := n, self_F_SBC := Some wc\<rparr>,
                            fd1(''N'' \<mapsto> n, ''F_SB'' \<mapsto> h))"
    by blast
next
  assume "fd ''N'' \<noteq> None \<and> fd ''F_PB'' \<noteq> None \<and> fd ''F_SB'' \<noteq> None \<and> fd ''F_PB2'' \<noteq> None
        \<and> fd ''F_SB2'' \<noteq> None \<and> fd ''A_PB'' \<noteq> None \<and> fd ''A_SB'' \<noteq> None
        \<and> fd ''A_PB2'' \<noteq> None \<and> fd ''A_SB2'' \<noteq> None"
  then show "\<exists>st'. get_params fd = Inr st'"
    by (auto simp: get_params_def getitem_def)
next
  assume e: "get_params fd = Inl e"
  then show "\<exists>k. e = KeyError k \<and> fd k = None"
    by (rule get_params_Inl)
  from e show "LPmin sg fd = Inl e" "HPmin sg fd = Inl e" "BPmin sg fd = Inl e"
    "BSmin sg fd = Inl e" "LPman sg fd = Inl e" "HPman sg fd = Inl e" "BPman sg fd = Inl e"
    "BSman sg fd = Inl e"
    by (simp_all add: LPmin_def HPmin_def BPmin_def BSmin_def LPman_def HPman_def BPman_def
          BSman_def)
qed

theorem design_does_not_validate_witness:
  "map_sum id snd (LPmin demo_sig (lp_spec (3/10) (1/5) (- 1) 40)) =
     Inr ((lp_spec (3/10) (1/5) (- 1) 40)
            (''ba'' \<mapsto> ListV [IntV 4, FloatV (Fin 40), FloatV (Fin (11/20))],
             ''N'' \<mapsto> IntV 4, ''F_SB'' \<mapsto> FloatV (Fin (11/40))))
   \<and> LPmin demo_sig Map.empty = Inl (KeyError ''N'')"
proof -
  define st where "st = \<lparr>self_N = IntV 1, self_F_PB = FloatV (Fin (3/5)),
      self_F_SB = FloatV (Fin (2/5)), self_F_PB2 = FloatV (Fin (4/5)),
      self_F_SB2 = FloatV (Fin (9/10)), self_F_SBC = None, self_A_PB = FloatV (Fin (- 1)),
      self_A_SB = FloatV (Fin 40), self_A_PB2 = FloatV (Fin (- 1)), self_A_SB2 = FloatV (Fin 40)\<rparr>"
  have k: "lp_spec (3/10) (1/5) (- 1) 40 ''N'' \<noteq> None \<and> lp_spec (3/10) (1/5) (- 1) 40 ''F_PB'' \<noteq> None
     \<and> lp_spec (3/10) (1/5) (- 1) 40 ''F_SB'' \<noteq> None \<and> lp_spec (3/10) (1/5) (- 1) 40 ''F_PB2'' \<noteq> None
     \<and> lp_spec (3/10) (1/5) (- 1) 40 ''F_SB2'' \<noteq> None \<and> lp_spec (3/10) (1/5) (- 1) 40 ''A_PB'' \<noteq> None
     \<and> lp_spec (3/10) (1/5) (- 1) 40 ''A_SB'' \<noteq> None \<and> lp_spec (3/10) (1/5) (- 1) 40 ''A_PB2'' \<noteq> None
     \<and> lp_spec (3/10) (1/5) (- 1) 40 ''A_SB2'' \<noteq> None"
    by (simp add: lp_spec_def)
  have a: "get_params (lp_spec (3/10) (1/5) (- 1) 40) = Inr st
      \<and> cheb2ord demo_sig (self_F_PB st) (self_F_SB st) (self_A_PB st) (self_A_SB st) =
          Inr (IntV 4, FloatV (Fin (11/20)))
      \<and> np_isscalar (FloatV (Fin (11/20)))
      \<and> cheby2 demo_sig (IntV 4) (self_A_SB st) (FloatV (Fin (11/20))) ''lowpass'' False frmt =
          Inr (ListV [IntV 4, FloatV (Fin 40), FloatV (Fin (11/20))])
      \<and> save_fil demo_sig (lp_spec (3/10) (1/5) (- 1) 40)
           (ListV [IntV 4, FloatV (Fin 40), FloatV (Fin (11/20))]) frmt (dunder_name demo_sig) =
          Inr ((lp_spec (3/10) (1/5) (- 1) 40)
                 (''ba'' \<mapsto> ListV [IntV 4, FloatV (Fin 40), FloatV (Fin (11/20))]))"
    by (simp add: get_params_def getitem_def lp_spec_def demo_sig_def cheb2ord_double_def
          cheby2_double_def save_fil_double_def st_def frmt_def)
  have e: "get_params Map.empty = Inl (KeyError ''N'')"
    by (simp add: get_params_def getitem_def)
  note t1 = design_does_not_validate [where fd = "lp_spec (3/10) (1/5) (- 1) 40" and st = st
      and sg = demo_sig and n = "IntV 4" and wc = "FloatV (Fin (11/20))"
      and arg = "ListV [IntV 4, FloatV (Fin 40), FloatV (Fin (11/20))]"
      and ?fd1.0 = "(lp_spec (3/10) (1/5) (- 1) 40)
                 (''ba'' \<mapsto> ListV [IntV 4, FloatV (Fin 40), FloatV (Fin (11/20))])"]
  note t2 = design_does_not_validate [where fd = Map.empty and sg = demo_sig
      and e = "KeyError ''N''"]
  from t1 a k obtain h where "py_div2 (FloatV (Fin (11/20))) = Inr h"
    "LPmin demo_sig (lp_spec (3/10) (1/5) (- 1) 40) =
       Inr (st\<lparr>self_N := IntV 4, self_F_SBC := Some (FloatV (Fin (11/20)))\<rparr>,
            ((lp_spec (3/10) (1/5) (- 1) 40)
                 (''ba'' \<mapsto> ListV [IntV 4, FloatV (Fin 40), FloatV (Fin (11/20))]))
              (''N'' \<mapsto> IntV 4, ''F_SB'' \<mapsto> h))"
    by blast
  moreover from t2 e have "LPmin demo_sig Map.empty = Inl (KeyError ''N'')"
    by blast
  ultimately show ?thesis
    by auto
qed

text \<open>
  A lowpass specification with the passband edge above the stopband edge, and one with
  negative ripple and attenuation, are designed without an error.
\<close>

theorem LPmin_accepts_invalid_specification:
  "map_sum id (\<lambda>r. snd r ''ba'') (LPmin demo_sig (lp_spec (3/10) (1/5) 1 40)) =
     Inr (Some (ListV [IntV 4, FloatV (Fin 40), FloatV (Fin (11/20))]))
   \<and> map_sum id (\<lambda>r. snd r ''ba'') (LPmin demo_sig (lp_spec (1/5) (3/10) (- 1) (- 40))) =
     Inr (Some (ListV [IntV 4, FloatV (Fin (- 40)), FloatV (Fin (11/20))]))"
  by (simp add: LPmin_def synthesize_def save_def get_params_def getitem_def lp_spec_def
        demo_sig_def cheb2ord_double_def cheby2_double_def save_fil_double_def frmt_def)


end
